theory Spec2Isabelle
  imports Main "HOL-Library.Word"
begin

section \<open>Python values, exceptions and the observable world\<close>

text \<open>
  The script \<^verbatim>\<open>scripts/3-report/gcs_reports.py\<close> reads a quarterly CSV file into a
  pandas data frame, draws three bar charts from it and hands the result to the git
  helpers of the \<^verbatim>\<open>shared\<close> module. The model below follows the script function by
  function. Everything a function does besides returning is threaded through a
  \<open>world\<close>: the files on disk, the data-frame objects on the heap and the trace of
  calls into the logger, matplotlib and the \<^verbatim>\<open>shared\<close> helpers.

  A cell of the table is what pandas reads from a field of the CSV file: a 64-bit
  integer (\<open>Num\<close>), a 64-bit float (\<open>Flt\<close>, given by its IEEE 754 bit pattern; a blank
  field is read as the float NaN) or a piece of text (\<open>Str\<close>). Boolean columns are not
  part of the model.
\<close>

datatype cell = Num "64 word" | Flt "64 word" | Str string

fun is_int :: "cell \<Rightarrow> bool" where
  "is_int (Num n) = True"
| "is_int (Flt x) = False"
| "is_int (Str s) = False"

fun is_num :: "cell \<Rightarrow> bool" where
  "is_num (Num n) = True"
| "is_num (Flt x) = True"
| "is_num (Str s) = False"

fun is_str :: "cell \<Rightarrow> bool" where
  "is_str (Num n) = False"
| "is_str (Flt x) = False"
| "is_str (Str s) = True"

fun int_of :: "cell \<Rightarrow> 64 word" where
  "int_of (Num n) = n"
| "int_of (Flt x) = 0"
| "int_of (Str s) = 0"

fun str_of :: "cell \<Rightarrow> string" where
  "str_of (Num n) = []"
| "str_of (Flt x) = []"
| "str_of (Str s) = s"

text \<open>
  The total pandas gives for a column or a row. Integers are added in 64 bits and wrap
  around, as numpy's \<^verbatim>\<open>int64\<close> does. \<open>FloatTotal vs\<close> is the \<^verbatim>\<open>float64\<close> sum of the cells
  \<open>vs\<close>, integers converted and NaN skipped: which cells are added is recorded, the
  value is left to the numerical library, whose order of summation and rounding the
  script does not control. \<open>TextTotal\<close> is a concatenation of text, \<open>ObjectTotal vs\<close> the
  sum of numbers kept as Python objects.
\<close>

datatype total =
    IntTotal "64 word"
  | FloatTotal "cell list"
  | TextTotal string
  | ObjectTotal "cell list"

fun is_float_total :: "total \<Rightarrow> bool" where
  "is_float_total (FloatTotal vs) = True"
| "is_float_total t = False"

fun is_text_total :: "total \<Rightarrow> bool" where
  "is_text_total (TextTotal s) = True"
| "is_text_total t = False"

text \<open>An integer total in a series of floats is converted to a float.\<close>

fun as_float :: "total \<Rightarrow> total" where
  "as_float (IntTotal n) = FloatTotal [Num n]"
| "as_float t = t"

text \<open>The argument of \<^verbatim>\<open>sys.exit\<close>: nothing, an integer or a message.\<close>

datatype exit_arg = ExitNone | ExitInt int | ExitStr string

text \<open>
  The exceptions that reach the top level. \<open>QuantifyingException\<close> is declared in the
  \<^verbatim>\<open>shared\<close> module; it carries a message and an exit code. \<open>SystemExit\<close> and
  \<open>KeyboardInterrupt\<close> are not subclasses of \<^verbatim>\<open>Exception\<close>; all the others are.
\<close>

datatype py_exception =
    QuantifyingException string int
  | SystemExit exit_arg
  | KeyboardInterrupt
  | ValueError
  | KeyError
  | TypeError
  | AttributeError
  | EmptyDataError
  | UnicodeDecodeError

text \<open>
  A data frame, column by column and in column order: each column is its header and its
  cells, one per row. pandas keeps every column as long as the frame has rows.
\<close>

record data_frame =
  cols :: "(string \<times> cell list) list"

definition columns :: "data_frame \<Rightarrow> string list" where
  "columns df = map fst (cols df)"

definition nrows :: "data_frame \<Rightarrow> nat" where
  "nrows df = (case cols df of [] \<Rightarrow> 0 | c # cs \<Rightarrow> length (snd c))"

text \<open>\<^verbatim>\<open>DataFrame.empty\<close>: true when either axis has length zero.\<close>

definition empty_frame :: "data_frame \<Rightarrow> bool" where
  "empty_frame df = (cols df = [] \<or> nrows df = 0)"

text \<open>\<^verbatim>\<open>pd.DataFrame()\<close>\<close>

definition DataFrame :: data_frame where
  "DataFrame = \<lparr>cols = []\<rparr>"

text \<open>The parsed command line (\<^verbatim>\<open>argparse.Namespace\<close>).\<close>

record args =
  quarter :: string
  skip_commit :: bool
  skip_push :: bool
  show_plots :: bool

text \<open>
  What a report hands to the plotting library: the title and axis labels, the series
  given to \<^verbatim>\<open>sns.barplot\<close> (index label and value, in order) and the tick labels set by
  \<^verbatim>\<open>set_xticklabels\<close>, if any. Bar annotations and tick formatters are rendering
  details of matplotlib and are left out.
\<close>

record chart =
  title :: string
  xlabel :: string
  ylabel :: string
  bars :: "(cell \<times> total) list"
  xticklabels :: "string list option"

text \<open>
  A file is the table pandas parses from a CSV file, or a saved figure. Directories
  are implicit in the path names.
\<close>

datatype file_content = CsvFile "(string \<times> cell list) list" | PngFile chart

text \<open>A logged message: the pieces of the f-string, before rendering.\<close>

datatype frag =
    Lit string
  | ReprList "string list"
  | ReprExit exit_arg
  | FormatExc py_exception

datatype level = INFO | ERROR | EXCEPTION

datatype event =
    Log level "frag list"
  | FetchAndMerge string
  | AddAndCommit string string
  | PushChanges string
  | UpdateReadme string string string string args
  | MakeDirs string
  | SaveFig string
  | ShowPlot

text \<open>The options as \<^verbatim>\<open>argparse\<close> reads them from the command line.\<close>

record cli_options =
  opt_quarter :: "string option"
  opt_skip_commit :: bool
  opt_skip_push :: bool
  opt_show_plots :: bool

text \<open>
  The environment of one run: the path table \<^verbatim>\<open>PATHS\<close>, the working directory, the
  current UTC quarter as pandas prints it, what \<^verbatim>\<open>argparse\<close> makes of the command
  line (the options, or the exit it performs itself), and what is outside the script's
  control in the \<^verbatim>\<open>shared\<close> helpers: whether a call raises, and what a pull does to the
  working tree.
\<close>

record env =
  paths_data :: string
  paths_repo :: string
  getcwd :: string
  today_quarter :: string
  cli :: "exit_arg + cli_options"
  raises :: "event \<Rightarrow> py_exception option"
  merged_tree :: "(string \<rightharpoonup> file_content) \<Rightarrow> (string \<rightharpoonup> file_content)"

record world =
  files :: "string \<rightharpoonup> file_content"
  frames :: "nat \<Rightarrow> data_frame"
  next_ref :: nat
  trace :: "event list"

type_synonym 'a result = "(py_exception + 'a) \<times> world"

definition emit :: "event \<Rightarrow> world \<Rightarrow> world" where
  "emit ev w = w\<lparr>trace := trace w @ [ev]\<rparr>"

definition log_info :: "frag list \<Rightarrow> world \<Rightarrow> world" where
  "log_info m w = emit (Log INFO m) w"

definition log_error :: "frag list \<Rightarrow> world \<Rightarrow> world" where
  "log_error m w = emit (Log ERROR m) w"

definition log_exception :: "frag list \<Rightarrow> world \<Rightarrow> world" where
  "log_exception m w = emit (Log EXCEPTION m) w"

text \<open>A new object on the heap; the reference to it is returned.\<close>

definition alloc :: "data_frame \<Rightarrow> world \<Rightarrow> nat \<times> world" where
  "alloc df w = (next_ref w, w\<lparr>frames := (frames w)(next_ref w := df), next_ref := Suc (next_ref w)\<rparr>)"

definition set_frame :: "nat \<Rightarrow> data_frame \<Rightarrow> world \<Rightarrow> world" where
  "set_frame r df w = w\<lparr>frames := (frames w)(r := df)\<rparr>"

section \<open>Library functions the script calls\<close>

text \<open>\<^verbatim>\<open>str.startswith\<close>\<close>

fun startswith :: "string \<Rightarrow> string \<Rightarrow> bool" where
  "startswith s [] = True"
| "startswith [] (p # ps) = False"
| "startswith (c # cs) (p # ps) = (c = p \<and> startswith cs ps)"

text \<open>\<^verbatim>\<open>sub in s\<close> on strings.\<close>

fun contains :: "string \<Rightarrow> string \<Rightarrow> bool" where
  "contains [] sub = (sub = [])"
| "contains (c # cs) sub = (startswith (c # cs) sub \<or> contains cs sub)"

text \<open>
  \<^verbatim>\<open>str.strip()\<close> removes leading and trailing whitespace. For code points below 256
  Python counts as whitespace: tab, line feed, vertical tab, form feed, carriage
  return, the separators 28 to 31, space, next line (133) and no-break space (160).
\<close>

definition isspace :: "char \<Rightarrow> bool" where
  "isspace c = (of_char c \<in> {9, 10, 11, 12, 13, 28, 29, 30, 31, 32, 133, 160 :: nat})"

definition strip :: "string \<Rightarrow> string" where
  "strip s = rev (dropWhile isspace (rev (dropWhile isspace s)))"

text \<open>\<^verbatim>\<open>list.index\<close>: the first position of a value; \<open>None\<close> stands for the ValueError.\<close>

fun index :: "'a list \<Rightarrow> 'a \<Rightarrow> nat option" where
  "index [] x = None"
| "index (y # ys) x = (if y = x then Some 0 else map_option Suc (index ys x))"

text \<open>\<^verbatim>\<open>xs[i:j]\<close> for non-negative bounds.\<close>

definition slice :: "'a list \<Rightarrow> nat \<Rightarrow> nat \<Rightarrow> 'a list" where
  "slice xs i j = take (j - i) (drop i xs)"

text \<open>\<^verbatim>\<open>os.path.join\<close> (POSIX): a component starting with a slash starts afresh.\<close>

fun path_join :: "string \<Rightarrow> string list \<Rightarrow> string" where
  "path_join path [] = path"
| "path_join path (b # p) =
     path_join
       (if startswith b ''/'' then b
        else if path = [] \<or> last path = CHR ''/'' then path @ b
        else path @ ''/'' @ b) p"

text \<open>
  \<^verbatim>\<open>pd.read_csv\<close>: the table of the file with its headers verbatim. A file without a
  header line raises EmptyDataError, a file that is not text raises UnicodeDecodeError.
\<close>

fun read_csv :: "file_content \<Rightarrow> py_exception + data_frame" where
  "read_csv (CsvFile cs) = (if cs = [] then Inl EmptyDataError else Inr \<lparr>cols = cs\<rparr>)"
| "read_csv (PngFile c) = Inl UnicodeDecodeError"

text \<open>The frame with every header stripped.\<close>

definition strip_columns :: "data_frame \<Rightarrow> data_frame" where
  "strip_columns df = df\<lparr>cols := map (\<lambda>c. (strip (fst c), snd c)) (cols df)\<rparr>"

text \<open>
  \<^verbatim>\<open>data.columns.str.strip()\<close>, as the new value of the frame. The column index of a
  frame without columns (\<^verbatim>\<open>pd.DataFrame()\<close>) is a range of numbers; it has no string
  accessor and \<^verbatim>\<open>.str\<close> raises AttributeError.
\<close>

definition str_strip :: "data_frame \<Rightarrow> py_exception + data_frame" where
  "str_strip df = (if cols df = [] then Inl AttributeError else Inr (strip_columns df))"

text \<open>
  \<^verbatim>\<open>data[labels]\<close>: selection by label. For each label in turn pandas takes every
  column that carries it, so a label carried by two columns selects both. A label no
  column carries raises KeyError.
\<close>

definition getitem :: "data_frame \<Rightarrow> string list \<Rightarrow> py_exception + data_frame" where
  "getitem df labels =
     (if list_all (\<lambda>l. l \<in> set (columns df)) labels
      then Inr \<lparr>cols = concat (map (\<lambda>l. filter (\<lambda>c. fst c = l) (cols df)) labels)\<rparr>
      else Inl KeyError)"

text \<open>
  The type pandas gives a column: \<^verbatim>\<open>int64\<close> when every cell is an integer,
  \<^verbatim>\<open>float64\<close> when every cell is a number and one of them a float, \<^verbatim>\<open>object\<close> when the
  column holds text or has no cell at all.
\<close>

datatype dtype = Int64 | Float64 | Object

definition dtype_of :: "cell list \<Rightarrow> dtype" where
  "dtype_of vs =
     (if vs \<noteq> [] \<and> list_all is_int vs then Int64
      else if vs \<noteq> [] \<and> list_all is_num vs then Float64
      else Object)"

text \<open>
  The sum of one column. An \<^verbatim>\<open>int64\<close> column is added in 64 bits, a \<^verbatim>\<open>float64\<close> column
  in floats. The cells of an \<^verbatim>\<open>object\<close> column are added as Python objects, after a
  missing cell is replaced by 0: text is concatenated, text and a number raise
  TypeError, and nothing at all adds up to 0.
\<close>

definition column_sum :: "cell list \<Rightarrow> py_exception + total" where
  "column_sum vs =
     (case dtype_of vs of
        Int64 \<Rightarrow> Inr (IntTotal (sum_list (map int_of vs)))
      | Float64 \<Rightarrow> Inr (FloatTotal vs)
      | Object \<Rightarrow>
          (if vs = [] then Inr (IntTotal 0)
           else if list_all is_str vs then Inr (TextTotal (concat (map str_of vs)))
           else Inl TypeError))"

fun column_sums :: "(string \<times> cell list) list \<Rightarrow> py_exception + (cell \<times> total) list" where
  "column_sums [] = Inr []"
| "column_sums (c # cs) =
     (case column_sum (snd c) of
        Inl e \<Rightarrow> Inl e
      | Inr s \<Rightarrow>
          (case column_sums cs of
             Inl e \<Rightarrow> Inl e
           | Inr ss \<Rightarrow> Inr ((Str (fst c), s) # ss)))"

text \<open>
  \<^verbatim>\<open>DataFrame.sum()\<close>: one total per column, indexed by the column's label. The totals
  form one series. A series of numbers has one type: when one total is a float, the
  integer totals are converted. A series that holds text keeps every total as it is.
\<close>

definition frame_sum :: "(string \<times> cell list) list \<Rightarrow> py_exception + (cell \<times> total) list" where
  "frame_sum cs =
     (case column_sums cs of
        Inl e \<Rightarrow> Inl e
      | Inr ss \<Rightarrow>
          Inr (if list_ex (\<lambda>s. is_float_total (snd s)) ss \<and> \<not> list_ex (\<lambda>s. is_text_total (snd s)) ss
               then map (\<lambda>s. (fst s, as_float (snd s))) ss
               else ss))"

text \<open>
  \<^verbatim>\<open>sns.barplot(x=..., y=...)\<close> draws one bar per entry of the series. The heights have
  to be numbers: the model lets a series that holds text fail with ValueError.
\<close>

definition barplot :: "(cell \<times> total) list \<Rightarrow> py_exception + unit" where
  "barplot series =
     (if list_ex (\<lambda>b. is_text_total (snd b)) series then Inl ValueError else Inr ())"

text \<open>
  \<^verbatim>\<open>data.set_index(key)\<close>: the key column becomes the row index and leaves the table.
  No column of that name raises KeyError; the model lets an ambiguous key (two columns
  of that name) fail with ValueError.
\<close>

definition set_index :: "data_frame \<Rightarrow> string \<Rightarrow> py_exception + (cell list \<times> (string \<times> cell list) list)" where
  "set_index df key =
     (case filter (\<lambda>c. fst c = key) (cols df) of
        [] \<Rightarrow> Inl KeyError
      | [k] \<Rightarrow> Inr (snd k, filter (\<lambda>c. fst c \<noteq> key) (cols df))
      | k # k' # ks \<Rightarrow> Inl ValueError)"

text \<open>
  The sum of one row of a table that holds text: the cells are added as Python objects,
  after a missing cell is replaced by 0. Text is concatenated; text and a number raise
  TypeError.
\<close>

definition object_sum :: "cell list \<Rightarrow> py_exception + total" where
  "object_sum r =
     (if list_all is_str r then Inr (TextTotal (concat (map str_of r)))
      else if list_ex is_str r then Inl TypeError
      else Inr (ObjectTotal r))"

fun object_sums :: "cell list list \<Rightarrow> py_exception + total list" where
  "object_sums [] = Inr []"
| "object_sums (r # rs) =
     (case object_sum r of
        Inl e \<Rightarrow> Inl e
      | Inr s \<Rightarrow> (case object_sums rs of Inl e \<Rightarrow> Inl e | Inr ss \<Rightarrow> Inr (s # ss)))"

text \<open>
  \<^verbatim>\<open>.sum(axis=1)\<close> of an indexed table: one total per row over all remaining
  columns. The rows take the common type of the columns: 64-bit integers when every
  column is \<^verbatim>\<open>int64\<close>, floats when every column holds numbers, Python objects
  otherwise. Without any column every total is the float 0.
\<close>

definition sum_axis1 :: "cell list \<times> (string \<times> cell list) list \<Rightarrow> py_exception + (cell \<times> total) list" where
  "sum_axis1 t =
     (let idx = fst t;
          cs = snd t;
          rows = transpose (map snd cs)
      in if cs = [] then Inr (map (\<lambda>l. (l, FloatTotal [])) idx)
         else if list_all (\<lambda>c. list_all is_int (snd c)) cs
           then Inr (zip idx (map (\<lambda>r. IntTotal (sum_list (map int_of r))) rows))
         else if list_all (\<lambda>c. list_all is_num (snd c)) cs
           then Inr (zip idx (map FloatTotal rows))
         else (case object_sums rows of
                 Inl e \<Rightarrow> Inl e
               | Inr totals \<Rightarrow> Inr (zip idx totals)))"

text \<open>\<^verbatim>\<open>plt.savefig(image_path)\<close> writes the current figure, replacing what the path held.\<close>

definition savefig :: "string \<Rightarrow> chart \<Rightarrow> world \<Rightarrow> world" where
  "savefig image_path c w = emit (SaveFig image_path) (w\<lparr>files := (files w)(image_path \<mapsto> PngFile c)\<rparr>)"

text \<open>Sequencing: an exception ends the computation, a value is passed on.\<close>

definition and_then :: "'a result \<Rightarrow> ('a \<Rightarrow> world \<Rightarrow> 'b result) \<Rightarrow> 'b result" where
  "and_then m f = (case m of (Inl e, w) \<Rightarrow> (Inl e, w) | (Inr x, w) \<Rightarrow> f x w)"

section \<open>The helpers of the shared module\<close>

text \<open>
  Modelled from the spec: the functions \<^verbatim>\<open>shared.fetch_and_merge\<close>,
  \<^verbatim>\<open>shared.add_and_commit\<close>, \<^verbatim>\<open>shared.push_changes\<close> and \<^verbatim>\<open>shared.update_readme\<close>
  are fixed interfaces the script calls into. A call is recorded in the trace with its
  arguments; whether it raises is decided by the environment.
\<close>

definition call :: "env \<Rightarrow> event \<Rightarrow> world \<Rightarrow> unit result" where
  "call env ev w =
     (case raises env ev of
        Some e \<Rightarrow> (Inl e, emit ev w)
      | None \<Rightarrow> (Inr (), emit ev w))"

text \<open>
  Modelled from the spec: \<^verbatim>\<open>shared.fetch_and_merge\<close> pulls the latest state of the
  repository and fails fast; a successful pull brings the working tree up to date.
\<close>

definition fetch_and_merge :: "env \<Rightarrow> string \<Rightarrow> world \<Rightarrow> unit result" where
  "fetch_and_merge env repo w =
     and_then (call env (FetchAndMerge repo) w)
       (\<lambda>u w1. (Inr (), w1\<lparr>files := merged_tree env (files w1)\<rparr>))"

text \<open>Modelled from the spec: \<^verbatim>\<open>shared.add_and_commit\<close> commits the new reports.\<close>

definition add_and_commit :: "env \<Rightarrow> string \<Rightarrow> string \<Rightarrow> world \<Rightarrow> unit result" where
  "add_and_commit env repo message w = call env (AddAndCommit repo message) w"

text \<open>Modelled from the spec: \<^verbatim>\<open>shared.push_changes\<close> pushes to the remote.\<close>

definition push_changes :: "env \<Rightarrow> string \<Rightarrow> world \<Rightarrow> unit result" where
  "push_changes env repo w = call env (PushChanges repo) w"

text \<open>
  Modelled from the spec: \<^verbatim>\<open>shared.update_readme\<close> registers a report (image path,
  dataset label, chart description, section title, run options) in the summary
  document, which is kept apart from the data files.
\<close>

definition update_readme :: "env \<Rightarrow> string \<Rightarrow> string \<Rightarrow> string \<Rightarrow> string \<Rightarrow> args \<Rightarrow> world \<Rightarrow> unit result" where
  "update_readme env image_path label description section_title a w =
     call env (UpdateReadme image_path label description section_title a) w"

section \<open>The script\<close>

definition parse_arguments :: "env \<Rightarrow> world \<Rightarrow> args result" where
  "parse_arguments env w =
     (let w1 = log_info [Lit ''Parsing command-line arguments''] w
      in case cli env of
           Inl code \<Rightarrow> (Inl (SystemExit code), w1)
         | Inr opts \<Rightarrow>
             (let a = \<lparr>quarter = (case opt_quarter opts of None \<Rightarrow> today_quarter env | Some q \<Rightarrow> q),
                       skip_commit = opt_skip_commit opts,
                       skip_push = opt_skip_push opts,
                       show_plots = opt_show_plots opts\<rparr>
              in (Inr (if skip_commit a then a\<lparr>skip_push := True\<rparr> else a), w1)))"

definition load_data :: "env \<Rightarrow> args \<Rightarrow> world \<Rightarrow> nat result" where
  "load_data env a w =
     (let selected_quarter = quarter a;
          file_path = path_join (paths_data env) [selected_quarter, ''1-fetch'', ''gcs_fetched.csv'']
      in case files w file_path of
           None \<Rightarrow>
             (let w1 = log_error [Lit (''Data file not found: '' @ file_path)] w;
                  (r, w2) = alloc DataFrame w1
              in (Inr r, w2))
         | Some f \<Rightarrow>
             (case read_csv f of
                Inl e \<Rightarrow> (Inl e, w)
              | Inr df \<Rightarrow>
                  (let (data, w1) = alloc df w;
                       w2 = log_info [Lit (''Data loaded from '' @ file_path)] w1
                   in (Inr data, w2))))"

definition visualize_by_country :: "env \<Rightarrow> nat \<Rightarrow> args \<Rightarrow> world \<Rightarrow> unit result" where
  "visualize_by_country env data a w =
     (let w1 = log_info [Lit ''Creating a bar chart for the number of webpages licensed by country.''] w;
          selected_quarter = quarter a;
          columns_list = map strip (columns (frames w1 data))
      in case index columns_list ''United States'' of
           None \<Rightarrow> (Inl ValueError, w1)
         | Some start_index \<Rightarrow>
             (case index columns_list ''Japan'' of
                None \<Rightarrow> (Inl ValueError, w1)
              | Some j \<Rightarrow>
                  (let end_index = j + 1;
                       countries = slice columns_list start_index end_index
                   in case str_strip (frames w1 data) of
                        Inl e \<Rightarrow> (Inl e, w1)
                      | Inr stripped \<Rightarrow>
                          (let w2 = set_frame data stripped w1;
                               w3 = log_info [Lit ''Cleaned Columns: '', ReprList (columns (frames w2 data))] w2
                           in case getitem (frames w3 data) countries of
                                Inl e \<Rightarrow> (Inl e, w3)
                              | Inr selected \<Rightarrow>
                                  (case frame_sum (cols selected) of
                                     Inl e \<Rightarrow> (Inl e, w3)
                                   | Inr country_data \<Rightarrow>
                                       (case barplot country_data of
                                          Inl e \<Rightarrow> (Inl e, w3)
                                        | Inr ax \<Rightarrow>
                                            (let c = \<lparr>title = ''Number of Google Webpages Licensed by Country ('' @ selected_quarter @ '')'',
                                                      xlabel = ''Country'',
                                                      ylabel = ''Number of Webpages'',
                                                      bars = country_data,
                                                      xticklabels = None\<rparr>;
                                                 output_directory = path_join (paths_data env) [selected_quarter, ''3-report''];
                                                 w4 = log_info [Lit (''Output directory: '' @ output_directory)] w3;
                                                 w5 = emit (MakeDirs output_directory) w4;
                                                 image_path = path_join output_directory [''gcs_country_report.png''];
                                                 w6 = savefig image_path c w5;
                                                 w7 = (if show_plots a then emit ShowPlot w6 else w6)
                                             in and_then
                                                  (update_readme env image_path ''Google Custom Search''
                                                     ''Number of Google Webpages Licensed by Country'' ''Country Report'' a w7)
                                                  (\<lambda>u w8. (Inr (), log_info [Lit ''Visualization by country created.''] w8)))))))))"

text \<open>The tick labels of the license-type chart; \<^verbatim>\<open>in\<close> needs a string on its right.\<close>

fun xtick_label :: "cell \<Rightarrow> py_exception + string" where
  "xtick_label (Str label) = Inr (if contains label ''by/2.5'' then ''CC BY 2.5'' else label)"
| "xtick_label (Num n) = Inl TypeError"
| "xtick_label (Flt x) = Inl TypeError"

fun xtick_labels :: "cell list \<Rightarrow> py_exception + string list" where
  "xtick_labels [] = Inr []"
| "xtick_labels (label # labels) =
     (case xtick_label label of
        Inl e \<Rightarrow> Inl e
      | Inr l \<Rightarrow> (case xtick_labels labels of Inl e \<Rightarrow> Inl e | Inr ls \<Rightarrow> Inr (l # ls)))"

definition visualize_by_license_type :: "env \<Rightarrow> nat \<Rightarrow> args \<Rightarrow> world \<Rightarrow> unit result" where
  "visualize_by_license_type env data a w =
     (let w1 = log_info [Lit ''Creating a bar chart for the number of webpages licensed by license type.''] w;
          selected_quarter = quarter a
      in case str_strip (frames w1 data) of
           Inl e \<Rightarrow> (Inl e, w1)
         | Inr stripped \<Rightarrow>
             (let w2 = set_frame data stripped w1
              in case set_index (frames w2 data) ''LICENSE TYPE'' of
                   Inl e \<Rightarrow> (Inl e, w2)
                 | Inr indexed \<Rightarrow>
                     (case sum_axis1 indexed of
                        Inl e \<Rightarrow> (Inl e, w2)
                      | Inr license_data \<Rightarrow>
                          (case barplot license_data of
                             Inl e \<Rightarrow> (Inl e, w2)
                           | Inr ax \<Rightarrow>
                               (case xtick_labels (map fst license_data) of
                                  Inl e \<Rightarrow> (Inl e, w2)
                                | Inr labels \<Rightarrow>
                                    (let c = \<lparr>title = ''Number of Webpages Licensed by License Type ('' @ selected_quarter @ '')'',
                                              xlabel = ''License Type'',
                                              ylabel = ''Number of Webpages'',
                                              bars = license_data,
                                              xticklabels = Some labels\<rparr>;
                                         output_directory = path_join (paths_data env) [selected_quarter, ''3-report''];
                                         w3 = log_info [Lit (''Output directory: '' @ output_directory)] w2;
                                         w4 = emit (MakeDirs output_directory) w3;
                                         image_path = path_join output_directory [''gcs_licensetype_report.png''];
                                         w5 = savefig image_path c w4;
                                         w6 = (if show_plots a then emit ShowPlot w5 else w5)
                                     in and_then
                                          (update_readme env image_path ''Google Custom Search''
                                             ''Number of Webpages Licensed by License Type'' ''License Type Report'' a w6)
                                          (\<lambda>u w7. (Inr (), log_info [Lit ''Visualization by license type created.''] w7))))))))"

definition visualize_by_language :: "env \<Rightarrow> nat \<Rightarrow> args \<Rightarrow> world \<Rightarrow> unit result" where
  "visualize_by_language env data a w =
     (let w1 = log_info [Lit ''Creating a bar chart for the number of webpages licensed by language.''] w;
          selected_quarter = quarter a;
          columns_list = map strip (columns (frames w1 data))
      in case index columns_list ''English'' of
           None \<Rightarrow> (Inl ValueError, w1)
         | Some start_index \<Rightarrow>
             (case index columns_list ''Indonesian'' of
                None \<Rightarrow> (Inl ValueError, w1)
              | Some j \<Rightarrow>
                  (let end_index = j + 1;
                       languages = slice columns_list start_index end_index
                   in case str_strip (frames w1 data) of
                        Inl e \<Rightarrow> (Inl e, w1)
                      | Inr stripped \<Rightarrow>
                          (let w2 = set_frame data stripped w1;
                               w3 = log_info [Lit ''Cleaned Columns: '', ReprList (columns (frames w2 data))] w2
                           in case getitem (frames w3 data) languages of
                                Inl e \<Rightarrow> (Inl e, w3)
                              | Inr selected \<Rightarrow>
                                  (case frame_sum (cols selected) of
                                     Inl e \<Rightarrow> (Inl e, w3)
                                   | Inr language_data \<Rightarrow>
                                       (case barplot language_data of
                                          Inl e \<Rightarrow> (Inl e, w3)
                                        | Inr ax \<Rightarrow>
                                            (let c = \<lparr>title = ''Number of Google Webpages Licensed by Language ('' @ selected_quarter @ '')'',
                                                      xlabel = ''Language'',
                                                      ylabel = ''Number of Webpages'',
                                                      bars = language_data,
                                                      xticklabels = None\<rparr>;
                                                 output_directory = path_join (paths_data env) [selected_quarter, ''3-report''];
                                                 w4 = log_info [Lit (''Output directory: '' @ output_directory)] w3;
                                                 w5 = emit (MakeDirs output_directory) w4;
                                                 image_path = path_join output_directory [''gcs_language_report.png''];
                                                 w6 = savefig image_path c w5;
                                                 w7 = (if show_plots a then emit ShowPlot w6 else w6)
                                             in and_then
                                                  (update_readme env image_path ''Google Custom Search''
                                                     ''Number of Google Webpages Licensed by Language'' ''Language Report'' a w7)
                                                  (\<lambda>u w8. (Inr (), log_info [Lit ''Visualization by language created.''] w8)))))))))"

definition main :: "env \<Rightarrow> world \<Rightarrow> unit result" where
  "main env w =
     and_then (fetch_and_merge env (paths_repo env) w) (\<lambda>u0 w1.
     and_then (parse_arguments env w1) (\<lambda>a w2.
     and_then (load_data env a w2) (\<lambda>data w3.
       if empty_frame (frames w3 data) then (Inr (), w3)
       else
         (let current_directory = getcwd env;
              w4 = log_info [Lit (''Current working directory: '' @ current_directory)] w3
          in and_then (visualize_by_country env data a w4) (\<lambda>u1 w5.
             and_then (visualize_by_license_type env data a w5) (\<lambda>u2 w6.
             and_then (visualize_by_language env data a w6) (\<lambda>u3 w7.
             and_then
               (if \<not> skip_commit a
                then add_and_commit env (paths_repo env) ''Added and committed new reports'' w7
                else (Inr (), w7)) (\<lambda>u4 w8.
               if \<not> skip_push a then push_changes env (paths_repo env) w8
               else (Inr (), w8)))))))))"

text \<open>
  The block under \<^verbatim>\<open>if __name__ == "__main__"\<close>: the argument given to \<^verbatim>\<open>sys.exit\<close>,
  or \<open>None\<close> when \<^verbatim>\<open>main\<close> returns and the interpreter ends by itself.
\<close>

definition script :: "env \<Rightarrow> world \<Rightarrow> exit_arg option \<times> world" where
  "script env w =
     (case main env w of
        (Inr u, w1) \<Rightarrow> (None, w1)
      | (Inl (QuantifyingException message exit_code), w1) \<Rightarrow>
          (Some (ExitInt exit_code),
           (if exit_code = 0 then log_info [Lit message] w1 else log_error [Lit message] w1))
      | (Inl (SystemExit code), w1) \<Rightarrow>
          (Some code, log_error [Lit ''System exit with code: '', ReprExit code] w1)
      | (Inl KeyboardInterrupt, w1) \<Rightarrow>
          (Some (ExitInt 130), log_info [Lit ''(130) Halted via KeyboardInterrupt.''] w1)
      | (Inl e, w1) \<Rightarrow>
          (Some (ExitInt 1), log_exception [Lit ''(1) Unhandled exception: '', FormatExc e] w1))"

section \<open>Reference inputs\<close>

text \<open>A small environment and an empty world, used to run the script on concrete inputs.\<close>

definition demo_env :: "py_exception option \<Rightarrow> env" where
  "demo_env pull_raises =
     \<lparr>paths_data = ''/repo/data'', paths_repo = ''/repo'', getcwd = ''/repo'',
      today_quarter = ''2024Q4'',
      cli = Inr \<lparr>opt_quarter = Some ''2024Q2'', opt_skip_commit = False,
                 opt_skip_push = False, opt_show_plots = False\<rparr>,
      raises = (\<lambda>ev. case ev of FetchAndMerge repo \<Rightarrow> pull_raises | _ \<Rightarrow> None),
      merged_tree = (\<lambda>t. t)\<rparr>"

definition blank_world :: world where
  "blank_world = \<lparr>files = Map.empty, frames = (\<lambda>r. DataFrame), next_ref = 0, trace = []\<rparr>"

section \<open>Where the reports are written\<close>

text \<open>The image paths of the three reports, from the data root and the quarter.\<close>

definition country_path :: "env \<Rightarrow> args \<Rightarrow> string" where
  "country_path env a =
     path_join (paths_data env) [quarter a, ''3-report'', ''gcs_country_report.png'']"

definition licensetype_path :: "env \<Rightarrow> args \<Rightarrow> string" where
  "licensetype_path env a =
     path_join (paths_data env) [quarter a, ''3-report'', ''gcs_licensetype_report.png'']"

definition language_path :: "env \<Rightarrow> args \<Rightarrow> string" where
  "language_path env a =
     path_join (paths_data env) [quarter a, ''3-report'', ''gcs_language_report.png'']"

text \<open>The chart saved under a path, if the path holds a figure.\<close>

definition saved_chart :: "world \<Rightarrow> string \<Rightarrow> chart option" where
  "saved_chart w p = (case files w p of Some (PngFile c) \<Rightarrow> Some c | _ \<Rightarrow> None)"

definition demo_args :: args where
  "demo_args = \<lparr>quarter = ''2024Q2'', skip_commit = False, skip_push = False, show_plots = False\<rparr>"

text \<open>A world whose only object is the given frame, at reference 0.\<close>

definition world_with :: "data_frame \<Rightarrow> world" where
  "world_with df = \<lparr>files = Map.empty, frames = (\<lambda>r. if r = 0 then df else DataFrame),
     next_ref = 1, trace = []\<rparr>"

text \<open>Tables that lack the closing sentinel of a report.\<close>

definition no_japan :: data_frame where
  "no_japan = \<lparr>cols = [(''LICENSE TYPE'', [Str ''licenses/by/4.0/'']),
     ('' United States'', [Num 10]), (''Canada'', [Num 7])]\<rparr>"

definition no_indonesian :: data_frame where
  "no_indonesian = \<lparr>cols = [(''LICENSE TYPE'', [Str ''licenses/by/4.0/'']),
     (''English '', [Num 3]), (''Spanish'', [Num 4])]\<rparr>"

text \<open>
  The two-row fixture: headers with incidental blanks, \<open>United States\<close> 10 and 30,
  \<open>Japan\<close> 20 and 5.
\<close>

definition fixture :: data_frame where
  "fixture = \<lparr>cols = [(''LICENSE TYPE '', [Str ''licenses/by/2.5/'', Str ''publicdomain/zero/1.0/'']),
     ('' United States'', [Num 10, Num 30]), (''Canada '', [Num 7, Num 1]),
     (''Japan'', [Num 20, Num 5]),
     (''English'', [Num 3, Num 4]), (''Spanish'', [Num 2, Num 2]), (''Indonesian '', [Num 1, Num 2])]\<rparr>"

text \<open>A table in which two headers differ only by a leading blank.\<close>

definition twice_canada :: data_frame where
  "twice_canada = \<lparr>cols = [('' Canada'', [Num 1]), (''United States'', [Num 10]),
     (''Canada'', [Num 7]), (''Japan'', [Num 20])]\<rparr>"

text \<open>The columns of a table other than the license-type column.\<close>

definition other_columns :: "data_frame \<Rightarrow> (string \<times> cell list) list" where
  "other_columns df = filter (\<lambda>c. strip (fst c) \<noteq> ''LICENSE TYPE'') (cols df)"

text \<open>The rewriting of one tick label of the license-type chart.\<close>

definition short_label :: "string \<Rightarrow> string" where
  "short_label l = (if contains l ''by/2.5'' then ''CC BY 2.5'' else l)"

section \<open>Sums in the integers\<close>

text \<open>A column of 64-bit integers: it has a cell, and every cell is an integer.\<close>

definition int64_column :: "cell list \<Rightarrow> bool" where
  "int64_column vs = (vs \<noteq> [] \<and> list_all is_int vs)"

text \<open>The sum of a list of integer cells, taken in the integers.\<close>

definition exact_sum :: "cell list \<Rightarrow> int" where
  "exact_sum vs = sum_list (map (\<lambda>v. sint (int_of v)) vs)"

text \<open>The integers a signed 64-bit number can hold.\<close>

definition fits64 :: "int \<Rightarrow> bool" where
  "fits64 n = (- (2 ^ 63) \<le> n \<and> n < 2 ^ 63)"

text \<open>The integer an integer total stands for.\<close>

fun int_value :: "total \<Rightarrow> int" where
  "int_value (IntTotal n) = sint n"
| "int_value t = 0"

text \<open>The cells of one row of a list of columns.\<close>

definition row_cells :: "(string \<times> cell list) list \<Rightarrow> nat \<Rightarrow> cell list" where
  "row_cells cs i = map (\<lambda>c. snd c ! i) cs"

section \<open>The chart a report builds\<close>

text \<open>
  The series a span report hands to the plotting library, as a function of the frame it is
  given, or the exception that ends the report before a figure is saved.
\<close>

definition span_series :: "string \<Rightarrow> string \<Rightarrow> data_frame \<Rightarrow> py_exception + (cell \<times> total) list" where
  "span_series first_name last_name df =
     (let columns_list = map strip (columns df)
      in case index columns_list first_name of
           None \<Rightarrow> Inl ValueError
         | Some start_index \<Rightarrow>
             (case index columns_list last_name of
                None \<Rightarrow> Inl ValueError
              | Some j \<Rightarrow>
                  (case str_strip df of
                     Inl e \<Rightarrow> Inl e
                   | Inr stripped \<Rightarrow>
                       (case getitem stripped (slice columns_list start_index (j + 1)) of
                          Inl e \<Rightarrow> Inl e
                        | Inr selected \<Rightarrow>
                            (case frame_sum (cols selected) of
                               Inl e \<Rightarrow> Inl e
                             | Inr series \<Rightarrow>
                                 (case barplot series of
                                    Inl e \<Rightarrow> Inl e
                                  | Inr ax \<Rightarrow> Inr series))))))"

definition country_chart :: "args \<Rightarrow> data_frame \<Rightarrow> py_exception + chart" where
  "country_chart a df =
     (case span_series ''United States'' ''Japan'' df of
        Inl e \<Rightarrow> Inl e
      | Inr series \<Rightarrow>
          Inr \<lparr>title = ''Number of Google Webpages Licensed by Country ('' @ quarter a @ '')'',
               xlabel = ''Country'', ylabel = ''Number of Webpages'',
               bars = series, xticklabels = None\<rparr>)"

definition language_chart :: "args \<Rightarrow> data_frame \<Rightarrow> py_exception + chart" where
  "language_chart a df =
     (case span_series ''English'' ''Indonesian'' df of
        Inl e \<Rightarrow> Inl e
      | Inr series \<Rightarrow>
          Inr \<lparr>title = ''Number of Google Webpages Licensed by Language ('' @ quarter a @ '')'',
               xlabel = ''Language'', ylabel = ''Number of Webpages'',
               bars = series, xticklabels = None\<rparr>)"

definition license_chart :: "args \<Rightarrow> data_frame \<Rightarrow> py_exception + chart" where
  "license_chart a df =
     (case str_strip df of
        Inl e \<Rightarrow> Inl e
      | Inr stripped \<Rightarrow>
          (case set_index stripped ''LICENSE TYPE'' of
             Inl e \<Rightarrow> Inl e
           | Inr indexed \<Rightarrow>
               (case sum_axis1 indexed of
                  Inl e \<Rightarrow> Inl e
                | Inr series \<Rightarrow>
                    (case barplot series of
                       Inl e \<Rightarrow> Inl e
                     | Inr ax \<Rightarrow>
                         (case xtick_labels (map fst series) of
                            Inl e \<Rightarrow> Inl e
                          | Inr labels \<Rightarrow>
                              Inr \<lparr>title = ''Number of Webpages Licensed by License Type ('' @ quarter a @ '')'',
                                   xlabel = ''License Type'', ylabel = ''Number of Webpages'',
                                   bars = series, xticklabels = Some labels\<rparr>)))))"

text \<open>What a report leaves on disk: the files as they were, or with its chart at its path.\<close>

definition written :: "string \<Rightarrow> py_exception + chart \<Rightarrow> (string \<rightharpoonup> file_content) \<Rightarrow> (string \<rightharpoonup> file_content)" where
  "written p built fs = (case built of Inl e \<Rightarrow> fs | Inr c \<Rightarrow> fs(p \<mapsto> PngFile c))"

section \<open>More reference inputs\<close>

text \<open>A table with a column of text besides the license types.\<close>

definition with_note :: data_frame where
  "with_note = \<lparr>cols = [(''LICENSE TYPE'', [Str ''licenses/by/4.0/'']),
     (''United States'', [Num 10]), (''NOTE'', [Str ''checked''])]\<rparr>"

text \<open>A table whose license types are numbers.\<close>

definition numbered_licenses :: data_frame where
  "numbered_licenses = \<lparr>cols = [(''LICENSE TYPE'', [Num 1, Num 2]),
     (''United States'', [Num 10, Num 30])]\<rparr>"

text \<open>A chart left behind by an earlier run, and a world that holds it at all three paths.\<close>

definition stale_chart :: chart where
  "stale_chart = \<lparr>title = ''stale'', xlabel = [], ylabel = [], bars = [], xticklabels = None\<rparr>"

definition stale_world :: world where
  "stale_world =
     \<lparr>files = [''/repo/data/2024Q2/3-report/gcs_country_report.png'' \<mapsto> PngFile stale_chart,
                ''/repo/data/2024Q2/3-report/gcs_licensetype_report.png'' \<mapsto> PngFile stale_chart,
                ''/repo/data/2024Q2/3-report/gcs_language_report.png'' \<mapsto> PngFile stale_chart],
      frames = (\<lambda>r. if r = 0 then fixture else DataFrame), next_ref = 1, trace = []\<rparr>"

section \<open>The input file and the parsed options\<close>

text \<open>The path of the quarter's input file.\<close>

definition input_path :: "env \<Rightarrow> args \<Rightarrow> string" where
  "input_path env a = path_join (paths_data env) [quarter a, ''1-fetch'', ''gcs_fetched.csv'']"

text \<open>
  The options a run works with: the quarter given, or else today's quarter, and a push
  that is skipped when it is asked for or when the commit is skipped.
\<close>

definition args_of :: "env \<Rightarrow> cli_options \<Rightarrow> args" where
  "args_of env opts =
     \<lparr>quarter = (case opt_quarter opts of None \<Rightarrow> today_quarter env | Some q \<Rightarrow> q),
      skip_commit = opt_skip_commit opts,
      skip_push = (opt_skip_push opts \<or> opt_skip_commit opts),
      show_plots = opt_show_plots opts\<rparr>"

text \<open>A world whose input file for 2024Q2 has a header line and no data rows.\<close>

definition header_only_world :: world where
  "header_only_world =
     \<lparr>files = [''/repo/data/2024Q2/1-fetch/gcs_fetched.csv'' \<mapsto>
                 CsvFile [(''LICENSE TYPE'', []), (''United States'', []), (''Japan'', [])]],
      frames = (\<lambda>r. DataFrame), next_ref = 0, trace = []\<rparr>"

section \<open>The steps of a run\<close>

text \<open>
  The steps of the orchestrator, read off the trace: a call of a git helper, or the log
  record a function of the script writes first (the loader: its only record).
\<close>

datatype step =
  Pull | ParseArgs | LoadData | CountryReport | LicenseReport | LanguageReport | Commit | Push

definition step_of_message :: "string \<Rightarrow> step option" where
  "step_of_message m =
     (if m = ''Parsing command-line arguments'' then Some ParseArgs
      else if startswith m ''Data file not found: '' \<or> startswith m ''Data loaded from ''
        then Some LoadData
      else if m = ''Creating a bar chart for the number of webpages licensed by country.''
        then Some CountryReport
      else if m = ''Creating a bar chart for the number of webpages licensed by license type.''
        then Some LicenseReport
      else if m = ''Creating a bar chart for the number of webpages licensed by language.''
        then Some LanguageReport
      else None)"

fun step_of :: "event \<Rightarrow> step option" where
  "step_of (FetchAndMerge repo) = Some Pull"
| "step_of (AddAndCommit repo message) = Some Commit"
| "step_of (PushChanges repo) = Some Push"
| "step_of (Log l [Lit m]) = step_of_message m"
| "step_of ev = None"

definition steps_of :: "event list \<Rightarrow> step list" where
  "steps_of evs = concat (map (\<lambda>ev. case step_of ev of None \<Rightarrow> [] | Some s \<Rightarrow> [s]) evs)"

text \<open>The fixed order of a full run, with the commit and the push as the options ask.\<close>

definition planned_steps :: "cli_options \<Rightarrow> step list" where
  "planned_steps opts =
     [Pull, ParseArgs, LoadData, CountryReport, LicenseReport, LanguageReport]
     @ (if opt_skip_commit opts then [] else [Commit])
     @ (if opt_skip_push opts \<or> opt_skip_commit opts then [] else [Push])"

text \<open>
  The common end of the three reports: the figure is saved under the quarter's report
  directory, shown if asked for, registered in the README, and the success is logged.
\<close>

definition publish :: "env \<Rightarrow> args \<Rightarrow> string \<Rightarrow> string \<Rightarrow> string \<Rightarrow> string \<Rightarrow> chart \<Rightarrow> world \<Rightarrow> unit result" where
  "publish env a name description section_title done c w =
     (let output_directory = path_join (paths_data env) [quarter a, ''3-report''];
          w4 = log_info [Lit (''Output directory: '' @ output_directory)] w;
          w5 = emit (MakeDirs output_directory) w4;
          image_path = path_join output_directory [name];
          w6 = savefig image_path c w5;
          w7 = (if show_plots a then emit ShowPlot w6 else w6)
      in and_then
           (update_readme env image_path ''Google Custom Search'' description section_title a w7)
           (\<lambda>u w8. (Inr (), log_info [Lit done] w8)))"

text \<open>
  What a report may do to the world: it allocates nothing, writes at most its own image,
  changes at most the headers of the frame it is given, adds to the trace the events of
  its own step, and on success has written the image and stripped the headers.
\<close>

definition report_effect :: "step \<Rightarrow> string \<Rightarrow> nat \<Rightarrow> world \<Rightarrow> unit result \<Rightarrow> bool" where
  "report_effect s p data w res =
     (next_ref (snd res) = next_ref w \<and>
      (files (snd res) = files w \<or> (\<exists>c. files (snd res) = (files w)(p \<mapsto> PngFile c))) \<and>
      (frames (snd res) = frames w \<or>
       frames (snd res) = (frames w)(data := strip_columns (frames w data))) \<and>
      (\<exists>evs. trace (snd res) = trace w @ evs \<and> steps_of evs = [s]) \<and>
      (fst res = Inr () \<longrightarrow>
         (\<exists>c. files (snd res) = (files w)(p \<mapsto> PngFile c)) \<and>
         frames (snd res) = (frames w)(data := strip_columns (frames w data))))"

text \<open>The world of a report once the headers are stripped and before the figure is saved.\<close>

definition prepared :: "step \<Rightarrow> nat \<Rightarrow> world \<Rightarrow> world \<Rightarrow> bool" where
  "prepared s data w w' =
     (files w' = files w \<and> next_ref w' = next_ref w \<and>
      frames w' = (frames w)(data := strip_columns (frames w data)) \<and>
      (\<exists>evs. trace w' = trace w @ evs \<and> steps_of evs = [s]))"

text \<open>The three reports in a row, and the commit and push that end a run.\<close>

definition reports :: "env \<Rightarrow> nat \<Rightarrow> args \<Rightarrow> world \<Rightarrow> unit result" where
  "reports env data a w =
     and_then (visualize_by_country env data a w) (\<lambda>u1 w5.
     and_then (visualize_by_license_type env data a w5) (\<lambda>u2 w6.
       visualize_by_language env data a w6))"

definition finish :: "env \<Rightarrow> args \<Rightarrow> world \<Rightarrow> unit result" where
  "finish env a w =
     and_then
       (if \<not> skip_commit a
        then add_and_commit env (paths_repo env) ''Added and committed new reports'' w
        else (Inr (), w)) (\<lambda>u4 w8.
       if \<not> skip_push a then push_changes env (paths_repo env) w8
       else (Inr (), w8))"

text \<open>What a run of reports may do to the objects on the heap.\<close>

definition frame_effect :: "nat \<Rightarrow> world \<Rightarrow> world \<Rightarrow> bool" where
  "frame_effect data w w' =
     (next_ref w' = next_ref w \<and>
      (frames w' = frames w \<or> frames w' = (frames w)(data := strip_columns (frames w data))))"

text \<open>A world whose input file for 2024Q2 holds the fixture.\<close>

definition fixture_world :: world where
  "fixture_world =
     \<lparr>files = [''/repo/data/2024Q2/1-fetch/gcs_fetched.csv'' \<mapsto> CsvFile (cols fixture)],
      frames = (\<lambda>r. DataFrame), next_ref = 0, trace = []\<rparr>"

text \<open>
  A computation follows a plan when the steps in the events it adds to the trace are the
  beginning of the plan, and all of the plan when it returns a value.
\<close>

definition run_prefix :: "step list \<Rightarrow> world \<Rightarrow> 'a result \<Rightarrow> bool" where
  "run_prefix plan w res =
     (\<exists>evs rest. trace (snd res) = trace w @ evs \<and> steps_of evs @ rest = plan \<and>
        ((\<exists>x. fst res = Inr x) \<longrightarrow> rest = []))"

text \<open>The commit and the push as the parsed options ask.\<close>

definition commit_plan :: "args \<Rightarrow> step list" where
  "commit_plan a =
     (if skip_commit a then [] else [Commit]) @ (if skip_push a then [] else [Push])"

text \<open>The demo environment with \<^verbatim>\<open>--skip-commit\<close> on the command line.\<close>

definition skip_commit_env :: env where
  "skip_commit_env =
     (demo_env None)\<lparr>cli := Inr \<lparr>opt_quarter = None, opt_skip_commit = True,
                                   opt_skip_push = False, opt_show_plots = False\<rparr>\<rparr>"

section \<open>Properties of the script\<close>

text \<open>Paths are kept as they are written; they are evaluated where a concrete path is needed.\<close>

declare path_join.simps [simp del]

subsection \<open>Exit codes\<close>

lemma main_pull_raises:
  "raises env (FetchAndMerge (paths_repo env)) = Some e \<Longrightarrow>
   main env w = (Inl e, emit (FetchAndMerge (paths_repo env)) w)"
  by (simp add: main_def fetch_and_merge_def call_def and_then_def)

text \<open>
  C6. At the top-level boundary a \<open>QuantifyingException\<close> makes the process exit with
  the exit code it carries, logged at info severity when the code is zero and at error
  severity otherwise; a nested \<open>SystemExit\<close> is logged and its code propagated; a
  \<open>KeyboardInterrupt\<close> exits with 130; any other exception is logged with its trace and
  exits with 1.
\<close>

theorem script_exit_codes:
  "(main env w = (Inl (QuantifyingException m c), w1) \<longrightarrow>
      script env w = (Some (ExitInt c), emit (Log (if c = 0 then INFO else ERROR) [Lit m]) w1)) \<and>
   (main env w = (Inl (SystemExit code), w1) \<longrightarrow>
      script env w = (Some code, emit (Log ERROR [Lit ''System exit with code: '', ReprExit code]) w1)) \<and>
   (main env w = (Inl KeyboardInterrupt, w1) \<longrightarrow>
      script env w = (Some (ExitInt 130), emit (Log INFO [Lit ''(130) Halted via KeyboardInterrupt.'']) w1)) \<and>
   (main env w = (Inl e, w1) \<and> (\<forall>m c. e \<noteq> QuantifyingException m c) \<and>
      (\<forall>code. e \<noteq> SystemExit code) \<and> e \<noteq> KeyboardInterrupt \<longrightarrow>
      script env w = (Some (ExitInt 1),
        emit (Log EXCEPTION [Lit ''(1) Unhandled exception: '', FormatExc e]) w1))"
  by (cases e) (simp_all add: script_def log_info_def log_error_def log_exception_def)

theorem script_exit_codes_witness:
  "script (demo_env (Some (QuantifyingException ''nothing to do'' 0))) blank_world =
     (Some (ExitInt 0), emit (Log INFO [Lit ''nothing to do''])
        (emit (FetchAndMerge ''/repo'') blank_world)) \<and>
   script (demo_env (Some (QuantifyingException ''merge conflict'' 3))) blank_world =
     (Some (ExitInt 3), emit (Log ERROR [Lit ''merge conflict''])
        (emit (FetchAndMerge ''/repo'') blank_world)) \<and>
   script (demo_env (Some (SystemExit (ExitInt 2)))) blank_world =
     (Some (ExitInt 2), emit (Log ERROR [Lit ''System exit with code: '', ReprExit (ExitInt 2)])
        (emit (FetchAndMerge ''/repo'') blank_world)) \<and>
   script (demo_env (Some KeyboardInterrupt)) blank_world =
     (Some (ExitInt 130), emit (Log INFO [Lit ''(130) Halted via KeyboardInterrupt.''])
        (emit (FetchAndMerge ''/repo'') blank_world)) \<and>
   script (demo_env (Some KeyError)) blank_world =
     (Some (ExitInt 1), emit (Log EXCEPTION [Lit ''(1) Unhandled exception: '', FormatExc KeyError])
        (emit (FetchAndMerge ''/repo'') blank_world))"
proof -
  have m: "main (demo_env (Some e)) blank_world = (Inl e, emit (FetchAndMerge ''/repo'') blank_world)" for e
    using main_pull_raises [of "demo_env (Some e)" e blank_world] by (simp add: demo_env_def)
  show ?thesis
    using script_exit_codes [of "demo_env (Some (QuantifyingException ''nothing to do'' 0))" blank_world
        "''nothing to do''" 0 "emit (FetchAndMerge ''/repo'') blank_world" ExitNone KeyError]
      script_exit_codes [of "demo_env (Some (QuantifyingException ''merge conflict'' 3))" blank_world
        "''merge conflict''" 3 "emit (FetchAndMerge ''/repo'') blank_world" ExitNone KeyError]
      script_exit_codes [of "demo_env (Some (SystemExit (ExitInt 2)))" blank_world
        "''''" 0 "emit (FetchAndMerge ''/repo'') blank_world" "ExitInt 2" KeyError]
      script_exit_codes [of "demo_env (Some KeyboardInterrupt)" blank_world
        "''''" 0 "emit (FetchAndMerge ''/repo'') blank_world" ExitNone KeyError]
      script_exit_codes [of "demo_env (Some KeyError)" blank_world
        "''''" 0 "emit (FetchAndMerge ''/repo'') blank_world" ExitNone KeyError]
    by (simp add: m)
qed

subsection \<open>Effects of the basic operations\<close>

lemma emit_simps:
  "files (emit ev w) = files w" "frames (emit ev w) = frames w"
  "next_ref (emit ev w) = next_ref w" "trace (emit ev w) = trace w @ [ev]"
  by (simp_all add: emit_def)

lemma log_info_simps:
  "files (log_info m w) = files w" "frames (log_info m w) = frames w"
  "next_ref (log_info m w) = next_ref w" "trace (log_info m w) = trace w @ [Log INFO m]"
  by (simp_all add: log_info_def emit_def)

lemma log_error_simps:
  "files (log_error m w) = files w" "frames (log_error m w) = frames w"
  "next_ref (log_error m w) = next_ref w" "trace (log_error m w) = trace w @ [Log ERROR m]"
  by (simp_all add: log_error_def emit_def)

lemma set_frame_simps:
  "files (set_frame r df w) = files w" "frames (set_frame r df w) = (frames w)(r := df)"
  "next_ref (set_frame r df w) = next_ref w" "trace (set_frame r df w) = trace w"
  by (simp_all add: set_frame_def)

lemma savefig_simps:
  "files (savefig p c w) = (files w)(p \<mapsto> PngFile c)" "frames (savefig p c w) = frames w"
  "next_ref (savefig p c w) = next_ref w" "trace (savefig p c w) = trace w @ [SaveFig p]"
  by (simp_all add: savefig_def emit_def)

lemmas world_simps = emit_simps log_info_simps log_error_simps set_frame_simps savefig_simps

lemma show_simps:
  "files (if b then emit ev w else w) = files w"
  "frames (if b then emit ev w else w) = frames w"
  "next_ref (if b then emit ev w else w) = next_ref w"
  by (simp_all add: emit_simps)

text \<open>The end of every report: the README is updated and the success is logged.\<close>

lemma publish_simps:
  "files (snd (and_then (update_readme env p l d s a w) (\<lambda>u w'. (Inr (), log_info m w')))) = files w"
  "frames (snd (and_then (update_readme env p l d s a w) (\<lambda>u w'. (Inr (), log_info m w')))) = frames w"
  "next_ref (snd (and_then (update_readme env p l d s a w) (\<lambda>u w'. (Inr (), log_info m w')))) = next_ref w"
  by (simp_all add: update_readme_def call_def and_then_def world_simps split: option.splits)

lemma path_join_append: "path_join p (xs @ ys) = path_join (path_join p xs) ys"
  by (induction xs arbitrary: p) (simp_all add: path_join.simps)

lemma and_then_simps:
  "and_then (Inl e, w) f = (Inl e, w)" "and_then (Inr x, w) f = f x w"
  by (simp_all add: and_then_def)

subsection \<open>Saving and registering a figure\<close>

lemma steps_of_simps:
  "steps_of [] = []"
  "steps_of (ev # evs) = (case step_of ev of None \<Rightarrow> steps_of evs | Some s \<Rightarrow> s # steps_of evs)"
  "steps_of (xs @ ys) = steps_of xs @ steps_of ys"
  by (simp_all add: steps_of_def split: option.splits)

lemma publish_path:
  "path_join (path_join (paths_data env) [quarter a, ''3-report'']) [name] =
   path_join (paths_data env) [quarter a, ''3-report'', name]"
  using path_join_append [of "paths_data env" "[quarter a, ''3-report'']" "[name]"] by simp

lemma publish_world:
  "files (snd (publish env a name d s done c w)) =
     (files w)(path_join (paths_data env) [quarter a, ''3-report'', name] \<mapsto> PngFile c)"
  "frames (snd (publish env a name d s done c w)) = frames w"
  "next_ref (snd (publish env a name d s done c w)) = next_ref w"
  unfolding publish_def Let_def publish_path
  by (simp_all add: publish_simps show_simps world_simps)

lemma publish_trace:
  assumes "step_of_message done = None"
  shows "\<exists>evs. trace (snd (publish env a name d s done c w)) = trace w @ evs \<and> steps_of evs = []"
proof -
  let ?dir = "path_join (paths_data env) [quarter a, ''3-report'']"
  let ?p = "path_join ?dir [name]"
  let ?up = "UpdateReadme ?p ''Google Custom Search'' d s a"
  have quiet: "step_of_message (''Output directory: '' @ ?dir) = None"
    by (simp add: step_of_message_def)
  have "trace (snd (publish env a name d s done c w)) =
      trace w @ [Log INFO [Lit (''Output directory: '' @ ?dir)], MakeDirs ?dir, SaveFig ?p]
        @ (if show_plots a then [ShowPlot] else [])
        @ [?up] @ (case raises env ?up of None \<Rightarrow> [Log INFO [Lit done]] | Some e \<Rightarrow> [])"
    unfolding publish_def Let_def
    by (simp add: update_readme_def call_def and_then_simps world_simps split: option.splits)
  moreover have "steps_of ([Log INFO [Lit (''Output directory: '' @ ?dir)], MakeDirs ?dir, SaveFig ?p]
        @ (if show_plots a then [ShowPlot] else [])
        @ [?up] @ (case raises env ?up of None \<Rightarrow> [Log INFO [Lit done]] | Some e \<Rightarrow> [])) = []"
    using quiet assms by (simp add: steps_of_simps split: option.splits)
  ultimately show ?thesis by blast
qed

lemma publish_result:
  "fst (publish env a name d s done c w) =
     (case raises env (UpdateReadme (path_join (paths_data env) [quarter a, ''3-report'', name])
             ''Google Custom Search'' d s a) of
        None \<Rightarrow> Inr () | Some e \<Rightarrow> Inl e)"
  unfolding publish_def Let_def publish_path
  by (simp add: update_readme_def call_def and_then_simps split: option.splits)


subsection \<open>Headers and sentinels\<close>

lemma index_None_iff: "index xs x = None \<longleftrightarrow> x \<notin> set xs"
  by (induction xs) auto

lemma strip_examples:
  "strip '' United States'' = ''United States''" "strip ''Canada'' = ''Canada''"
  "strip ''LICENSE TYPE'' = ''LICENSE TYPE''" "strip ''LICENSE TYPE '' = ''LICENSE TYPE''"
  "strip ''English '' = ''English''"
  "strip ''Spanish'' = ''Spanish''"
  by (simp_all add: strip_def isspace_def)

lemma strip_fixture:
  "strip ''Canada '' = ''Canada''" "strip ''Japan'' = ''Japan''"
  "strip ''English'' = ''English''" "strip ''Indonesian '' = ''Indonesian''"
  "strip '' Canada'' = ''Canada''" "strip ''United States'' = ''United States''"
  by (simp_all add: strip_def isspace_def)

lemma last_dropWhile: "dropWhile P xs \<noteq> [] \<Longrightarrow> last (dropWhile P xs) = last xs"
  by (induction xs) (auto split: if_splits)

lemma strip_strip: "strip (strip s) = strip s"
proof -
  let ?t = "dropWhile isspace s"
  let ?v = "dropWhile isspace (rev ?t)"
  have u: "strip s = rev ?v" by (simp add: strip_def)
  have front: "dropWhile isspace (rev ?v) = rev ?v"
  proof (cases "?v = []")
    case True
    show ?thesis unfolding True by simp
  next
    case False
    have t: "?t \<noteq> []"
    proof
      assume e: "?t = []"
      have "?v = []" unfolding e by simp
      with False show False by contradiction
    qed
    have "hd (rev ?v) = last ?v" using False by (simp add: hd_rev)
    also have "\<dots> = last (rev ?t)" using False by (rule last_dropWhile)
    also have "\<dots> = hd ?t" using t by (simp add: last_rev)
    finally have "\<not> isspace (hd (rev ?v))" using t hd_dropWhile [of isspace s] by simp
    then show ?thesis by (simp add: dropWhile_eq_self_iff)
  qed
  have "strip (rev ?v) = rev (dropWhile isspace ?v)"
    unfolding strip_def front by simp
  also have "\<dots> = rev ?v" by simp
  finally show ?thesis unfolding u .
qed

lemma strip_columns_idem: "strip_columns (strip_columns df) = strip_columns df"
  by (simp add: strip_columns_def strip_strip comp_def)

lemma columns_strip_columns: "columns (strip_columns df) = map strip (columns df)"
  by (simp add: strip_columns_def columns_def comp_def)

lemma empty_frame_strip_columns: "empty_frame (strip_columns df) = empty_frame df"
  by (cases "cols df") (simp_all add: empty_frame_def nrows_def strip_columns_def)

lemma str_strip_cols: "cols df \<noteq> [] \<Longrightarrow> str_strip df = Inr (strip_columns df)"
  by (simp add: str_strip_def)

lemma str_strip_found:
  "index (map strip (columns df)) x = Some i \<Longrightarrow> str_strip df = Inr (strip_columns df)"
  by (cases "cols df") (simp_all add: str_strip_def columns_def)

subsection \<open>The reports, stage by stage\<close>

lemma country_publish:
  "visualize_by_country env data a w =
     (let w1 = log_info [Lit ''Creating a bar chart for the number of webpages licensed by country.''] w;
          columns_list = map strip (columns (frames w data))
      in case index columns_list ''United States'' of
           None \<Rightarrow> (Inl ValueError, w1)
         | Some start_index \<Rightarrow>
             (case index columns_list ''Japan'' of
                None \<Rightarrow> (Inl ValueError, w1)
              | Some j \<Rightarrow>
                  (let w3 = log_info [Lit ''Cleaned Columns: '', ReprList (columns (strip_columns (frames w data)))]
                              (set_frame data (strip_columns (frames w data)) w1)
                   in case getitem (strip_columns (frames w data)) (slice columns_list start_index (j + 1)) of
                        Inl e \<Rightarrow> (Inl e, w3)
                      | Inr selected \<Rightarrow>
                          (case frame_sum (cols selected) of
                             Inl e \<Rightarrow> (Inl e, w3)
                           | Inr country_data \<Rightarrow>
                               (case barplot country_data of
                                  Inl e \<Rightarrow> (Inl e, w3)
                                | Inr ax \<Rightarrow>
                                    publish env a ''gcs_country_report.png''
                                      ''Number of Google Webpages Licensed by Country'' ''Country Report''
                                      ''Visualization by country created.''
                                      \<lparr>title = ''Number of Google Webpages Licensed by Country ('' @ quarter a @ '')'',
                                       xlabel = ''Country'', ylabel = ''Number of Webpages'',
                                       bars = country_data, xticklabels = None\<rparr> w3)))))"
proof (cases "index (map strip (columns (frames w data))) ''United States''")
  case None
  then show ?thesis
    by (simp only: visualize_by_country_def Let_def world_simps option.case)
next
  case us: (Some i)
  show ?thesis
  proof (cases "index (map strip (columns (frames w data))) ''Japan''")
    case None
    with us show ?thesis
      by (simp only: visualize_by_country_def Let_def world_simps option.case)
  next
    case jp: (Some j)
    note st = str_strip_found [OF us]
    show ?thesis
      by (simp only: visualize_by_country_def publish_def Let_def world_simps fun_upd_same
          us jp st option.case sum.case)
  qed
qed

lemma language_publish:
  "visualize_by_language env data a w =
     (let w1 = log_info [Lit ''Creating a bar chart for the number of webpages licensed by language.''] w;
          columns_list = map strip (columns (frames w data))
      in case index columns_list ''English'' of
           None \<Rightarrow> (Inl ValueError, w1)
         | Some start_index \<Rightarrow>
             (case index columns_list ''Indonesian'' of
                None \<Rightarrow> (Inl ValueError, w1)
              | Some j \<Rightarrow>
                  (let w3 = log_info [Lit ''Cleaned Columns: '', ReprList (columns (strip_columns (frames w data)))]
                              (set_frame data (strip_columns (frames w data)) w1)
                   in case getitem (strip_columns (frames w data)) (slice columns_list start_index (j + 1)) of
                        Inl e \<Rightarrow> (Inl e, w3)
                      | Inr selected \<Rightarrow>
                          (case frame_sum (cols selected) of
                             Inl e \<Rightarrow> (Inl e, w3)
                           | Inr language_data \<Rightarrow>
                               (case barplot language_data of
                                  Inl e \<Rightarrow> (Inl e, w3)
                                | Inr ax \<Rightarrow>
                                    publish env a ''gcs_language_report.png''
                                      ''Number of Google Webpages Licensed by Language'' ''Language Report''
                                      ''Visualization by language created.''
                                      \<lparr>title = ''Number of Google Webpages Licensed by Language ('' @ quarter a @ '')'',
                                       xlabel = ''Language'', ylabel = ''Number of Webpages'',
                                       bars = language_data, xticklabels = None\<rparr> w3)))))"
proof (cases "index (map strip (columns (frames w data))) ''English''")
  case None
  then show ?thesis
    by (simp only: visualize_by_language_def Let_def world_simps option.case)
next
  case en: (Some i)
  show ?thesis
  proof (cases "index (map strip (columns (frames w data))) ''Indonesian''")
    case None
    with en show ?thesis
      by (simp only: visualize_by_language_def Let_def world_simps option.case)
  next
    case ind: (Some j)
    note st = str_strip_found [OF en]
    show ?thesis
      by (simp only: visualize_by_language_def publish_def Let_def world_simps fun_upd_same
          en ind st option.case sum.case)
  qed
qed

lemma license_publish:
  "visualize_by_license_type env data a w =
     (let w1 = log_info [Lit ''Creating a bar chart for the number of webpages licensed by license type.''] w
      in case str_strip (frames w data) of
           Inl e \<Rightarrow> (Inl e, w1)
         | Inr stripped \<Rightarrow>
             (let w2 = set_frame data stripped w1
              in case set_index stripped ''LICENSE TYPE'' of
                   Inl e \<Rightarrow> (Inl e, w2)
                 | Inr indexed \<Rightarrow>
                     (case sum_axis1 indexed of
                        Inl e \<Rightarrow> (Inl e, w2)
                      | Inr license_data \<Rightarrow>
                          (case barplot license_data of
                             Inl e \<Rightarrow> (Inl e, w2)
                           | Inr ax \<Rightarrow>
                               (case xtick_labels (map fst license_data) of
                                  Inl e \<Rightarrow> (Inl e, w2)
                                | Inr labels \<Rightarrow>
                                    publish env a ''gcs_licensetype_report.png''
                                      ''Number of Webpages Licensed by License Type'' ''License Type Report''
                                      ''Visualization by license type created.''
                                      \<lparr>title = ''Number of Webpages Licensed by License Type ('' @ quarter a @ '')'',
                                       xlabel = ''License Type'', ylabel = ''Number of Webpages'',
                                       bars = license_data, xticklabels = Some labels\<rparr> w2)))))"
  by (simp only: visualize_by_license_type_def publish_def Let_def world_simps fun_upd_same)

subsection \<open>A report saves the chart it builds\<close>

lemma country_by_chart:
  "visualize_by_country env data a w =
     (let w1 = log_info [Lit ''Creating a bar chart for the number of webpages licensed by country.''] w;
          w3 = log_info [Lit ''Cleaned Columns: '', ReprList (columns (strip_columns (frames w data)))]
                 (set_frame data (strip_columns (frames w data)) w1)
      in case country_chart a (frames w data) of
           Inl e \<Rightarrow>
             (Inl e, if index (map strip (columns (frames w data))) ''United States'' = None \<or>
                        index (map strip (columns (frames w data))) ''Japan'' = None
                     then w1 else w3)
         | Inr c \<Rightarrow>
             publish env a ''gcs_country_report.png''
               ''Number of Google Webpages Licensed by Country'' ''Country Report''
               ''Visualization by country created.'' c w3)"
proof (cases "index (map strip (columns (frames w data))) ''United States''")
  case None
  then show ?thesis
    by (simp add: country_publish country_chart_def span_series_def Let_def)
next
  case us: (Some i)
  show ?thesis
  proof (cases "index (map strip (columns (frames w data))) ''Japan''")
    case None
    with us show ?thesis
      by (simp add: country_publish country_chart_def span_series_def Let_def)
  next
    case jp: (Some j)
    note st = str_strip_found [OF us]
    show ?thesis
    proof (cases "getitem (strip_columns (frames w data)) (slice (map strip (columns (frames w data))) i (j + 1))")
      case (Inl e)
      with us jp st show ?thesis
        by (simp add: country_publish country_chart_def span_series_def Let_def)
    next
      case sel: (Inr selected)
      show ?thesis
      proof (cases "frame_sum (cols selected)")
        case (Inl e)
        with us jp st sel show ?thesis
          by (simp add: country_publish country_chart_def span_series_def Let_def)
      next
        case fs: (Inr series)
        show ?thesis
        proof (cases "barplot series")
          case (Inl e)
          with us jp st sel fs show ?thesis
            by (simp add: country_publish country_chart_def span_series_def Let_def)
        next
          case (Inr ax)
          with us jp st sel fs show ?thesis
            by (simp add: country_publish country_chart_def span_series_def Let_def)
        qed
      qed
    qed
  qed
qed

lemma language_by_chart:
  "visualize_by_language env data a w =
     (let w1 = log_info [Lit ''Creating a bar chart for the number of webpages licensed by language.''] w;
          w3 = log_info [Lit ''Cleaned Columns: '', ReprList (columns (strip_columns (frames w data)))]
                 (set_frame data (strip_columns (frames w data)) w1)
      in case language_chart a (frames w data) of
           Inl e \<Rightarrow>
             (Inl e, if index (map strip (columns (frames w data))) ''English'' = None \<or>
                        index (map strip (columns (frames w data))) ''Indonesian'' = None
                     then w1 else w3)
         | Inr c \<Rightarrow>
             publish env a ''gcs_language_report.png''
               ''Number of Google Webpages Licensed by Language'' ''Language Report''
               ''Visualization by language created.'' c w3)"
proof (cases "index (map strip (columns (frames w data))) ''English''")
  case None
  then show ?thesis
    by (simp add: language_publish language_chart_def span_series_def Let_def)
next
  case en: (Some i)
  show ?thesis
  proof (cases "index (map strip (columns (frames w data))) ''Indonesian''")
    case None
    with en show ?thesis
      by (simp add: language_publish language_chart_def span_series_def Let_def)
  next
    case ind: (Some j)
    note st = str_strip_found [OF en]
    show ?thesis
    proof (cases "getitem (strip_columns (frames w data)) (slice (map strip (columns (frames w data))) i (j + 1))")
      case (Inl e)
      with en ind st show ?thesis
        by (simp add: language_publish language_chart_def span_series_def Let_def)
    next
      case sel: (Inr selected)
      show ?thesis
      proof (cases "frame_sum (cols selected)")
        case (Inl e)
        with en ind st sel show ?thesis
          by (simp add: language_publish language_chart_def span_series_def Let_def)
      next
        case fs: (Inr series)
        show ?thesis
        proof (cases "barplot series")
          case (Inl e)
          with en ind st sel fs show ?thesis
            by (simp add: language_publish language_chart_def span_series_def Let_def)
        next
          case (Inr ax)
          with en ind st sel fs show ?thesis
            by (simp add: language_publish language_chart_def span_series_def Let_def)
        qed
      qed
    qed
  qed
qed

lemma license_by_chart:
  "visualize_by_license_type env data a w =
     (let w1 = log_info [Lit ''Creating a bar chart for the number of webpages licensed by license type.''] w;
          w2 = set_frame data (strip_columns (frames w data)) w1
      in case license_chart a (frames w data) of
           Inl e \<Rightarrow> (Inl e, if cols (frames w data) = [] then w1 else w2)
         | Inr c \<Rightarrow>
             publish env a ''gcs_licensetype_report.png''
               ''Number of Webpages Licensed by License Type'' ''License Type Report''
               ''Visualization by license type created.'' c w2)"
proof (cases "cols (frames w data) = []")
  case True
  then show ?thesis
    by (simp add: license_publish license_chart_def str_strip_def Let_def)
next
  case False
  note st = str_strip_cols [OF False]
  show ?thesis
  proof (cases "set_index (strip_columns (frames w data)) ''LICENSE TYPE''")
    case (Inl e)
    with False st show ?thesis
      by (simp add: license_publish license_chart_def Let_def)
  next
    case idx: (Inr indexed)
    show ?thesis
    proof (cases "sum_axis1 indexed")
      case (Inl e)
      with False st idx show ?thesis
        by (simp add: license_publish license_chart_def Let_def)
    next
      case tot: (Inr series)
      show ?thesis
      proof (cases "barplot series")
        case (Inl e)
        with False st idx tot show ?thesis
          by (simp add: license_publish license_chart_def Let_def)
      next
        case bp: (Inr ax)
        show ?thesis
        proof (cases "xtick_labels (map fst series)")
          case (Inl e)
          with False st idx tot bp show ?thesis
            by (simp add: license_publish license_chart_def Let_def)
        next
          case (Inr labels)
          with False st idx tot bp show ?thesis
            by (simp add: license_publish license_chart_def Let_def)
        qed
      qed
    qed
  qed
qed

lemma report_paths:
  "path_join (paths_data env) [quarter a, ''3-report'', ''gcs_country_report.png''] = country_path env a"
  "path_join (paths_data env) [quarter a, ''3-report'', ''gcs_licensetype_report.png''] = licensetype_path env a"
  "path_join (paths_data env) [quarter a, ''3-report'', ''gcs_language_report.png''] = language_path env a"
  by (simp_all add: country_path_def licensetype_path_def language_path_def)

lemma country_files:
  "files (snd (visualize_by_country env data a w)) =
     written (country_path env a) (country_chart a (frames w data)) (files w)"
  by (cases "country_chart a (frames w data)")
    (simp_all add: country_by_chart Let_def written_def publish_world report_paths world_simps)

lemma license_files:
  "files (snd (visualize_by_license_type env data a w)) =
     written (licensetype_path env a) (license_chart a (frames w data)) (files w)"
  by (cases "license_chart a (frames w data)")
    (simp_all add: license_by_chart Let_def written_def publish_world report_paths world_simps)

lemma language_files:
  "files (snd (visualize_by_language env data a w)) =
     written (language_path env a) (language_chart a (frames w data)) (files w)"
  by (cases "language_chart a (frames w data)")
    (simp_all add: language_by_chart Let_def written_def publish_world report_paths world_simps)

lemma country_result:
  "fst (visualize_by_country env data a w) =
     (case country_chart a (frames w data) of
        Inl e \<Rightarrow> Inl e
      | Inr c \<Rightarrow>
          (case raises env (UpdateReadme (country_path env a) ''Google Custom Search''
                  ''Number of Google Webpages Licensed by Country'' ''Country Report'' a) of
             None \<Rightarrow> Inr () | Some e \<Rightarrow> Inl e))"
  by (cases "country_chart a (frames w data)")
    (simp_all add: country_by_chart Let_def publish_result report_paths)

lemma license_result:
  "fst (visualize_by_license_type env data a w) =
     (case license_chart a (frames w data) of
        Inl e \<Rightarrow> Inl e
      | Inr c \<Rightarrow>
          (case raises env (UpdateReadme (licensetype_path env a) ''Google Custom Search''
                  ''Number of Webpages Licensed by License Type'' ''License Type Report'' a) of
             None \<Rightarrow> Inr () | Some e \<Rightarrow> Inl e))"
  by (cases "license_chart a (frames w data)")
    (simp_all add: license_by_chart Let_def publish_result report_paths)

lemma language_result:
  "fst (visualize_by_language env data a w) =
     (case language_chart a (frames w data) of
        Inl e \<Rightarrow> Inl e
      | Inr c \<Rightarrow>
          (case raises env (UpdateReadme (language_path env a) ''Google Custom Search''
                  ''Number of Google Webpages Licensed by Language'' ''Language Report'' a) of
             None \<Rightarrow> Inr () | Some e \<Rightarrow> Inl e))"
  by (cases "language_chart a (frames w data)")
    (simp_all add: language_by_chart Let_def publish_result report_paths)

lemma saved_chart_upd: "files w = m(p \<mapsto> PngFile c) \<Longrightarrow> saved_chart w p = Some c"
  by (simp add: saved_chart_def)

lemma country_saved:
  "country_chart a (frames w data) = Inr c \<Longrightarrow>
   saved_chart (snd (visualize_by_country env data a w)) (country_path env a) = Some c"
  by (simp add: saved_chart_def country_files written_def)

lemma license_saved:
  "license_chart a (frames w data) = Inr c \<Longrightarrow>
   saved_chart (snd (visualize_by_license_type env data a w)) (licensetype_path env a) = Some c"
  by (simp add: saved_chart_def license_files written_def)

lemma language_saved:
  "language_chart a (frames w data) = Inr c \<Longrightarrow>
   saved_chart (snd (visualize_by_language env data a w)) (language_path env a) = Some c"
  by (simp add: saved_chart_def language_files written_def)

subsection \<open>A missing sentinel column\<close>

lemma span_series_missing:
  "index (map strip (columns df)) first_name = None \<or> index (map strip (columns df)) last_name = None \<Longrightarrow>
   span_series first_name last_name df = Inl ValueError"
  by (cases "index (map strip (columns df)) first_name") (auto simp add: span_series_def Let_def)

lemma country_missing:
  assumes "index (map strip (columns (frames w data))) ''United States'' = None \<or>
           index (map strip (columns (frames w data))) ''Japan'' = None"
  shows "visualize_by_country env data a w =
     (Inl ValueError, log_info [Lit ''Creating a bar chart for the number of webpages licensed by country.''] w)"
  using assms span_series_missing [OF assms]
  by (simp add: country_by_chart country_chart_def Let_def)

lemma language_missing:
  assumes "index (map strip (columns (frames w data))) ''English'' = None \<or>
           index (map strip (columns (frames w data))) ''Indonesian'' = None"
  shows "visualize_by_language env data a w =
     (Inl ValueError, log_info [Lit ''Creating a bar chart for the number of webpages licensed by language.''] w)"
  using assms span_series_missing [OF assms]
  by (simp add: language_by_chart language_chart_def Let_def)

text \<open>
  C4. When the stripped headers lack a sentinel column (\<open>United States\<close> or \<open>Japan\<close> for
  the country report, \<open>English\<close> or \<open>Indonesian\<close> for the language report), the report
  fails with the ValueError of \<^verbatim>\<open>list.index\<close> and leaves every file as it was: no
  chart is written by that report.
\<close>

theorem missing_sentinel_fails:
  "((''United States'' \<notin> set (map strip (columns (frames w data))) \<or>
     ''Japan'' \<notin> set (map strip (columns (frames w data)))) \<longrightarrow>
      fst (visualize_by_country env data a w) = Inl ValueError \<and>
      files (snd (visualize_by_country env data a w)) = files w) \<and>
   ((''English'' \<notin> set (map strip (columns (frames w data))) \<or>
     ''Indonesian'' \<notin> set (map strip (columns (frames w data)))) \<longrightarrow>
      fst (visualize_by_language env data a w) = Inl ValueError \<and>
      files (snd (visualize_by_language env data a w)) = files w)"
  using country_missing [of w data env a] language_missing [of w data env a]
  by (simp add: index_None_iff log_info_simps)

theorem missing_sentinel_fails_witness:
  "''Japan'' \<notin> set (map strip (columns (frames (world_with no_japan) 0))) \<and>
   fst (visualize_by_country (demo_env None) 0 demo_args (world_with no_japan)) = Inl ValueError \<and>
   files (snd (visualize_by_country (demo_env None) 0 demo_args (world_with no_japan))) =
     files (world_with no_japan) \<and>
   ''Indonesian'' \<notin> set (map strip (columns (frames (world_with no_indonesian) 0))) \<and>
   fst (visualize_by_language (demo_env None) 0 demo_args (world_with no_indonesian)) = Inl ValueError \<and>
   files (snd (visualize_by_language (demo_env None) 0 demo_args (world_with no_indonesian))) =
     files (world_with no_indonesian)"
proof -
  have j: "''Japan'' \<notin> set (map strip (columns (frames (world_with no_japan) 0)))"
    by (simp add: world_with_def no_japan_def columns_def strip_examples)
  have i: "''Indonesian'' \<notin> set (map strip (columns (frames (world_with no_indonesian) 0)))"
    by (simp add: world_with_def no_indonesian_def columns_def strip_examples)
  show ?thesis
    using j i missing_sentinel_fails [of "world_with no_japan" 0 "demo_env None" demo_args]
      missing_sentinel_fails [of "world_with no_indonesian" 0 "demo_env None" demo_args]
    by simp
qed


subsection \<open>Aggregation over the span between two sentinels\<close>

lemma filter_unique_key:
  "count_list (map fst cs) (fst c) = 1 \<Longrightarrow> c \<in> set cs \<Longrightarrow> filter (\<lambda>c'. fst c' = fst c) cs = [c]"
proof (induction cs)
  case Nil
  then show ?case by simp
next
  case (Cons d cs)
  show ?case
  proof (cases "fst d = fst c")
    case True
    with Cons.prems(1) have "count_list (map fst cs) (fst c) = 0" by simp
    then have absent: "fst c \<notin> set (map fst cs)" by (rule iffD1 [OF count_list_0_iff])
    then have "\<forall>c'\<in>set cs. fst c' \<noteq> fst c" by (metis image_eqI set_map)
    then have none: "filter (\<lambda>c'. fst c' = fst c) cs = []" by (simp add: filter_empty_conv)
    have "c \<notin> set cs"
    proof
      assume "c \<in> set cs"
      then have "fst c \<in> fst ` set cs" by (rule imageI)
      with absent show False by simp
    qed
    with Cons.prems(2) have "c = d" by simp
    with none show ?thesis by simp
  next
    case False
    with Cons.prems(1) have one: "count_list (map fst cs) (fst c) = 1" by simp
    from False Cons.prems(2) have "c \<in> set cs" by auto
    from Cons.IH [OF one this] False show ?thesis by simp
  qed
qed

lemma select_by_own_labels:
  "\<forall>x\<in>set xs. count_list (map fst cs) (fst x) = 1 \<Longrightarrow> set xs \<subseteq> set cs \<Longrightarrow>
   concat (map (\<lambda>l. filter (\<lambda>c. fst c = l) cs) (map fst xs)) = xs"
  by (induction xs) (simp_all add: filter_unique_key)

lemma set_slice: "set (slice xs i j) \<subseteq> set xs"
  unfolding slice_def by (meson set_take_subset set_drop_subset subset_trans)

lemma slice_map: "slice (map f xs) i j = map f (slice xs i j)"
  by (simp add: slice_def take_map drop_map)

lemma stripped_slice:
  "slice (cols (strip_columns df)) i j = map (\<lambda>c. (strip (fst c), snd c)) (slice (cols df) i j)"
  by (simp add: strip_columns_def slice_map)

lemma getitem_span:
  assumes "list_all (\<lambda>l. count_list (map strip (columns df)) l = 1) (slice (map strip (columns df)) i j)"
  shows "getitem (strip_columns df) (slice (map strip (columns df)) i j) =
     Inr \<lparr>cols = map (\<lambda>c. (strip (fst c), snd c)) (slice (cols df) i j)\<rparr>"
proof -
  let ?cs = "cols (strip_columns df)"
  have fst_cs: "map fst ?cs = map strip (columns df)"
    by (simp add: strip_columns_def columns_def comp_def)
  then have labels: "slice (map strip (columns df)) i j = map fst (slice ?cs i j)"
    by (simp add: slice_map [symmetric])
  have known: "list_all (\<lambda>l. l \<in> set (columns (strip_columns df))) (map fst (slice ?cs i j))"
    using set_slice [of ?cs i j] by (auto simp: list_all_iff columns_def)
  have own: "\<forall>x\<in>set (slice ?cs i j). count_list (map fst ?cs) (fst x) = 1"
    using assms unfolding labels fst_cs by (simp add: list_all_iff)
  have "concat (map (\<lambda>l. filter (\<lambda>c. fst c = l) ?cs) (map fst (slice ?cs i j))) = slice ?cs i j"
    by (rule select_by_own_labels [OF own set_slice])
  with known show ?thesis by (simp add: getitem_def labels stripped_slice)
qed

lemma span_series_unique:
  assumes "index (map strip (columns df)) first_name = Some i"
    and "index (map strip (columns df)) last_name = Some j"
    and "list_all (\<lambda>l. count_list (map strip (columns df)) l = 1)
           (slice (map strip (columns df)) i (Suc j))"
  shows "span_series first_name last_name df =
     (case frame_sum (map (\<lambda>c. (strip (fst c), snd c)) (slice (cols df) i (Suc j))) of
        Inl e \<Rightarrow> Inl e
      | Inr series \<Rightarrow> (case barplot series of Inl e \<Rightarrow> Inl e | Inr ax \<Rightarrow> Inr series))"
  using assms(1,2) getitem_span [OF assms(3)] str_strip_found [OF assms(1)]
  by (simp add: span_series_def Let_def)

lemma sum_words: "sum_list (map int_of vs) = word_of_int (exact_sum vs)"
  by (induction vs) (simp_all add: exact_sum_def)

lemma column_sum_int64:
  "int64_column vs \<Longrightarrow> column_sum vs = Inr (IntTotal (word_of_int (exact_sum vs)))"
  by (simp add: column_sum_def dtype_of_def int64_column_def sum_words)

lemma column_sums_int64:
  "list_all (\<lambda>c. int64_column (snd c)) cs \<Longrightarrow>
   column_sums cs = Inr (map (\<lambda>c. (Str (fst c), IntTotal (word_of_int (exact_sum (snd c))))) cs)"
  by (induction cs) (simp_all add: column_sum_int64)

lemma frame_sum_int64:
  assumes "list_all (\<lambda>c. int64_column (snd c)) cs"
  shows "frame_sum cs = Inr (map (\<lambda>c. (Str (fst c), IntTotal (word_of_int (exact_sum (snd c))))) cs)"
    and "barplot (map (\<lambda>c. (Str (fst c), IntTotal (word_of_int (exact_sum (snd c))))) cs) = Inr ()"
  by (simp_all add: frame_sum_def barplot_def column_sums_int64 [OF assms] list_ex_iff)

lemma span_int64:
  assumes "list_all (\<lambda>c. int64_column (snd c)) cs"
  shows "frame_sum (map (\<lambda>c. (strip (fst c), snd c)) cs) =
      Inr (map (\<lambda>c. (Str (strip (fst c)), IntTotal (word_of_int (exact_sum (snd c))))) cs)"
    and "barplot (map (\<lambda>c. (Str (strip (fst c)), IntTotal (word_of_int (exact_sum (snd c))))) cs) = Inr ()"
proof -
  have "list_all (\<lambda>c. int64_column (snd c)) (map (\<lambda>c. (strip (fst c), snd c)) cs)"
    using assms by (simp add: list_all_iff)
  from frame_sum_int64 [OF this]
  show "frame_sum (map (\<lambda>c. (strip (fst c), snd c)) cs) =
      Inr (map (\<lambda>c. (Str (strip (fst c)), IntTotal (word_of_int (exact_sum (snd c))))) cs)"
    and "barplot (map (\<lambda>c. (Str (strip (fst c)), IntTotal (word_of_int (exact_sum (snd c))))) cs) = Inr ()"
    by (simp_all add: comp_def)
qed

text \<open>Sums as pandas computes them: wrap-around, floats, text.\<close>

lemma sums_as_pandas:
  "column_sum [Num 9223372036854775807, Num 1] = Inr (IntTotal (- 9223372036854775808))"
  "frame_sum [(''a'', [Num 1, Num 2]), (''b'', [Flt x, Flt y])] =
     Inr [(Str ''a'', FloatTotal [Num 3]), (Str ''b'', FloatTotal [Flt x, Flt y])]"
  "frame_sum [(''a'', [Num 1, Num 2]), (''b'', [Str ''x'', Str ''y''])] =
     Inr [(Str ''a'', IntTotal 3), (Str ''b'', TextTotal ''xy'')]"
  "barplot [(Str ''a'', IntTotal 3), (Str ''b'', TextTotal ''xy'')] = Inl ValueError"
  "column_sum [Str ''x'', Flt y] = Inl TypeError"
  by (simp_all add: column_sum_def frame_sum_def dtype_of_def barplot_def)

lemma sint_fits: "fits64 n \<Longrightarrow> sint (word_of_int n :: 64 word) = n"
  unfolding fits64_def by (simp add: signed_take_bit_int_eq_self sint_sbintrunc')

text \<open>
  C1 (amended). Let the stripped headers contain the sentinels of a report
  (\<open>United States\<close> and \<open>Japan\<close> for the country report, \<open>English\<close> and \<open>Indonesian\<close>
  for the language report), and let no stripped header of the span, from the first
  sentinel up to and including the other, be carried by a second column. Then the series
  the report saves is what \<^verbatim>\<open>DataFrame.sum()\<close> gives for the raw columns of the span, in
  column order and under their stripped headers, whenever that sum can be drawn. When the
  columns of the span are \<^verbatim>\<open>int64\<close> columns, the total of each is the sum of its cells
  reduced to 64 bits, which is the sum itself whenever that fits in 64 bits.
\<close>

theorem span_aggregates:
  "(index (map strip (columns (frames w data))) ''United States'' = Some i \<and>
    index (map strip (columns (frames w data))) ''Japan'' = Some j \<and>
    list_all (\<lambda>l. count_list (map strip (columns (frames w data))) l = 1)
      (slice (map strip (columns (frames w data))) i (Suc j)) \<and>
    frame_sum (map (\<lambda>c. (strip (fst c), snd c)) (slice (cols (frames w data)) i (Suc j))) = Inr series \<and>
    barplot series = Inr () \<longrightarrow>
    map_option bars (saved_chart (snd (visualize_by_country env data a w)) (country_path env a)) =
      Some series) \<and>
   (index (map strip (columns (frames w data))) ''English'' = Some i' \<and>
    index (map strip (columns (frames w data))) ''Indonesian'' = Some j' \<and>
    list_all (\<lambda>l. count_list (map strip (columns (frames w data))) l = 1)
      (slice (map strip (columns (frames w data))) i' (Suc j')) \<and>
    frame_sum (map (\<lambda>c. (strip (fst c), snd c)) (slice (cols (frames w data)) i' (Suc j'))) = Inr series' \<and>
    barplot series' = Inr () \<longrightarrow>
    map_option bars (saved_chart (snd (visualize_by_language env data a w)) (language_path env a)) =
      Some series') \<and>
   (index (map strip (columns (frames w data))) ''United States'' = Some i \<and>
    index (map strip (columns (frames w data))) ''Japan'' = Some j \<and>
    list_all (\<lambda>l. count_list (map strip (columns (frames w data))) l = 1)
      (slice (map strip (columns (frames w data))) i (Suc j)) \<and>
    list_all (\<lambda>c. int64_column (snd c)) (slice (cols (frames w data)) i (Suc j)) \<longrightarrow>
    map_option bars (saved_chart (snd (visualize_by_country env data a w)) (country_path env a)) =
      Some (map (\<lambda>c. (Str (strip (fst c)), IntTotal (word_of_int (exact_sum (snd c)))))
              (slice (cols (frames w data)) i (Suc j)))) \<and>
   (index (map strip (columns (frames w data))) ''English'' = Some i' \<and>
    index (map strip (columns (frames w data))) ''Indonesian'' = Some j' \<and>
    list_all (\<lambda>l. count_list (map strip (columns (frames w data))) l = 1)
      (slice (map strip (columns (frames w data))) i' (Suc j')) \<and>
    list_all (\<lambda>c. int64_column (snd c)) (slice (cols (frames w data)) i' (Suc j')) \<longrightarrow>
    map_option bars (saved_chart (snd (visualize_by_language env data a w)) (language_path env a)) =
      Some (map (\<lambda>c. (Str (strip (fst c)), IntTotal (word_of_int (exact_sum (snd c)))))
              (slice (cols (frames w data)) i' (Suc j')))) \<and>
   (fits64 n \<longrightarrow> int_value (IntTotal (word_of_int n)) = n)"
proof -
  have country: "map_option bars (saved_chart (snd (visualize_by_country env data a w)) (country_path env a)) =
      Some s"
    if "index (map strip (columns (frames w data))) ''United States'' = Some i"
      and "index (map strip (columns (frames w data))) ''Japan'' = Some j"
      and "list_all (\<lambda>l. count_list (map strip (columns (frames w data))) l = 1)
        (slice (map strip (columns (frames w data))) i (Suc j))"
      and "frame_sum (map (\<lambda>c. (strip (fst c), snd c)) (slice (cols (frames w data)) i (Suc j))) = Inr s"
      and "barplot s = Inr ()" for s
  proof -
    have "country_chart a (frames w data) =
        Inr \<lparr>title = ''Number of Google Webpages Licensed by Country ('' @ quarter a @ '')'',
             xlabel = ''Country'', ylabel = ''Number of Webpages'', bars = s, xticklabels = None\<rparr>"
      using that(4,5) by (simp add: country_chart_def span_series_unique [OF that(1,2,3)])
    from country_saved [OF this] show ?thesis by simp
  qed
  have language: "map_option bars (saved_chart (snd (visualize_by_language env data a w)) (language_path env a)) =
      Some s"
    if "index (map strip (columns (frames w data))) ''English'' = Some i'"
      and "index (map strip (columns (frames w data))) ''Indonesian'' = Some j'"
      and "list_all (\<lambda>l. count_list (map strip (columns (frames w data))) l = 1)
        (slice (map strip (columns (frames w data))) i' (Suc j'))"
      and "frame_sum (map (\<lambda>c. (strip (fst c), snd c)) (slice (cols (frames w data)) i' (Suc j'))) = Inr s"
      and "barplot s = Inr ()" for s
  proof -
    have "language_chart a (frames w data) =
        Inr \<lparr>title = ''Number of Google Webpages Licensed by Language ('' @ quarter a @ '')'',
             xlabel = ''Language'', ylabel = ''Number of Webpages'', bars = s, xticklabels = None\<rparr>"
      using that(4,5) by (simp add: language_chart_def span_series_unique [OF that(1,2,3)])
    from language_saved [OF this] show ?thesis by simp
  qed
  show ?thesis
  proof (intro conjI impI)
    assume "index (map strip (columns (frames w data))) ''United States'' = Some i \<and>
      index (map strip (columns (frames w data))) ''Japan'' = Some j \<and>
      list_all (\<lambda>l. count_list (map strip (columns (frames w data))) l = 1)
        (slice (map strip (columns (frames w data))) i (Suc j)) \<and>
      frame_sum (map (\<lambda>c. (strip (fst c), snd c)) (slice (cols (frames w data)) i (Suc j))) = Inr series \<and>
      barplot series = Inr ()"
    then show "map_option bars (saved_chart (snd (visualize_by_country env data a w)) (country_path env a)) =
        Some series"
      by (intro country) simp_all
  next
    assume "index (map strip (columns (frames w data))) ''English'' = Some i' \<and>
      index (map strip (columns (frames w data))) ''Indonesian'' = Some j' \<and>
      list_all (\<lambda>l. count_list (map strip (columns (frames w data))) l = 1)
        (slice (map strip (columns (frames w data))) i' (Suc j')) \<and>
      frame_sum (map (\<lambda>c. (strip (fst c), snd c)) (slice (cols (frames w data)) i' (Suc j'))) = Inr series' \<and>
      barplot series' = Inr ()"
    then show "map_option bars (saved_chart (snd (visualize_by_language env data a w)) (language_path env a)) =
        Some series'"
      by (intro language) simp_all
  next
    assume h: "index (map strip (columns (frames w data))) ''United States'' = Some i \<and>
      index (map strip (columns (frames w data))) ''Japan'' = Some j \<and>
      list_all (\<lambda>l. count_list (map strip (columns (frames w data))) l = 1)
        (slice (map strip (columns (frames w data))) i (Suc j)) \<and>
      list_all (\<lambda>c. int64_column (snd c)) (slice (cols (frames w data)) i (Suc j))"
    then have ints: "list_all (\<lambda>c. int64_column (snd c)) (slice (cols (frames w data)) i (Suc j))"
      by simp
    from h show "map_option bars (saved_chart (snd (visualize_by_country env data a w)) (country_path env a)) =
        Some (map (\<lambda>c. (Str (strip (fst c)), IntTotal (word_of_int (exact_sum (snd c)))))
                (slice (cols (frames w data)) i (Suc j)))"
      by (intro country span_int64 [OF ints]) simp_all
  next
    assume h: "index (map strip (columns (frames w data))) ''English'' = Some i' \<and>
      index (map strip (columns (frames w data))) ''Indonesian'' = Some j' \<and>
      list_all (\<lambda>l. count_list (map strip (columns (frames w data))) l = 1)
        (slice (map strip (columns (frames w data))) i' (Suc j')) \<and>
      list_all (\<lambda>c. int64_column (snd c)) (slice (cols (frames w data)) i' (Suc j'))"
    then have ints: "list_all (\<lambda>c. int64_column (snd c)) (slice (cols (frames w data)) i' (Suc j'))"
      by simp
    from h show "map_option bars (saved_chart (snd (visualize_by_language env data a w)) (language_path env a)) =
        Some (map (\<lambda>c. (Str (strip (fst c)), IntTotal (word_of_int (exact_sum (snd c)))))
                (slice (cols (frames w data)) i' (Suc j')))"
      by (intro language span_int64 [OF ints]) simp_all
  next
    assume "fits64 n"
    then show "int_value (IntTotal (word_of_int n)) = n"
      by (simp add: sint_fits)
  qed
qed

lemma world_with_simps:
  "files (world_with df) = Map.empty" "frames (world_with df) 0 = df"
  "next_ref (world_with df) = 1" "trace (world_with df) = []"
  by (simp_all add: world_with_def)

lemma fixture_headers:
  "map strip (columns fixture) =
     [''LICENSE TYPE'', ''United States'', ''Canada'', ''Japan'', ''English'', ''Spanish'', ''Indonesian'']"
  by (simp add: fixture_def columns_def strip_examples strip_fixture)

lemma fixture_slices:
  "slice [''LICENSE TYPE'', ''United States'', ''Canada'', ''Japan'', ''English'', ''Spanish'', ''Indonesian'']
     1 (Suc 3) = [''United States'', ''Canada'', ''Japan'']"
  "slice [''LICENSE TYPE'', ''United States'', ''Canada'', ''Japan'', ''English'', ''Spanish'', ''Indonesian'']
     4 (Suc 6) = [''English'', ''Spanish'', ''Indonesian'']"
  "slice (cols fixture) 1 (Suc 3) =
     [('' United States'', [Num 10, Num 30]), (''Canada '', [Num 7, Num 1]), (''Japan'', [Num 20, Num 5])]"
  "slice (cols fixture) 4 (Suc 6) =
     [(''English'', [Num 3, Num 4]), (''Spanish'', [Num 2, Num 2]), (''Indonesian '', [Num 1, Num 2])]"
  by (simp_all add: slice_def fixture_def numeral_eq_Suc)

lemma fixture_country_series:
  "frame_sum (map (\<lambda>c. (strip (fst c), snd c)) (slice (cols fixture) 1 (Suc 3))) =
     Inr [(Str ''United States'', IntTotal 40), (Str ''Canada'', IntTotal 8), (Str ''Japan'', IntTotal 25)]"
  "barplot [(Str ''United States'', IntTotal 40), (Str ''Canada'', IntTotal 8), (Str ''Japan'', IntTotal 25)] =
     Inr ()"
  unfolding fixture_slices
  by (simp_all add: frame_sum_def column_sum_def dtype_of_def barplot_def strip_examples strip_fixture)

lemma fixture_language_series:
  "frame_sum (map (\<lambda>c. (strip (fst c), snd c)) (slice (cols fixture) 4 (Suc 6))) =
     Inr [(Str ''English'', IntTotal 7), (Str ''Spanish'', IntTotal 4), (Str ''Indonesian'', IntTotal 3)]"
  "barplot [(Str ''English'', IntTotal 7), (Str ''Spanish'', IntTotal 4), (Str ''Indonesian'', IntTotal 3)] =
     Inr ()"
  unfolding fixture_slices
  by (simp_all add: frame_sum_def column_sum_def dtype_of_def barplot_def strip_examples strip_fixture)

theorem span_aggregates_witness:
  "index (map strip (columns (frames (world_with fixture) 0))) ''United States'' = Some 1 \<and>
   index (map strip (columns (frames (world_with fixture) 0))) ''Japan'' = Some 3 \<and>
   list_all (\<lambda>l. count_list (map strip (columns (frames (world_with fixture) 0))) l = 1)
     (slice (map strip (columns (frames (world_with fixture) 0))) 1 (Suc 3)) \<and>
   frame_sum (map (\<lambda>c. (strip (fst c), snd c)) (slice (cols (frames (world_with fixture) 0)) 1 (Suc 3))) =
     Inr [(Str ''United States'', IntTotal 40), (Str ''Canada'', IntTotal 8), (Str ''Japan'', IntTotal 25)] \<and>
   barplot [(Str ''United States'', IntTotal 40), (Str ''Canada'', IntTotal 8), (Str ''Japan'', IntTotal 25)] =
     Inr () \<and>
   list_all (\<lambda>c. int64_column (snd c)) (slice (cols (frames (world_with fixture) 0)) 1 (Suc 3)) \<and>
   map_option bars (saved_chart (snd (visualize_by_country (demo_env None) 0 demo_args (world_with fixture)))
       (country_path (demo_env None) demo_args)) =
     Some [(Str ''United States'', IntTotal 40), (Str ''Canada'', IntTotal 8), (Str ''Japan'', IntTotal 25)] \<and>
   index (map strip (columns (frames (world_with fixture) 0))) ''English'' = Some 4 \<and>
   index (map strip (columns (frames (world_with fixture) 0))) ''Indonesian'' = Some 6 \<and>
   list_all (\<lambda>l. count_list (map strip (columns (frames (world_with fixture) 0))) l = 1)
     (slice (map strip (columns (frames (world_with fixture) 0))) 4 (Suc 6)) \<and>
   frame_sum (map (\<lambda>c. (strip (fst c), snd c)) (slice (cols (frames (world_with fixture) 0)) 4 (Suc 6))) =
     Inr [(Str ''English'', IntTotal 7), (Str ''Spanish'', IntTotal 4), (Str ''Indonesian'', IntTotal 3)] \<and>
   barplot [(Str ''English'', IntTotal 7), (Str ''Spanish'', IntTotal 4), (Str ''Indonesian'', IntTotal 3)] =
     Inr () \<and>
   list_all (\<lambda>c. int64_column (snd c)) (slice (cols (frames (world_with fixture) 0)) 4 (Suc 6)) \<and>
   map_option bars (saved_chart (snd (visualize_by_language (demo_env None) 0 demo_args (world_with fixture)))
       (language_path (demo_env None) demo_args)) =
     Some [(Str ''English'', IntTotal 7), (Str ''Spanish'', IntTotal 4), (Str ''Indonesian'', IntTotal 3)] \<and>
   fits64 40 \<and> int_value (IntTotal (word_of_int 40)) = 40"
proof -
  have f: "frames (world_with fixture) 0 = fixture"
    by (simp add: world_with_def)
  have us: "index (map strip (columns fixture)) ''United States'' = Some 1"
    and jp: "index (map strip (columns fixture)) ''Japan'' = Some 3"
    and en: "index (map strip (columns fixture)) ''English'' = Some 4"
    and ind: "index (map strip (columns fixture)) ''Indonesian'' = Some 6"
    unfolding fixture_headers by simp_all
  have u1: "list_all (\<lambda>l. count_list (map strip (columns fixture)) l = 1)
      (slice (map strip (columns fixture)) 1 (Suc 3))"
    and u2: "list_all (\<lambda>l. count_list (map strip (columns fixture)) l = 1)
      (slice (map strip (columns fixture)) 4 (Suc 6))"
    unfolding fixture_headers fixture_slices by simp_all
  have i1: "list_all (\<lambda>c. int64_column (snd c)) (slice (cols fixture) 1 (Suc 3))"
    and i2: "list_all (\<lambda>c. int64_column (snd c)) (slice (cols fixture) 4 (Suc 6))"
    unfolding fixture_slices by (simp_all add: int64_column_def)
  have fits: "fits64 40"
    by (simp add: fits64_def)
  note t = span_aggregates [where w = "world_with fixture" and data = 0 and i = 1 and j = 3
      and i' = 4 and j' = 6 and env = "demo_env None" and a = demo_args and n = 40
      and series = "[(Str ''United States'', IntTotal 40), (Str ''Canada'', IntTotal 8), (Str ''Japan'', IntTotal 25)]"
      and series' = "[(Str ''English'', IntTotal 7), (Str ''Spanish'', IntTotal 4), (Str ''Indonesian'', IntTotal 3)]",
      unfolded f]
  from t us jp en ind u1 u2 i1 i2 fits fixture_country_series fixture_language_series
  show ?thesis
    unfolding f by simp
qed

theorem span_aggregates_counterexample:
  "index (map strip (columns (frames (world_with twice_canada) 0))) ''United States'' = Some 1 \<and>
   index (map strip (columns (frames (world_with twice_canada) 0))) ''Japan'' = Some 3 \<and>
   list_all (\<lambda>c. int64_column (snd c)) (cols (frames (world_with twice_canada) 0)) \<and>
   map (\<lambda>c. (Str (strip (fst c)), IntTotal (word_of_int (exact_sum (snd c)))))
       (slice (cols (frames (world_with twice_canada) 0)) 1 (Suc 3)) =
     [(Str ''United States'', IntTotal 10), (Str ''Canada'', IntTotal 7), (Str ''Japan'', IntTotal 20)] \<and>
   map_option bars (saved_chart (snd (visualize_by_country (demo_env None) 0 demo_args (world_with twice_canada)))
       (country_path (demo_env None) demo_args)) =
     Some [(Str ''United States'', IntTotal 10), (Str ''Canada'', IntTotal 1), (Str ''Canada'', IntTotal 7),
           (Str ''Japan'', IntTotal 20)] \<and>
   map_option bars (saved_chart (snd (visualize_by_country (demo_env None) 0 demo_args (world_with twice_canada)))
       (country_path (demo_env None) demo_args)) \<noteq>
     Some (map (\<lambda>c. (Str (strip (fst c)), IntTotal (word_of_int (exact_sum (snd c)))))
       (slice (cols (frames (world_with twice_canada) 0)) 1 (Suc 3)))"
proof -
  let ?w = "world_with twice_canada"
  let ?cd = "[(Str ''United States'', IntTotal 10), (Str ''Canada'', IntTotal 1), (Str ''Canada'', IntTotal 7),
              (Str ''Japan'', IntTotal 20)]"
  have f: "frames ?w 0 = twice_canada"
    by (simp add: world_with_def)
  have hs: "map strip (columns twice_canada) = [''Canada'', ''United States'', ''Canada'', ''Japan'']"
    by (simp add: twice_canada_def columns_def strip_examples strip_fixture)
  have us: "index (map strip (columns twice_canada)) ''United States'' = Some 1"
    and jp: "index (map strip (columns twice_canada)) ''Japan'' = Some 3"
    unfolding hs by simp_all
  have sl: "slice [''Canada'', ''United States'', ''Canada'', ''Japan''] (Suc 0) (Suc (Suc (Suc (Suc 0)))) =
      [''United States'', ''Canada'', ''Japan'']"
    by (simp add: slice_def)
  have st: "str_strip twice_canada =
      Inr \<lparr>cols = [(''Canada'', [Num 1]), (''United States'', [Num 10]), (''Canada'', [Num 7]),
                   (''Japan'', [Num 20])]\<rparr>"
    by (simp add: str_strip_def strip_columns_def twice_canada_def strip_examples strip_fixture)
  have g: "getitem \<lparr>cols = [(''Canada'', [Num 1]), (''United States'', [Num 10]), (''Canada'', [Num 7]),
                   (''Japan'', [Num 20])]\<rparr> [''United States'', ''Canada'', ''Japan''] =
      Inr \<lparr>cols = [(''United States'', [Num 10]), (''Canada'', [Num 1]), (''Canada'', [Num 7]),
                   (''Japan'', [Num 20])]\<rparr>"
    by (simp add: getitem_def columns_def)
  have fs: "frame_sum [(''United States'', [Num 10]), (''Canada'', [Num 1]), (''Canada'', [Num 7]),
                   (''Japan'', [Num 20])] = Inr ?cd"
    by (simp add: frame_sum_def column_sum_def dtype_of_def)
  have bp: "barplot ?cd = Inr ()"
    by (simp add: barplot_def)
  have ch: "country_chart demo_args twice_canada =
      Inr \<lparr>title = ''Number of Google Webpages Licensed by Country ('' @ quarter demo_args @ '')'',
           xlabel = ''Country'', ylabel = ''Number of Webpages'', bars = ?cd, xticklabels = None\<rparr>"
    unfolding country_chart_def span_series_def Let_def hs
    using us [unfolded hs] jp [unfolded hs] by (simp add: sl st g fs bp)
  have saved: "map_option bars (saved_chart (snd (visualize_by_country (demo_env None) 0 demo_args ?w))
       (country_path (demo_env None) demo_args)) = Some ?cd"
    using country_saved [of demo_args ?w 0, unfolded f, OF ch, of "demo_env None"] by simp
  have span: "map (\<lambda>c. (Str (strip (fst c)), IntTotal (word_of_int (exact_sum (snd c)))))
       (slice (cols twice_canada) 1 (Suc 3)) =
     [(Str ''United States'', IntTotal 10), (Str ''Canada'', IntTotal 7), (Str ''Japan'', IntTotal 20)]"
    by (simp add: slice_def twice_canada_def strip_examples strip_fixture exact_sum_def)
  have num: "list_all (\<lambda>c. int64_column (snd c)) (cols twice_canada)"
    by (simp add: twice_canada_def int64_column_def)
  show ?thesis
    unfolding f saved [unfolded f] span using us jp num by simp
qed

subsection \<open>The license-type report\<close>

lemma startswith_iff: "startswith s p \<longleftrightarrow> (\<exists>q. s = p @ q)"
  by (induction s p rule: startswith.induct) auto

lemma contains_iff: "contains s sub \<longleftrightarrow> (\<exists>p q. s = p @ sub @ q)"
proof (induction s)
  case Nil
  then show ?case by simp
next
  case (Cons c cs)
  have "(\<exists>p q. c # cs = p @ sub @ q) \<longleftrightarrow> (\<exists>q. c # cs = sub @ q) \<or> (\<exists>p q. cs = p @ sub @ q)"
  proof
    assume "\<exists>p q. c # cs = p @ sub @ q"
    then obtain p q where pq: "c # cs = p @ sub @ q" by blast
    show "(\<exists>q. c # cs = sub @ q) \<or> (\<exists>p q. cs = p @ sub @ q)"
    proof (cases p)
      case Nil
      with pq show ?thesis by auto
    next
      case (Cons x p')
      with pq have "cs = p' @ sub @ q" by simp
      then show ?thesis by blast
    qed
  next
    assume "(\<exists>q. c # cs = sub @ q) \<or> (\<exists>p q. cs = p @ sub @ q)"
    then show "\<exists>p q. c # cs = p @ sub @ q"
    proof
      assume "\<exists>q. c # cs = sub @ q"
      then obtain q where "c # cs = [] @ sub @ q" by auto
      then show ?thesis by blast
    next
      assume "\<exists>p q. cs = p @ sub @ q"
      then obtain p q where "c # cs = (c # p) @ sub @ q" by auto
      then show ?thesis by blast
    qed
  qed
  with Cons.IH show ?case by (simp add: startswith_iff)
qed

lemma xtick_labels_text:
  "xtick_labels (map Str ls) =
     Inr (map (\<lambda>l. if contains l ''by/2.5'' then ''CC BY 2.5'' else l) ls)"
  by (induction ls) simp_all

lemma set_index_unique:
  assumes "filter (\<lambda>c. strip (fst c) = key) (cols df) = [(h, idx)]"
  shows "set_index (strip_columns df) key =
     Inr (idx, map (\<lambda>c. (strip (fst c), snd c)) (filter (\<lambda>c. strip (fst c) \<noteq> key) (cols df)))"
proof -
  have "filter (\<lambda>c. fst c = key) (cols (strip_columns df)) =
      map (\<lambda>c. (strip (fst c), snd c)) (filter (\<lambda>c. strip (fst c) = key) (cols df))"
    by (simp add: strip_columns_def filter_map comp_def)
  moreover have "filter (\<lambda>c. fst c \<noteq> key) (cols (strip_columns df)) =
      map (\<lambda>c. (strip (fst c), snd c)) (filter (\<lambda>c. strip (fst c) \<noteq> key) (cols df))"
    by (simp add: strip_columns_def filter_map comp_def)
  ultimately show ?thesis
    using assms by (simp add: set_index_def)
qed

text \<open>The rows of a table whose columns all have the same number of cells.\<close>

lemma map_nth_cols: "map (\<lambda>j. f (cs ! j)) [0..<length cs] = map f cs"
  by (intro nth_equalityI) simp_all

lemma rows_rectangle:
  assumes "cs \<noteq> []" and "list_all (\<lambda>c. length (snd c) = n) cs"
  shows "transpose (map snd cs) = map (row_cells cs) [0..<n]"
proof -
  have "transpose (map snd cs) =
      map (\<lambda>i. map (\<lambda>j. map snd cs ! j ! i) [0..<length (map snd cs)]) [0..<n]"
    using assms by (intro transpose_rectangle) (simp_all add: list_all_length)
  also have "\<dots> = map (\<lambda>i. map (\<lambda>j. snd (cs ! j) ! i) [0..<length cs]) [0..<n]"
    by simp
  also have "\<dots> = map (row_cells cs) [0..<n]"
    unfolding row_cells_def by (simp only: map_nth_cols [of "\<lambda>c. snd c ! i" for i])
  finally show ?thesis .
qed

lemma row_cells_relabel: "row_cells (map (\<lambda>c. (f (fst c), snd c)) cs) i = row_cells cs i"
  by (simp add: row_cells_def comp_def)

lemma zip_labels:
  "zip (map Str ls) (map f [0..<length ls]) = map (\<lambda>i. (Str (ls ! i), f i)) [0..<length ls]"
  by (intro nth_equalityI) simp_all

lemma sum_axis1_int64:
  assumes "cs \<noteq> []"
    and "list_all (\<lambda>c. list_all is_int (snd c) \<and> length (snd c) = length ls) cs"
  shows "sum_axis1 (map Str ls, map (\<lambda>c. (strip (fst c), snd c)) cs) =
     Inr (map (\<lambda>i. (Str (ls ! i), IntTotal (word_of_int (exact_sum (row_cells cs i))))) [0..<length ls])"
proof -
  let ?cs = "map (\<lambda>c. (strip (fst c), snd c)) cs"
  have ne: "?cs \<noteq> []" using assms(1) by simp
  have ints: "list_all (\<lambda>c. list_all is_int (snd c)) ?cs"
    using assms(2) by (simp add: list_all_iff)
  have len: "list_all (\<lambda>c. length (snd c) = length ls) ?cs"
    using assms(2) by (simp add: list_all_iff)
  have rows: "transpose (map snd ?cs) = map (row_cells cs) [0..<length ls]"
    unfolding rows_rectangle [OF ne len] by (simp add: row_cells_relabel)
  have "sum_axis1 (map Str ls, ?cs) =
      Inr (zip (map Str ls)
        (map (\<lambda>i. IntTotal (word_of_int (exact_sum (row_cells cs i)))) [0..<length ls]))"
    using ne ints unfolding sum_axis1_def Let_def fst_conv snd_conv rows
    by (simp add: sum_words comp_def)
  then show ?thesis
    by (simp only: zip_labels)
qed

lemma sum_axis1_numeric:
  assumes "list_all (\<lambda>c. list_all is_num (snd c) \<and> length (snd c) = length ls) cs"
  shows "\<exists>totals. length totals = length ls \<and> list_all (\<lambda>t. \<not> is_text_total t) totals \<and>
     sum_axis1 (map Str ls, map (\<lambda>c. (strip (fst c), snd c)) cs) = Inr (zip (map Str ls) totals)"
proof (cases "cs = []")
  case True
  have "map (\<lambda>l. (l, FloatTotal [])) (map Str ls) = zip (map Str ls) (replicate (length ls) (FloatTotal []))"
    by (intro nth_equalityI) simp_all
  with True have "sum_axis1 (map Str ls, map (\<lambda>c. (strip (fst c), snd c)) cs) =
      Inr (zip (map Str ls) (replicate (length ls) (FloatTotal [])))"
    by (simp add: sum_axis1_def)
  moreover have "list_all (\<lambda>t. \<not> is_text_total t) (replicate (length ls) (FloatTotal []))"
    by (simp add: list_all_iff)
  ultimately show ?thesis
    by (intro exI [of _ "replicate (length ls) (FloatTotal [])"]) simp
next
  case False
  let ?cs = "map (\<lambda>c. (strip (fst c), snd c)) cs"
  have ne: "?cs \<noteq> []" using False by simp
  have nums: "list_all (\<lambda>c. list_all is_num (snd c)) ?cs"
    using assms by (simp add: list_all_iff)
  have len: "list_all (\<lambda>c. length (snd c) = length ls) ?cs"
    using assms by (simp add: list_all_iff)
  have rows: "transpose (map snd ?cs) = map (row_cells cs) [0..<length ls]"
    unfolding rows_rectangle [OF ne len] by (simp add: row_cells_relabel)
  show ?thesis
  proof (cases "list_all (\<lambda>c. list_all is_int (snd c)) ?cs")
    case True
    let ?t = "map (\<lambda>i. IntTotal (sum_list (map int_of (row_cells cs i)))) [0..<length ls]"
    have "sum_axis1 (map Str ls, ?cs) = Inr (zip (map Str ls) ?t)"
      using ne True unfolding sum_axis1_def Let_def fst_conv snd_conv rows
      by (simp add: comp_def)
    moreover have "list_all (\<lambda>t. \<not> is_text_total t) ?t" "length ?t = length ls"
      by (simp_all add: list_all_iff)
    ultimately show ?thesis by blast
  next
    case False
    let ?t = "map (\<lambda>i. FloatTotal (row_cells cs i)) [0..<length ls]"
    have "sum_axis1 (map Str ls, ?cs) = Inr (zip (map Str ls) ?t)"
      using ne False nums unfolding sum_axis1_def Let_def fst_conv snd_conv rows
      by (simp add: comp_def)
    moreover have "list_all (\<lambda>t. \<not> is_text_total t) ?t" "length ?t = length ls"
      by (simp_all add: list_all_iff)
    ultimately show ?thesis by blast
  qed
qed

lemma barplot_numbers:
  "list_all (\<lambda>t. \<not> is_text_total t) totals \<Longrightarrow> barplot (zip labels totals) = Inr ()"
  by (auto simp add: barplot_def list_ex_iff list_all_iff dest: set_zip_rightD)

lemma key_column_cols:
  "filter (\<lambda>c. strip (fst c) = key) (cols df) = [(h, idx)] \<Longrightarrow> str_strip df = Inr (strip_columns df)"
  by (cases "cols df") (simp_all add: str_strip_def)

text \<open>The chart of a table of numbers with one column of license types.\<close>

lemma license_chart_numeric:
  assumes "filter (\<lambda>c. strip (fst c) = ''LICENSE TYPE'') (cols df) = [(h, map Str ls)]"
    and "list_all (\<lambda>c. list_all is_num (snd c) \<and> length (snd c) = length ls) (other_columns df)"
  shows "\<exists>totals. length totals = length ls \<and>
     license_chart a df =
       Inr \<lparr>title = ''Number of Webpages Licensed by License Type ('' @ quarter a @ '')'',
            xlabel = ''License Type'', ylabel = ''Number of Webpages'',
            bars = zip (map Str ls) totals, xticklabels = Some (map short_label ls)\<rparr>"
proof -
  have idx: "set_index (strip_columns df) ''LICENSE TYPE'' =
      Inr (map Str ls, map (\<lambda>c. (strip (fst c), snd c)) (other_columns df))"
    unfolding other_columns_def by (rule set_index_unique [OF assms(1)])
  from sum_axis1_numeric [OF assms(2)] obtain totals where
    t: "length totals = length ls" "list_all (\<lambda>t. \<not> is_text_total t) totals"
      "sum_axis1 (map Str ls, map (\<lambda>c. (strip (fst c), snd c)) (other_columns df)) =
         Inr (zip (map Str ls) totals)"
    by blast
  have lab: "xtick_labels (map fst (zip (map Str ls) totals)) = Inr (map short_label ls)"
    using t(1) xtick_labels_text [of ls] by (simp add: short_label_def [abs_def])
  have "license_chart a df =
       Inr \<lparr>title = ''Number of Webpages Licensed by License Type ('' @ quarter a @ '')'',
            xlabel = ''License Type'', ylabel = ''Number of Webpages'',
            bars = zip (map Str ls) totals, xticklabels = Some (map short_label ls)\<rparr>"
    unfolding license_chart_def
    by (simp add: key_column_cols [OF assms(1)] idx t(3) barplot_numbers [OF t(2)] lab)
  with t(1) show ?thesis by blast
qed

lemma license_chart_int64:
  assumes "filter (\<lambda>c. strip (fst c) = ''LICENSE TYPE'') (cols df) = [(h, map Str ls)]"
    and "other_columns df \<noteq> []"
    and "list_all (\<lambda>c. list_all is_int (snd c) \<and> length (snd c) = length ls) (other_columns df)"
  shows "license_chart a df =
       Inr \<lparr>title = ''Number of Webpages Licensed by License Type ('' @ quarter a @ '')'',
            xlabel = ''License Type'', ylabel = ''Number of Webpages'',
            bars = map (\<lambda>i. (Str (ls ! i), IntTotal (word_of_int (exact_sum (row_cells (other_columns df) i)))))
                     [0..<length ls],
            xticklabels = Some (map short_label ls)\<rparr>"
proof -
  let ?series = "map (\<lambda>i. (Str (ls ! i), IntTotal (word_of_int (exact_sum (row_cells (other_columns df) i)))))
                     [0..<length ls]"
  have idx: "set_index (strip_columns df) ''LICENSE TYPE'' =
      Inr (map Str ls, map (\<lambda>c. (strip (fst c), snd c)) (other_columns df))"
    unfolding other_columns_def by (rule set_index_unique [OF assms(1)])
  note tot = sum_axis1_int64 [OF assms(2,3)]
  have fsts: "map fst ?series = map Str ls"
    by (intro nth_equalityI) simp_all
  have lab: "xtick_labels (map fst ?series) = Inr (map short_label ls)"
    unfolding fsts using xtick_labels_text [of ls] by (simp add: short_label_def [abs_def])
  have bp: "barplot ?series = Inr ()"
    by (simp add: barplot_def list_ex_iff)
  show ?thesis
    unfolding license_chart_def
    by (simp only: key_column_cols [OF assms(1)] idx tot bp lab sum.case)
qed

text \<open>Adding up the rows gives the same as adding up the columns.\<close>

lemma sum_rows:
  "list_all (\<lambda>c. length (snd c) = n) cs \<Longrightarrow>
   sum_list (map (\<lambda>i. exact_sum (row_cells cs i)) [0..<n]) = exact_sum (concat (map snd cs))"
proof (induction cs)
  case Nil
  then show ?case by (simp add: exact_sum_def row_cells_def)
next
  case (Cons c cs)
  then have len: "length (snd c) = n" and rest: "list_all (\<lambda>c. length (snd c) = n) cs"
    by simp_all
  have col: "map (\<lambda>i. sint (int_of (snd c ! i))) [0..<n] = map (\<lambda>v. sint (int_of v)) (snd c)"
    using len by (intro nth_equalityI) simp_all
  have "sum_list (map (\<lambda>i. exact_sum (row_cells (c # cs) i)) [0..<n]) =
      sum_list (map (\<lambda>i. sint (int_of (snd c ! i)) + exact_sum (row_cells cs i)) [0..<n])"
    by (simp add: exact_sum_def row_cells_def)
  also have "\<dots> = sum_list (map (\<lambda>i. sint (int_of (snd c ! i))) [0..<n]) +
      sum_list (map (\<lambda>i. exact_sum (row_cells cs i)) [0..<n])"
    by (rule sum_list_addf)
  also have "\<dots> = exact_sum (snd c) + exact_sum (concat (map snd cs))"
    unfolding col Cons.IH [OF rest] by (simp add: exact_sum_def)
  finally show ?case by (simp add: exact_sum_def)
qed

lemma word_of_sum_list: "(word_of_int (sum_list xs) :: 64 word) = sum_list (map word_of_int xs)"
  by (induction xs) simp_all

lemma totals_mod:
  "(word_of_int (sum_list (map (\<lambda>i. int_value (IntTotal (word_of_int (f i)))) is)) :: 64 word) =
     word_of_int (sum_list (map f is))"
  by (simp add: word_of_sum_list comp_def)

lemma totals_exact:
  "list_all (\<lambda>i. fits64 (f i)) is \<Longrightarrow>
   sum_list (map (\<lambda>i. int_value (IntTotal (word_of_int (f i)))) is) = sum_list (map f is)"
  by (induction "is") (simp_all add: sint_fits)

text \<open>
  C2 (amended). Let exactly one column be headed \<open>LICENSE TYPE\<close> after stripping, with
  text in every cell. When the other columns hold numbers, one per row, the license-type
  report carries one total per row, keyed by that row's license type, in row order. When the
  other columns (at least one) hold 64-bit integers, each total is the sum of the row's other
  cells reduced to 64 bits; the totals add up, modulo \<open>2\<^sup>6\<^sup>4\<close>, to the sum of all cells
  outside the \<open>LICENSE TYPE\<close> column, and exactly to that sum when the sum of every row fits
  in 64 bits.
\<close>

theorem license_totals:
  "(filter (\<lambda>c. strip (fst c) = ''LICENSE TYPE'') (cols (frames w data)) = [(h, map Str ls)] \<and>
    list_all (\<lambda>c. list_all is_num (snd c) \<and> length (snd c) = length ls)
      (other_columns (frames w data)) \<longrightarrow>
    map_option (\<lambda>c. map fst (bars c))
        (saved_chart (snd (visualize_by_license_type env data a w)) (licensetype_path env a)) =
      Some (map Str ls)) \<and>
   (filter (\<lambda>c. strip (fst c) = ''LICENSE TYPE'') (cols (frames w data)) = [(h, map Str ls)] \<and>
    other_columns (frames w data) \<noteq> [] \<and>
    list_all (\<lambda>c. list_all is_int (snd c) \<and> length (snd c) = length ls)
      (other_columns (frames w data)) \<longrightarrow>
    map_option bars (saved_chart (snd (visualize_by_license_type env data a w)) (licensetype_path env a)) =
      Some (map (\<lambda>i. (Str (ls ! i),
              IntTotal (word_of_int (exact_sum (row_cells (other_columns (frames w data)) i)))))
            [0..<length ls]) \<and>
    map_option (\<lambda>c. (word_of_int (sum_list (map (\<lambda>b. int_value (snd b)) (bars c))) :: 64 word))
        (saved_chart (snd (visualize_by_license_type env data a w)) (licensetype_path env a)) =
      Some (word_of_int (exact_sum (concat (map snd (other_columns (frames w data)))))) \<and>
    (list_all (\<lambda>i. fits64 (exact_sum (row_cells (other_columns (frames w data)) i))) [0..<length ls] \<longrightarrow>
       map_option (\<lambda>c. sum_list (map (\<lambda>b. int_value (snd b)) (bars c)))
           (saved_chart (snd (visualize_by_license_type env data a w)) (licensetype_path env a)) =
         Some (exact_sum (concat (map snd (other_columns (frames w data)))))))"
proof (rule conjI; rule impI)
  assume "filter (\<lambda>c. strip (fst c) = ''LICENSE TYPE'') (cols (frames w data)) = [(h, map Str ls)] \<and>
    list_all (\<lambda>c. list_all is_num (snd c) \<and> length (snd c) = length ls)
      (other_columns (frames w data))"
  then have key: "filter (\<lambda>c. strip (fst c) = ''LICENSE TYPE'') (cols (frames w data)) = [(h, map Str ls)]"
    and num: "list_all (\<lambda>c. list_all is_num (snd c) \<and> length (snd c) = length ls)
      (other_columns (frames w data))"
    by simp_all
  from license_chart_numeric [OF key num, of a] obtain totals where
    t: "length totals = length ls"
      "license_chart a (frames w data) =
       Inr \<lparr>title = ''Number of Webpages Licensed by License Type ('' @ quarter a @ '')'',
            xlabel = ''License Type'', ylabel = ''Number of Webpages'',
            bars = zip (map Str ls) totals, xticklabels = Some (map short_label ls)\<rparr>"
    by blast
  show "map_option (\<lambda>c. map fst (bars c))
        (saved_chart (snd (visualize_by_license_type env data a w)) (licensetype_path env a)) =
      Some (map Str ls)"
    unfolding license_saved [OF t(2)] using t(1) by simp
next
  let ?others = "other_columns (frames w data)"
  assume "filter (\<lambda>c. strip (fst c) = ''LICENSE TYPE'') (cols (frames w data)) = [(h, map Str ls)] \<and>
    other_columns (frames w data) \<noteq> [] \<and>
    list_all (\<lambda>c. list_all is_int (snd c) \<and> length (snd c) = length ls)
      (other_columns (frames w data))"
  then have key: "filter (\<lambda>c. strip (fst c) = ''LICENSE TYPE'') (cols (frames w data)) = [(h, map Str ls)]"
    and ne: "?others \<noteq> []"
    and ints: "list_all (\<lambda>c. list_all is_int (snd c) \<and> length (snd c) = length ls) ?others"
    by simp_all
  from ints have len: "list_all (\<lambda>c. length (snd c) = length ls) ?others"
    by (simp add: list_all_iff)
  note saved = license_saved [OF license_chart_int64 [OF key ne ints]]
  have a: "map_option bars (saved_chart (snd (visualize_by_license_type env data a w)) (licensetype_path env a)) =
      Some (map (\<lambda>i. (Str (ls ! i), IntTotal (word_of_int (exact_sum (row_cells ?others i)))))
            [0..<length ls])"
    unfolding saved by simp
  have b: "map_option (\<lambda>c. (word_of_int (sum_list (map (\<lambda>b. int_value (snd b)) (bars c))) :: 64 word))
        (saved_chart (snd (visualize_by_license_type env data a w)) (licensetype_path env a)) =
      Some (word_of_int (exact_sum (concat (map snd ?others))))"
    unfolding saved
    using totals_mod [of "\<lambda>i. exact_sum (row_cells ?others i)" "[0..<length ls]"] sum_rows [OF len]
    by (simp add: comp_def)
  have c: "list_all (\<lambda>i. fits64 (exact_sum (row_cells ?others i))) [0..<length ls] \<longrightarrow>
       map_option (\<lambda>c. sum_list (map (\<lambda>b. int_value (snd b)) (bars c)))
           (saved_chart (snd (visualize_by_license_type env data a w)) (licensetype_path env a)) =
         Some (exact_sum (concat (map snd ?others)))"
  proof
    assume "list_all (\<lambda>i. fits64 (exact_sum (row_cells ?others i))) [0..<length ls]"
    from totals_exact [OF this] sum_rows [OF len]
    show "map_option (\<lambda>c. sum_list (map (\<lambda>b. int_value (snd b)) (bars c)))
           (saved_chart (snd (visualize_by_license_type env data a w)) (licensetype_path env a)) =
         Some (exact_sum (concat (map snd ?others)))"
      unfolding saved by (simp add: comp_def)
  qed
  from a b c show "map_option bars (saved_chart (snd (visualize_by_license_type env data a w)) (licensetype_path env a)) =
      Some (map (\<lambda>i. (Str (ls ! i),
              IntTotal (word_of_int (exact_sum (row_cells (other_columns (frames w data)) i)))))
            [0..<length ls]) \<and>
    map_option (\<lambda>c. (word_of_int (sum_list (map (\<lambda>b. int_value (snd b)) (bars c))) :: 64 word))
        (saved_chart (snd (visualize_by_license_type env data a w)) (licensetype_path env a)) =
      Some (word_of_int (exact_sum (concat (map snd (other_columns (frames w data)))))) \<and>
    (list_all (\<lambda>i. fits64 (exact_sum (row_cells (other_columns (frames w data)) i))) [0..<length ls] \<longrightarrow>
       map_option (\<lambda>c. sum_list (map (\<lambda>b. int_value (snd b)) (bars c)))
           (saved_chart (snd (visualize_by_license_type env data a w)) (licensetype_path env a)) =
         Some (exact_sum (concat (map snd (other_columns (frames w data))))))"
    by blast
qed


text \<open>
  C5. A license-type label that contains \<open>by/2.5\<close> is rendered as \<open>CC BY 2.5\<close>, any other
  label unchanged; the tick labels of the license-type report are the labels of the
  rows, rewritten so, in row order.
\<close>

theorem license_tick_labels:
  "xtick_label (Str l) = Inr (if (\<exists>p q. l = p @ ''by/2.5'' @ q) then ''CC BY 2.5'' else l) \<and>
   (filter (\<lambda>c. strip (fst c) = ''LICENSE TYPE'') (cols (frames w data)) = [(h, map Str ls)] \<and>
    list_all (\<lambda>c. list_all is_num (snd c) \<and> length (snd c) = length ls)
      (other_columns (frames w data)) \<longrightarrow>
    map_option xticklabels
        (saved_chart (snd (visualize_by_license_type env data a w)) (licensetype_path env a)) =
      Some (Some (map (\<lambda>l. if (\<exists>p q. l = p @ ''by/2.5'' @ q) then ''CC BY 2.5'' else l) ls)))"
proof (intro conjI impI)
  show "xtick_label (Str l) = Inr (if (\<exists>p q. l = p @ ''by/2.5'' @ q) then ''CC BY 2.5'' else l)"
    by (simp add: contains_iff)
next
  assume "filter (\<lambda>c. strip (fst c) = ''LICENSE TYPE'') (cols (frames w data)) = [(h, map Str ls)] \<and>
    list_all (\<lambda>c. list_all is_num (snd c) \<and> length (snd c) = length ls)
      (other_columns (frames w data))"
  then have key: "filter (\<lambda>c. strip (fst c) = ''LICENSE TYPE'') (cols (frames w data)) = [(h, map Str ls)]"
    and num: "list_all (\<lambda>c. list_all is_num (snd c) \<and> length (snd c) = length ls)
      (other_columns (frames w data))"
    by simp_all
  from license_chart_numeric [OF key num, of a] obtain totals where
    "license_chart a (frames w data) =
       Inr \<lparr>title = ''Number of Webpages Licensed by License Type ('' @ quarter a @ '')'',
            xlabel = ''License Type'', ylabel = ''Number of Webpages'',
            bars = zip (map Str ls) totals, xticklabels = Some (map short_label ls)\<rparr>"
    by blast
  from license_saved [OF this]
  show "map_option xticklabels
        (saved_chart (snd (visualize_by_license_type env data a w)) (licensetype_path env a)) =
      Some (Some (map (\<lambda>l. if (\<exists>p q. l = p @ ''by/2.5'' @ q) then ''CC BY 2.5'' else l) ls))"
    by (simp add: short_label_def [abs_def] contains_iff)
qed

lemma fixture_license_column:
  "filter (\<lambda>c. strip (fst c) = ''LICENSE TYPE'') (cols (frames (world_with fixture) 0)) =
     [(''LICENSE TYPE '', map Str [''licenses/by/2.5/'', ''publicdomain/zero/1.0/''])]"
  by (simp add: world_with_def fixture_def strip_examples strip_fixture)

lemma fixture_other_columns:
  "other_columns (frames (world_with fixture) 0) =
     [('' United States'', [Num 10, Num 30]), (''Canada '', [Num 7, Num 1]),
      (''Japan'', [Num 20, Num 5]), (''English'', [Num 3, Num 4]),
      (''Spanish'', [Num 2, Num 2]), (''Indonesian '', [Num 1, Num 2])]"
  by (simp add: other_columns_def world_with_def fixture_def strip_examples strip_fixture)

theorem license_totals_witness:
  "filter (\<lambda>c. strip (fst c) = ''LICENSE TYPE'') (cols (frames (world_with fixture) 0)) =
     [(''LICENSE TYPE '', map Str [''licenses/by/2.5/'', ''publicdomain/zero/1.0/''])] \<and>
   other_columns (frames (world_with fixture) 0) \<noteq> [] \<and>
   list_all (\<lambda>c. list_all is_num (snd c) \<and>
       length (snd c) = length [''licenses/by/2.5/'', ''publicdomain/zero/1.0/''])
     (other_columns (frames (world_with fixture) 0)) \<and>
   list_all (\<lambda>c. list_all is_int (snd c) \<and>
       length (snd c) = length [''licenses/by/2.5/'', ''publicdomain/zero/1.0/''])
     (other_columns (frames (world_with fixture) 0)) \<and>
   list_all (\<lambda>i. fits64 (exact_sum (row_cells (other_columns (frames (world_with fixture) 0)) i)))
     [0..<length [''licenses/by/2.5/'', ''publicdomain/zero/1.0/'']] \<and>
   map_option (\<lambda>c. map fst (bars c))
       (saved_chart (snd (visualize_by_license_type (demo_env None) 0 demo_args
       (world_with fixture))) (licensetype_path (demo_env None) demo_args)) =
     Some [Str ''licenses/by/2.5/'', Str ''publicdomain/zero/1.0/''] \<and>
   map_option bars (saved_chart (snd (visualize_by_license_type (demo_env None) 0 demo_args
       (world_with fixture))) (licensetype_path (demo_env None) demo_args)) =
     Some [(Str ''licenses/by/2.5/'', IntTotal 43), (Str ''publicdomain/zero/1.0/'', IntTotal 44)] \<and>
   map_option (\<lambda>c. sum_list (map (\<lambda>b. int_value (snd b)) (bars c)))
       (saved_chart (snd (visualize_by_license_type (demo_env None) 0 demo_args
       (world_with fixture))) (licensetype_path (demo_env None) demo_args)) = Some 87 \<and>
   exact_sum (concat (map snd (other_columns (frames (world_with fixture) 0)))) = 87"
proof -
  have up: "[0..<length [''licenses/by/2.5/'', ''publicdomain/zero/1.0/'']] = [0, 1]"
    by (simp add: upt_rec)
  have oth: "list_all (\<lambda>c. list_all is_int (snd c) \<and>
       length (snd c) = length [''licenses/by/2.5/'', ''publicdomain/zero/1.0/''])
     (other_columns (frames (world_with fixture) 0))"
    and num: "list_all (\<lambda>c. list_all is_num (snd c) \<and>
       length (snd c) = length [''licenses/by/2.5/'', ''publicdomain/zero/1.0/''])
     (other_columns (frames (world_with fixture) 0))"
    and ne: "other_columns (frames (world_with fixture) 0) \<noteq> []"
    unfolding fixture_other_columns by simp_all
  have rows: "exact_sum (row_cells (other_columns (frames (world_with fixture) 0)) 0) = 43"
    "exact_sum (row_cells (other_columns (frames (world_with fixture) 0)) (Suc 0)) = 44"
    unfolding fixture_other_columns by (simp_all add: row_cells_def exact_sum_def)
  have all: "exact_sum (concat (map snd (other_columns (frames (world_with fixture) 0)))) = 87"
    unfolding fixture_other_columns by (simp add: exact_sum_def)
  have fits: "list_all (\<lambda>i. fits64 (exact_sum (row_cells (other_columns (frames (world_with fixture) 0)) i)))
     [0..<length [''licenses/by/2.5/'', ''publicdomain/zero/1.0/'']]"
    unfolding up by (simp add: rows fits64_def)
  show ?thesis
    using license_totals [of "world_with fixture" 0 "''LICENSE TYPE ''"
        "[''licenses/by/2.5/'', ''publicdomain/zero/1.0/'']" "demo_env None" demo_args]
      fixture_license_column oth num ne fits all
    unfolding up by (simp add: rows)
qed

theorem license_totals_counterexample:
  "filter (\<lambda>c. strip (fst c) = ''LICENSE TYPE'') (cols (frames (world_with with_note) 0)) =
     [(''LICENSE TYPE'', [Str ''licenses/by/4.0/''])] \<and>
   fst (visualize_by_license_type (demo_env None) 0 demo_args (world_with with_note)) = Inl TypeError \<and>
   saved_chart (snd (visualize_by_license_type (demo_env None) 0 demo_args (world_with with_note)))
     (licensetype_path (demo_env None) demo_args) = None \<and>
   filter (\<lambda>c. strip (fst c) = ''LICENSE TYPE'') (cols (frames (world_with numbered_licenses) 0)) =
     [(''LICENSE TYPE'', [Num 1, Num 2])] \<and>
   fst (visualize_by_license_type (demo_env None) 0 demo_args (world_with numbered_licenses)) =
     Inl TypeError \<and>
   saved_chart (snd (visualize_by_license_type (demo_env None) 0 demo_args (world_with numbered_licenses)))
     (licensetype_path (demo_env None) demo_args) = None"
proof -
  have s: "strip ''NOTE'' = ''NOTE''"
    by (simp add: strip_def isspace_def)
  have note_chart: "license_chart demo_args with_note = Inl TypeError"
    by (simp add: license_chart_def str_strip_def strip_columns_def with_note_def set_index_def
        sum_axis1_def object_sum_def strip_examples strip_fixture s)
  have numbered_chart: "license_chart demo_args numbered_licenses = Inl TypeError"
    by (simp add: license_chart_def str_strip_def strip_columns_def numbered_licenses_def set_index_def
        sum_axis1_def barplot_def strip_examples strip_fixture)
  have k1: "filter (\<lambda>c. strip (fst c) = ''LICENSE TYPE'') (cols with_note) =
     [(''LICENSE TYPE'', [Str ''licenses/by/4.0/''])]"
    by (simp add: with_note_def strip_examples strip_fixture s)
  have k2: "filter (\<lambda>c. strip (fst c) = ''LICENSE TYPE'') (cols numbered_licenses) =
     [(''LICENSE TYPE'', [Num 1, Num 2])]"
    by (simp add: numbered_licenses_def strip_examples strip_fixture)
  show ?thesis
    unfolding world_with_simps(2)
    by (simp add: k1 k2 license_result license_files written_def saved_chart_def world_with_simps
        note_chart numbered_chart)
qed

theorem license_tick_labels_witness:
  "xtick_label (Str ''licenses/by/2.5/'') = Inr ''CC BY 2.5'' \<and>
   xtick_label (Str ''licenses/by/4.0/'') = Inr ''licenses/by/4.0/'' \<and>
   filter (\<lambda>c. strip (fst c) = ''LICENSE TYPE'') (cols (frames (world_with fixture) 0)) =
     [(''LICENSE TYPE '', map Str [''licenses/by/2.5/'', ''publicdomain/zero/1.0/''])] \<and>
   list_all (\<lambda>c. list_all is_num (snd c) \<and>
       length (snd c) = length [''licenses/by/2.5/'', ''publicdomain/zero/1.0/''])
     (other_columns (frames (world_with fixture) 0)) \<and>
   map_option xticklabels (saved_chart (snd (visualize_by_license_type (demo_env None) 0 demo_args
       (world_with fixture))) (licensetype_path (demo_env None) demo_args)) =
     Some (Some [''CC BY 2.5'', ''publicdomain/zero/1.0/''])"
proof -
  have oth: "list_all (\<lambda>c. list_all is_num (snd c) \<and>
       length (snd c) = length [''licenses/by/2.5/'', ''publicdomain/zero/1.0/''])
     (other_columns (frames (world_with fixture) 0))"
    unfolding fixture_other_columns by simp
  show ?thesis
    using license_tick_labels [of "''licenses/by/2.5/''" "world_with fixture" 0 "''LICENSE TYPE ''"
        "[''licenses/by/2.5/'', ''publicdomain/zero/1.0/'']" "demo_env None" demo_args,
        unfolded contains_iff [symmetric]]
      license_tick_labels [of "''licenses/by/4.0/''" "world_with fixture" 0 "''LICENSE TYPE ''"
        "[''licenses/by/2.5/'', ''publicdomain/zero/1.0/'']" "demo_env None" demo_args,
        unfolded contains_iff [symmetric]]
      fixture_license_column oth
    by simp
qed

subsection \<open>Parsing the options and loading the data\<close>

lemma fetch_and_merge_ok:
  "raises env (FetchAndMerge repo) = None \<Longrightarrow>
   fetch_and_merge env repo w =
     (Inr (), (emit (FetchAndMerge repo) w)\<lparr>files := merged_tree env (files w)\<rparr>)"
  by (simp add: fetch_and_merge_def call_def and_then_simps emit_simps)

lemma parse_arguments_ok:
  "cli env = Inr opts \<Longrightarrow>
   parse_arguments env w =
     (Inr (args_of env opts), log_info [Lit ''Parsing command-line arguments''] w)"
  by (simp add: parse_arguments_def args_of_def Let_def)

lemma load_data_missing:
  "files w (input_path env a) = None \<Longrightarrow>
   load_data env a w =
     (Inr (next_ref w),
      (log_error [Lit (''Data file not found: '' @ input_path env a)] w)
        \<lparr>frames := (frames w)(next_ref w := DataFrame), next_ref := Suc (next_ref w)\<rparr>)"
  by (simp add: load_data_def input_path_def Let_def alloc_def log_error_simps)

lemma load_data_present:
  "files w (input_path env a) = Some (CsvFile cs) \<Longrightarrow> cs \<noteq> [] \<Longrightarrow>
   load_data env a w =
     (Inr (next_ref w),
      log_info [Lit (''Data loaded from '' @ input_path env a)]
        (w\<lparr>frames := (frames w)(next_ref w := \<lparr>cols = cs\<rparr>), next_ref := Suc (next_ref w)\<rparr>))"
  by (simp add: load_data_def input_path_def Let_def alloc_def)

lemma main_early_return:
  assumes "raises env (FetchAndMerge (paths_repo env)) = None"
    and "cli env = Inr opts"
    and "load_data env (args_of env opts)
           (log_info [Lit ''Parsing command-line arguments'']
             ((emit (FetchAndMerge (paths_repo env)) w)\<lparr>files := merged_tree env (files w)\<rparr>)) =
         (Inr r, w3)"
    and "empty_frame (frames w3 r)"
  shows "main env w = (Inr (), w3)"
  using assms(3,4)
  by (simp add: main_def fetch_and_merge_ok [OF assms(1)] parse_arguments_ok [OF assms(2)]
      and_then_simps)

text \<open>
  C3. When the quarter's input file does not exist, the loader logs an error and returns
  an empty record set instead of raising; the run then ends early, normally, and leaves
  the files as the pull left them: none of the three charts is produced.
\<close>

theorem missing_input_ends_run:
  "(files w (input_path env a) = None \<longrightarrow>
      fst (load_data env a w) = Inr (next_ref w) \<and>
      empty_frame (frames (snd (load_data env a w)) (next_ref w)) \<and>
      files (snd (load_data env a w)) = files w \<and>
      trace (snd (load_data env a w)) =
        trace w @ [Log ERROR [Lit (''Data file not found: '' @ input_path env a)]]) \<and>
   (raises env (FetchAndMerge (paths_repo env)) = None \<and> cli env = Inr opts \<and>
    merged_tree env (files w) (input_path env (args_of env opts)) = None \<longrightarrow>
      fst (main env w) = Inr () \<and>
      files (snd (main env w)) = merged_tree env (files w) \<and>
      trace (snd (main env w)) =
        trace w @ [FetchAndMerge (paths_repo env),
                   Log INFO [Lit ''Parsing command-line arguments''],
                   Log ERROR [Lit (''Data file not found: '' @ input_path env (args_of env opts))]])"
proof (rule conjI; rule impI)
  assume "files w (input_path env a) = None"
  then show "fst (load_data env a w) = Inr (next_ref w) \<and>
      empty_frame (frames (snd (load_data env a w)) (next_ref w)) \<and>
      files (snd (load_data env a w)) = files w \<and>
      trace (snd (load_data env a w)) =
        trace w @ [Log ERROR [Lit (''Data file not found: '' @ input_path env a)]]"
    by (simp add: load_data_missing log_error_simps empty_frame_def DataFrame_def)
next
  let ?w2 = "log_info [Lit ''Parsing command-line arguments'']
             ((emit (FetchAndMerge (paths_repo env)) w)\<lparr>files := merged_tree env (files w)\<rparr>)"
  let ?a = "args_of env opts"
  assume h: "raises env (FetchAndMerge (paths_repo env)) = None \<and> cli env = Inr opts \<and>
    merged_tree env (files w) (input_path env (args_of env opts)) = None"
  then have "files ?w2 (input_path env ?a) = None"
    by (simp add: log_info_simps)
  from load_data_missing [OF this]
  have ld: "load_data env ?a ?w2 =
     (Inr (next_ref ?w2),
      (log_error [Lit (''Data file not found: '' @ input_path env ?a)] ?w2)
        \<lparr>frames := (frames ?w2)(next_ref ?w2 := DataFrame), next_ref := Suc (next_ref ?w2)\<rparr>)" .
  have m: "main env w = (Inr (),
      (log_error [Lit (''Data file not found: '' @ input_path env ?a)] ?w2)
        \<lparr>frames := (frames ?w2)(next_ref ?w2 := DataFrame), next_ref := Suc (next_ref ?w2)\<rparr>)"
    using h by (intro main_early_return [OF _ _ ld]) (simp_all add: empty_frame_def DataFrame_def)
  show "fst (main env w) = Inr () \<and>
      files (snd (main env w)) = merged_tree env (files w) \<and>
      trace (snd (main env w)) =
        trace w @ [FetchAndMerge (paths_repo env),
                   Log INFO [Lit ''Parsing command-line arguments''],
                   Log ERROR [Lit (''Data file not found: '' @ input_path env (args_of env opts))]]"
    unfolding m by (simp add: world_simps)
qed

text \<open>
  C10. An input file that exists and has a header line but no data rows loads as an
  empty record set; the loader logs the load at info severity (no error), and the run
  ends early exactly as for a missing file: normally, with no chart produced.
\<close>

theorem header_only_input_ends_run:
  "(files w (input_path env a) = Some (CsvFile cs) \<and> cs \<noteq> [] \<and> list_all (\<lambda>c. snd c = []) cs \<longrightarrow>
      fst (load_data env a w) = Inr (next_ref w) \<and>
      frames (snd (load_data env a w)) (next_ref w) = \<lparr>cols = cs\<rparr> \<and>
      empty_frame (frames (snd (load_data env a w)) (next_ref w)) \<and>
      files (snd (load_data env a w)) = files w \<and>
      trace (snd (load_data env a w)) =
        trace w @ [Log INFO [Lit (''Data loaded from '' @ input_path env a)]]) \<and>
   (raises env (FetchAndMerge (paths_repo env)) = None \<and> cli env = Inr opts \<and>
    merged_tree env (files w) (input_path env (args_of env opts)) = Some (CsvFile cs) \<and>
    cs \<noteq> [] \<and> list_all (\<lambda>c. snd c = []) cs \<longrightarrow>
      fst (main env w) = Inr () \<and>
      files (snd (main env w)) = merged_tree env (files w) \<and>
      trace (snd (main env w)) =
        trace w @ [FetchAndMerge (paths_repo env),
                   Log INFO [Lit ''Parsing command-line arguments''],
                   Log INFO [Lit (''Data loaded from '' @ input_path env (args_of env opts))]])"
proof (rule conjI; rule impI)
  assume h: "files w (input_path env a) = Some (CsvFile cs) \<and> cs \<noteq> [] \<and> list_all (\<lambda>c. snd c = []) cs"
  then have e: "empty_frame \<lparr>cols = cs\<rparr>"
    by (cases cs) (simp_all add: empty_frame_def nrows_def)
  from h have "load_data env a w =
     (Inr (next_ref w),
      log_info [Lit (''Data loaded from '' @ input_path env a)]
        (w\<lparr>frames := (frames w)(next_ref w := \<lparr>cols = cs\<rparr>), next_ref := Suc (next_ref w)\<rparr>))"
    by (intro load_data_present) simp_all
  with e show "fst (load_data env a w) = Inr (next_ref w) \<and>
      frames (snd (load_data env a w)) (next_ref w) = \<lparr>cols = cs\<rparr> \<and>
      empty_frame (frames (snd (load_data env a w)) (next_ref w)) \<and>
      files (snd (load_data env a w)) = files w \<and>
      trace (snd (load_data env a w)) =
        trace w @ [Log INFO [Lit (''Data loaded from '' @ input_path env a)]]"
    by (simp add: log_info_simps)
next
  let ?w2 = "log_info [Lit ''Parsing command-line arguments'']
             ((emit (FetchAndMerge (paths_repo env)) w)\<lparr>files := merged_tree env (files w)\<rparr>)"
  let ?a = "args_of env opts"
  assume h: "raises env (FetchAndMerge (paths_repo env)) = None \<and> cli env = Inr opts \<and>
    merged_tree env (files w) (input_path env (args_of env opts)) = Some (CsvFile cs) \<and>
    cs \<noteq> [] \<and> list_all (\<lambda>c. snd c = []) cs"
  then have e: "empty_frame \<lparr>cols = cs\<rparr>"
    by (cases cs) (simp_all add: empty_frame_def nrows_def)
  from h have "files ?w2 (input_path env ?a) = Some (CsvFile cs)" and "cs \<noteq> []"
    by (simp_all add: log_info_simps)
  from load_data_present [OF this]
  have ld: "load_data env ?a ?w2 =
     (Inr (next_ref ?w2),
      log_info [Lit (''Data loaded from '' @ input_path env ?a)]
        (?w2\<lparr>frames := (frames ?w2)(next_ref ?w2 := \<lparr>cols = cs\<rparr>), next_ref := Suc (next_ref ?w2)\<rparr>))" .
  have m: "main env w = (Inr (),
      log_info [Lit (''Data loaded from '' @ input_path env ?a)]
        (?w2\<lparr>frames := (frames ?w2)(next_ref ?w2 := \<lparr>cols = cs\<rparr>), next_ref := Suc (next_ref ?w2)\<rparr>))"
    using h e by (intro main_early_return [OF _ _ ld]) (simp_all add: log_info_simps)
  show "fst (main env w) = Inr () \<and>
      files (snd (main env w)) = merged_tree env (files w) \<and>
      trace (snd (main env w)) =
        trace w @ [FetchAndMerge (paths_repo env),
                   Log INFO [Lit ''Parsing command-line arguments''],
                   Log INFO [Lit (''Data loaded from '' @ input_path env (args_of env opts))]]"
    unfolding m by (simp add: world_simps)
qed

lemma demo_input_path:
  "input_path (demo_env x) demo_args = ''/repo/data/2024Q2/1-fetch/gcs_fetched.csv''"
  "input_path (demo_env x)
     (args_of (demo_env x) \<lparr>opt_quarter = Some ''2024Q2'', opt_skip_commit = False,
        opt_skip_push = False, opt_show_plots = False\<rparr>) =
   ''/repo/data/2024Q2/1-fetch/gcs_fetched.csv''"
  by (simp_all add: input_path_def demo_env_def demo_args_def args_of_def path_join.simps)

lemma demo_env_simps:
  "raises (demo_env None) ev = None" "paths_repo (demo_env x) = ''/repo''"
  "merged_tree (demo_env x) t = t"
  "cli (demo_env x) = Inr \<lparr>opt_quarter = Some ''2024Q2'', opt_skip_commit = False,
        opt_skip_push = False, opt_show_plots = False\<rparr>"
  by (simp_all add: demo_env_def split: event.splits)

theorem missing_input_ends_run_witness:
  "files blank_world (input_path (demo_env None) demo_args) = None \<and>
   fst (load_data (demo_env None) demo_args blank_world) = Inr 0 \<and>
   empty_frame (frames (snd (load_data (demo_env None) demo_args blank_world)) 0) \<and>
   trace (snd (load_data (demo_env None) demo_args blank_world)) =
     [Log ERROR [Lit ''Data file not found: /repo/data/2024Q2/1-fetch/gcs_fetched.csv'']] \<and>
   raises (demo_env None) (FetchAndMerge (paths_repo (demo_env None))) = None \<and>
   fst (main (demo_env None) blank_world) = Inr () \<and>
   files (snd (main (demo_env None) blank_world)) = Map.empty \<and>
   trace (snd (main (demo_env None) blank_world)) =
     [FetchAndMerge ''/repo'', Log INFO [Lit ''Parsing command-line arguments''],
      Log ERROR [Lit ''Data file not found: /repo/data/2024Q2/1-fetch/gcs_fetched.csv'']]"
  using missing_input_ends_run [of blank_world "demo_env None" demo_args
      "\<lparr>opt_quarter = Some ''2024Q2'', opt_skip_commit = False,
        opt_skip_push = False, opt_show_plots = False\<rparr>"]
  by (simp add: demo_input_path demo_env_simps blank_world_def)

theorem header_only_input_ends_run_witness:
  "files header_only_world (input_path (demo_env None) demo_args) =
     Some (CsvFile [(''LICENSE TYPE'', []), (''United States'', []), (''Japan'', [])]) \<and>
   fst (load_data (demo_env None) demo_args header_only_world) = Inr 0 \<and>
   empty_frame (frames (snd (load_data (demo_env None) demo_args header_only_world)) 0) \<and>
   trace (snd (load_data (demo_env None) demo_args header_only_world)) =
     [Log INFO [Lit ''Data loaded from /repo/data/2024Q2/1-fetch/gcs_fetched.csv'']] \<and>
   fst (main (demo_env None) header_only_world) = Inr () \<and>
   files (snd (main (demo_env None) header_only_world)) = files header_only_world \<and>
   trace (snd (main (demo_env None) header_only_world)) =
     [FetchAndMerge ''/repo'', Log INFO [Lit ''Parsing command-line arguments''],
      Log INFO [Lit ''Data loaded from /repo/data/2024Q2/1-fetch/gcs_fetched.csv'']]"
  using header_only_input_ends_run [of header_only_world "demo_env None" demo_args
      "[(''LICENSE TYPE'', []), (''United States'', []), (''Japan'', [])]"
      "\<lparr>opt_quarter = Some ''2024Q2'', opt_skip_commit = False,
        opt_skip_push = False, opt_show_plots = False\<rparr>"]
  by (simp add: demo_input_path demo_env_simps header_only_world_def empty_frame_def nrows_def)


subsection \<open>What a report does to the world\<close>

lemma effect_fail_early:
  "step_of_message m = Some s \<Longrightarrow> report_effect s p data w (Inl e, log_info [Lit m] w)"
  by (simp add: report_effect_def world_simps steps_of_simps)

lemma effect_fail_late:
  "prepared s data w w' \<Longrightarrow> report_effect s p data w (Inl e, w')"
  by (auto simp add: report_effect_def prepared_def)

lemma effect_publish:
  assumes "prepared s data w w'" and "step_of_message done = None"
  shows "report_effect s (path_join (paths_data env) [quarter a, ''3-report'', name]) data w
           (publish env a name d sec done c w')"
proof -
  from assms(1) obtain evs where evs: "trace w' = trace w @ evs" "steps_of evs = [s]"
    and w': "files w' = files w" "next_ref w' = next_ref w"
      "frames w' = (frames w)(data := strip_columns (frames w data))"
    by (auto simp add: prepared_def)
  from publish_trace [OF assms(2), of env a name d sec c w']
  obtain evs' where evs': "trace (snd (publish env a name d sec done c w')) = trace w' @ evs'"
      "steps_of evs' = []"
    by blast
  have "trace (snd (publish env a name d sec done c w')) = trace w @ (evs @ evs')"
    "steps_of (evs @ evs') = [s]"
    using evs evs' by (simp_all add: steps_of_simps)
  then have "\<exists>es. trace (snd (publish env a name d sec done c w')) = trace w @ es \<and> steps_of es = [s]"
    by blast
  then show ?thesis
    unfolding report_effect_def publish_world w' by blast
qed

lemma prepared_span:
  "step_of_message m = Some s \<Longrightarrow>
   prepared s data w
     (log_info [Lit ''Cleaned Columns: '', ReprList xs]
        (set_frame data (strip_columns (frames w data)) (log_info [Lit m] w)))"
  by (simp add: prepared_def world_simps steps_of_simps)

lemma prepared_license:
  "step_of_message m = Some s \<Longrightarrow>
   prepared s data w (set_frame data (strip_columns (frames w data)) (log_info [Lit m] w))"
  by (simp add: prepared_def world_simps steps_of_simps)

lemma step_of_message_simps:
  "step_of_message ''Creating a bar chart for the number of webpages licensed by country.'' = Some CountryReport"
  "step_of_message ''Creating a bar chart for the number of webpages licensed by license type.'' = Some LicenseReport"
  "step_of_message ''Creating a bar chart for the number of webpages licensed by language.'' = Some LanguageReport"
  "step_of_message ''Visualization by country created.'' = None"
  "step_of_message ''Visualization by license type created.'' = None"
  "step_of_message ''Visualization by language created.'' = None"
  "step_of_message ''Parsing command-line arguments'' = Some ParseArgs"
  "step_of_message (''Data file not found: '' @ p) = Some LoadData"
  "step_of_message (''Data loaded from '' @ p) = Some LoadData"
  "step_of_message (''Current working directory: '' @ p) = None"
  by (simp_all add: step_of_message_def)

lemma country_effect:
  "report_effect CountryReport (country_path env a) data w (visualize_by_country env data a w)"
proof (cases "country_chart a (frames w data)")
  case (Inl e)
  note prep = prepared_span [OF step_of_message_simps(1), of data w]
  from Inl show ?thesis
    by (simp add: country_by_chart Let_def effect_fail_early step_of_message_simps
        effect_fail_late [OF prep])
next
  case (Inr c)
  note prep = prepared_span [OF step_of_message_simps(1), of data w]
  from Inr show ?thesis
    by (simp add: country_by_chart Let_def country_path_def
        effect_publish [OF prep step_of_message_simps(4)])
qed

lemma language_effect:
  "report_effect LanguageReport (language_path env a) data w (visualize_by_language env data a w)"
proof (cases "language_chart a (frames w data)")
  case (Inl e)
  note prep = prepared_span [OF step_of_message_simps(3), of data w]
  from Inl show ?thesis
    by (simp add: language_by_chart Let_def effect_fail_early step_of_message_simps
        effect_fail_late [OF prep])
next
  case (Inr c)
  note prep = prepared_span [OF step_of_message_simps(3), of data w]
  from Inr show ?thesis
    by (simp add: language_by_chart Let_def language_path_def
        effect_publish [OF prep step_of_message_simps(6)])
qed

lemma license_effect:
  "report_effect LicenseReport (licensetype_path env a) data w
     (visualize_by_license_type env data a w)"
proof (cases "license_chart a (frames w data)")
  case (Inl e)
  note prep = prepared_license [OF step_of_message_simps(2), of data w]
  from Inl show ?thesis
    by (simp add: license_by_chart Let_def effect_fail_early step_of_message_simps
        effect_fail_late [OF prep])
next
  case (Inr c)
  note prep = prepared_license [OF step_of_message_simps(2), of data w]
  from Inr show ?thesis
    by (simp add: license_by_chart Let_def licensetype_path_def
        effect_publish [OF prep step_of_message_simps(5)])
qed


subsection \<open>The image paths\<close>

lemma startswith_slash: "startswith s ''/'' \<longleftrightarrow> s \<noteq> [] \<and> hd s = CHR ''/''"
  by (cases s) auto

lemma report_path_literal:
  assumes "p \<noteq> []" "last p \<noteq> CHR ''/''" "q \<noteq> []" "CHR ''/'' \<notin> set q"
    and "name \<noteq> []" "hd name \<noteq> CHR ''/''"
  shows "path_join p [q, ''3-report'', name] = p @ ''/'' @ q @ ''/3-report/'' @ name"
proof -
  from assms(3,4) have q: "hd q \<noteq> CHR ''/''" "last q \<noteq> CHR ''/''"
    by (metis hd_in_set, metis last_in_set)
  have 1: "path_join p [q, ''3-report'', name] = path_join (p @ ''/'' @ q) [''3-report'', name]"
    using assms(1,2) q(1) by (simp add: path_join.simps startswith_slash)
  have 2: "path_join (p @ ''/'' @ q) [''3-report'', name] =
      path_join (p @ ''/'' @ q @ ''/3-report'') [name]"
    using assms(3) q(2) by (simp add: path_join.simps)
  have 3: "path_join (p @ ''/'' @ q @ ''/3-report'') [name] = p @ ''/'' @ q @ ''/3-report/'' @ name"
    using assms(5,6) by (simp add: path_join.simps startswith_slash)
  show ?thesis
    unfolding 1 2 3 ..
qed

lemma cols_strip_columns_empty: "cols (strip_columns df) = [] \<longleftrightarrow> cols df = []"
  by (simp add: strip_columns_def)

lemma str_strip_stripped: "str_strip (strip_columns df) = str_strip df"
  by (simp add: str_strip_def cols_strip_columns_empty strip_columns_idem)

text \<open>A frame whose headers are stripped already gives the same chart.\<close>

lemma map_strip_strip: "map strip (map strip xs) = map strip xs"
  by (simp add: strip_strip)

lemma span_series_stripped: "span_series first_name last_name (strip_columns df) = span_series first_name last_name df"
  unfolding span_series_def columns_strip_columns map_strip_strip str_strip_stripped ..

lemma chart_stripped:
  "country_chart a (strip_columns df) = country_chart a df"
  "license_chart a (strip_columns df) = license_chart a df"
  "language_chart a (strip_columns df) = language_chart a df"
  unfolding country_chart_def license_chart_def language_chart_def span_series_stripped
    str_strip_stripped by (rule refl)+

lemma country_frames:
  "country_chart a (frames w data) = Inr c \<Longrightarrow>
   frames (snd (visualize_by_country env data a w)) = (frames w)(data := strip_columns (frames w data))"
  by (simp add: country_by_chart Let_def publish_world world_simps)

lemma license_frames:
  "license_chart a (frames w data) = Inr c \<Longrightarrow>
   frames (snd (visualize_by_license_type env data a w)) = (frames w)(data := strip_columns (frames w data))"
  by (simp add: license_by_chart Let_def publish_world world_simps)

lemma language_frames:
  "language_chart a (frames w data) = Inr c \<Longrightarrow>
   frames (snd (visualize_by_language env data a w)) = (frames w)(data := strip_columns (frames w data))"
  by (simp add: language_by_chart Let_def publish_world world_simps)

text \<open>
  C8. Each report leaves every file as it was except the one at its own path, which is
  joined from the data root, the quarter, \<open>3-report\<close> and a fixed file name, and so is the
  same for every run with that quarter (for a quarter without a slash and a data root that
  does not end in one it reads \<open>data_root/quarter/3-report/name\<close>). A run that gets as far as
  saving puts at that path the chart it has built from the frame it is given, whatever the
  path held before; a run that returns normally has done so. Running a report again for
  the same quarter therefore replaces the chart of the first run by the chart of the second
  at the same path, and the set of files is the same after both runs.
\<close>

theorem reports_overwrite:
  "files (snd (visualize_by_country env data a w)) =
     (case country_chart a (frames w data) of
        Inl e \<Rightarrow> files w
      | Inr c \<Rightarrow> (files w)(country_path env a \<mapsto> PngFile c)) \<and>
   files (snd (visualize_by_license_type env data a w)) =
     (case license_chart a (frames w data) of
        Inl e \<Rightarrow> files w
      | Inr c \<Rightarrow> (files w)(licensetype_path env a \<mapsto> PngFile c)) \<and>
   files (snd (visualize_by_language env data a w)) =
     (case language_chart a (frames w data) of
        Inl e \<Rightarrow> files w
      | Inr c \<Rightarrow> (files w)(language_path env a \<mapsto> PngFile c)) \<and>
   (fst (visualize_by_country env data a w) = Inr () \<longrightarrow>
      (\<exists>c. country_chart a (frames w data) = Inr c)) \<and>
   (fst (visualize_by_license_type env data a w) = Inr () \<longrightarrow>
      (\<exists>c. license_chart a (frames w data) = Inr c)) \<and>
   (fst (visualize_by_language env data a w) = Inr () \<longrightarrow>
      (\<exists>c. language_chart a (frames w data) = Inr c)) \<and>
   (paths_data env \<noteq> [] \<and> last (paths_data env) \<noteq> CHR ''/'' \<and>
    quarter a \<noteq> [] \<and> CHR ''/'' \<notin> set (quarter a) \<longrightarrow>
      country_path env a = paths_data env @ ''/'' @ quarter a @ ''/3-report/gcs_country_report.png'' \<and>
      licensetype_path env a =
        paths_data env @ ''/'' @ quarter a @ ''/3-report/gcs_licensetype_report.png'' \<and>
      language_path env a = paths_data env @ ''/'' @ quarter a @ ''/3-report/gcs_language_report.png'') \<and>
   (paths_data env' = paths_data env \<and> quarter a' = quarter a \<longrightarrow>
      country_path env' a' = country_path env a \<and>
      licensetype_path env' a' = licensetype_path env a \<and>
      language_path env' a' = language_path env a) \<and>
   (paths_data env' = paths_data env \<and> quarter a' = quarter a \<and>
    country_chart a (frames w data) = Inr c1 \<and>
    country_chart a' (frames (snd (visualize_by_country env data a w)) data') = Inr c2 \<longrightarrow>
      files (snd (visualize_by_country env' data' a' (snd (visualize_by_country env data a w)))) =
        (files w)(country_path env a \<mapsto> PngFile c2) \<and>
      dom (files (snd (visualize_by_country env' data' a' (snd (visualize_by_country env data a w))))) =
        dom (files (snd (visualize_by_country env data a w)))) \<and>
   (paths_data env' = paths_data env \<and> quarter a' = quarter a \<and>
    license_chart a (frames w data) = Inr l1 \<and>
    license_chart a' (frames (snd (visualize_by_license_type env data a w)) data') = Inr l2 \<longrightarrow>
      files (snd (visualize_by_license_type env' data' a' (snd (visualize_by_license_type env data a w)))) =
        (files w)(licensetype_path env a \<mapsto> PngFile l2) \<and>
      dom (files (snd (visualize_by_license_type env' data' a'
             (snd (visualize_by_license_type env data a w))))) =
        dom (files (snd (visualize_by_license_type env data a w)))) \<and>
   (paths_data env' = paths_data env \<and> quarter a' = quarter a \<and>
    language_chart a (frames w data) = Inr g1 \<and>
    language_chart a' (frames (snd (visualize_by_language env data a w)) data') = Inr g2 \<longrightarrow>
      files (snd (visualize_by_language env' data' a' (snd (visualize_by_language env data a w)))) =
        (files w)(language_path env a \<mapsto> PngFile g2) \<and>
      dom (files (snd (visualize_by_language env' data' a' (snd (visualize_by_language env data a w))))) =
        dom (files (snd (visualize_by_language env data a w))))"
proof -
  have same: "country_path env' a' = country_path env a \<and>
      licensetype_path env' a' = licensetype_path env a \<and>
      language_path env' a' = language_path env a"
    if "paths_data env' = paths_data env" "quarter a' = quarter a"
    using that by (simp add: country_path_def licensetype_path_def language_path_def)
  have lit: "paths_data env \<noteq> [] \<and> last (paths_data env) \<noteq> CHR ''/'' \<and>
    quarter a \<noteq> [] \<and> CHR ''/'' \<notin> set (quarter a) \<longrightarrow>
      country_path env a = paths_data env @ ''/'' @ quarter a @ ''/3-report/gcs_country_report.png'' \<and>
      licensetype_path env a =
        paths_data env @ ''/'' @ quarter a @ ''/3-report/gcs_licensetype_report.png'' \<and>
      language_path env a = paths_data env @ ''/'' @ quarter a @ ''/3-report/gcs_language_report.png''"
    by (simp add: country_path_def licensetype_path_def language_path_def report_path_literal)
  have ok: "(fst (visualize_by_country env data a w) = Inr () \<longrightarrow>
      (\<exists>c. country_chart a (frames w data) = Inr c)) \<and>
   (fst (visualize_by_license_type env data a w) = Inr () \<longrightarrow>
      (\<exists>c. license_chart a (frames w data) = Inr c)) \<and>
   (fst (visualize_by_language env data a w) = Inr () \<longrightarrow>
      (\<exists>c. language_chart a (frames w data) = Inr c))"
  proof (intro conjI impI)
    assume "fst (visualize_by_country env data a w) = Inr ()"
    then show "\<exists>c. country_chart a (frames w data) = Inr c"
      unfolding country_result by (cases "country_chart a (frames w data)") simp_all
  next
    assume "fst (visualize_by_license_type env data a w) = Inr ()"
    then show "\<exists>c. license_chart a (frames w data) = Inr c"
      unfolding license_result by (cases "license_chart a (frames w data)") simp_all
  next
    assume "fst (visualize_by_language env data a w) = Inr ()"
    then show "\<exists>c. language_chart a (frames w data) = Inr c"
      unfolding language_result by (cases "language_chart a (frames w data)") simp_all
  qed
  have again_country: "files (snd (visualize_by_country env' data' a' (snd (visualize_by_country env data a w)))) =
        (files w)(country_path env a \<mapsto> PngFile c2) \<and>
      dom (files (snd (visualize_by_country env' data' a' (snd (visualize_by_country env data a w))))) =
        dom (files (snd (visualize_by_country env data a w)))"
    if "paths_data env' = paths_data env \<and> quarter a' = quarter a \<and>
      country_chart a (frames w data) = Inr c1 \<and>
      country_chart a' (frames (snd (visualize_by_country env data a w)) data') = Inr c2"
    using that same unfolding country_files [of env' data' a'] country_files [of env data a w]
    by (simp add: written_def)
  have again_license: "files (snd (visualize_by_license_type env' data' a' (snd (visualize_by_license_type env data a w)))) =
        (files w)(licensetype_path env a \<mapsto> PngFile l2) \<and>
      dom (files (snd (visualize_by_license_type env' data' a'
             (snd (visualize_by_license_type env data a w))))) =
        dom (files (snd (visualize_by_license_type env data a w)))"
    if "paths_data env' = paths_data env \<and> quarter a' = quarter a \<and>
      license_chart a (frames w data) = Inr l1 \<and>
      license_chart a' (frames (snd (visualize_by_license_type env data a w)) data') = Inr l2"
    using that same unfolding license_files [of env' data' a'] license_files [of env data a w]
    by (simp add: written_def)
  have again_language: "files (snd (visualize_by_language env' data' a' (snd (visualize_by_language env data a w)))) =
        (files w)(language_path env a \<mapsto> PngFile g2) \<and>
      dom (files (snd (visualize_by_language env' data' a' (snd (visualize_by_language env data a w))))) =
        dom (files (snd (visualize_by_language env data a w)))"
    if "paths_data env' = paths_data env \<and> quarter a' = quarter a \<and>
      language_chart a (frames w data) = Inr g1 \<and>
      language_chart a' (frames (snd (visualize_by_language env data a w)) data') = Inr g2"
    using that same unfolding language_files [of env' data' a'] language_files [of env data a w]
    by (simp add: written_def)
  have touch: "files (snd (visualize_by_country env data a w)) =
     (case country_chart a (frames w data) of
        Inl e \<Rightarrow> files w
      | Inr c \<Rightarrow> (files w)(country_path env a \<mapsto> PngFile c))"
    "files (snd (visualize_by_license_type env data a w)) =
     (case license_chart a (frames w data) of
        Inl e \<Rightarrow> files w
      | Inr c \<Rightarrow> (files w)(licensetype_path env a \<mapsto> PngFile c))"
    "files (snd (visualize_by_language env data a w)) =
     (case language_chart a (frames w data) of
        Inl e \<Rightarrow> files w
      | Inr c \<Rightarrow> (files w)(language_path env a \<mapsto> PngFile c))"
    by (simp_all add: country_files license_files language_files written_def)
  show ?thesis
    apply (intro conjI)
              apply (rule touch(1))
             apply (rule touch(2))
            apply (rule touch(3))
           apply (rule ok [THEN conjunct1])
          apply (rule ok [THEN conjunct2, THEN conjunct1])
         apply (rule ok [THEN conjunct2, THEN conjunct2])
        apply (rule lit)
       apply (rule impI, erule conjE, erule (1) same)
      apply (rule impI, erule again_country)
     apply (rule impI, erule again_license)
    apply (rule impI, erule again_language)
    done
qed

subsection \<open>The charts of the fixture\<close>

lemma fixture_key:
  "filter (\<lambda>c. strip (fst c) = ''LICENSE TYPE'') (cols fixture) =
     [(''LICENSE TYPE '', map Str [''licenses/by/2.5/'', ''publicdomain/zero/1.0/''])]"
  by (simp add: fixture_def strip_examples strip_fixture)

lemma fixture_others:
  "other_columns fixture =
     [('' United States'', [Num 10, Num 30]), (''Canada '', [Num 7, Num 1]),
      (''Japan'', [Num 20, Num 5]), (''English'', [Num 3, Num 4]),
      (''Spanish'', [Num 2, Num 2]), (''Indonesian '', [Num 1, Num 2])]"
  by (simp add: other_columns_def fixture_def strip_examples strip_fixture)

lemma fixture_charts:
  "country_chart a fixture =
     Inr \<lparr>title = ''Number of Google Webpages Licensed by Country ('' @ quarter a @ '')'',
          xlabel = ''Country'', ylabel = ''Number of Webpages'',
          bars = [(Str ''United States'', IntTotal 40), (Str ''Canada'', IntTotal 8),
                  (Str ''Japan'', IntTotal 25)],
          xticklabels = None\<rparr>"
  "license_chart a fixture =
     Inr \<lparr>title = ''Number of Webpages Licensed by License Type ('' @ quarter a @ '')'',
          xlabel = ''License Type'', ylabel = ''Number of Webpages'',
          bars = [(Str ''licenses/by/2.5/'', IntTotal 43), (Str ''publicdomain/zero/1.0/'', IntTotal 44)],
          xticklabels = Some [''CC BY 2.5'', ''publicdomain/zero/1.0/'']\<rparr>"
  "language_chart a fixture =
     Inr \<lparr>title = ''Number of Google Webpages Licensed by Language ('' @ quarter a @ '')'',
          xlabel = ''Language'', ylabel = ''Number of Webpages'',
          bars = [(Str ''English'', IntTotal 7), (Str ''Spanish'', IntTotal 4),
                  (Str ''Indonesian'', IntTotal 3)],
          xticklabels = None\<rparr>"
proof -
  have us: "index (map strip (columns fixture)) ''United States'' = Some 1"
    and jp: "index (map strip (columns fixture)) ''Japan'' = Some 3"
    and en: "index (map strip (columns fixture)) ''English'' = Some 4"
    and ind: "index (map strip (columns fixture)) ''Indonesian'' = Some 6"
    unfolding fixture_headers by simp_all
  have u1: "list_all (\<lambda>l. count_list (map strip (columns fixture)) l = 1)
      (slice (map strip (columns fixture)) 1 (Suc 3))"
    and u2: "list_all (\<lambda>l. count_list (map strip (columns fixture)) l = 1)
      (slice (map strip (columns fixture)) 4 (Suc 6))"
    unfolding fixture_headers fixture_slices by simp_all
  show "country_chart a fixture =
     Inr \<lparr>title = ''Number of Google Webpages Licensed by Country ('' @ quarter a @ '')'',
          xlabel = ''Country'', ylabel = ''Number of Webpages'',
          bars = [(Str ''United States'', IntTotal 40), (Str ''Canada'', IntTotal 8),
                  (Str ''Japan'', IntTotal 25)],
          xticklabels = None\<rparr>"
    unfolding country_chart_def span_series_unique [OF us jp u1] fixture_country_series(1)
    by (simp add: fixture_country_series(2))
  show "language_chart a fixture =
     Inr \<lparr>title = ''Number of Google Webpages Licensed by Language ('' @ quarter a @ '')'',
          xlabel = ''Language'', ylabel = ''Number of Webpages'',
          bars = [(Str ''English'', IntTotal 7), (Str ''Spanish'', IntTotal 4),
                  (Str ''Indonesian'', IntTotal 3)],
          xticklabels = None\<rparr>"
    unfolding language_chart_def span_series_unique [OF en ind u2] fixture_language_series(1)
    by (simp add: fixture_language_series(2))
  have ints: "list_all (\<lambda>c. list_all is_int (snd c) \<and>
       length (snd c) = length [''licenses/by/2.5/'', ''publicdomain/zero/1.0/'']) (other_columns fixture)"
    and ne: "other_columns fixture \<noteq> []"
    unfolding fixture_others by simp_all
  have up: "[0..<length [''licenses/by/2.5/'', ''publicdomain/zero/1.0/'']] = [0, Suc 0]"
    by (simp add: upt_rec)
  have rows: "exact_sum (row_cells (other_columns fixture) 0) = 43"
    "exact_sum (row_cells (other_columns fixture) (Suc 0)) = 44"
    unfolding fixture_others by (simp_all add: row_cells_def exact_sum_def)
  show "license_chart a fixture =
     Inr \<lparr>title = ''Number of Webpages Licensed by License Type ('' @ quarter a @ '')'',
          xlabel = ''License Type'', ylabel = ''Number of Webpages'',
          bars = [(Str ''licenses/by/2.5/'', IntTotal 43), (Str ''publicdomain/zero/1.0/'', IntTotal 44)],
          xticklabels = Some [''CC BY 2.5'', ''publicdomain/zero/1.0/'']\<rparr>"
    unfolding license_chart_int64 [OF fixture_key ne ints] up
    by (simp add: rows short_label_def)
qed

lemma demo_paths:
  "country_path (demo_env x) demo_args = ''/repo/data/2024Q2/3-report/gcs_country_report.png''"
  "licensetype_path (demo_env x) demo_args = ''/repo/data/2024Q2/3-report/gcs_licensetype_report.png''"
  "language_path (demo_env x) demo_args = ''/repo/data/2024Q2/3-report/gcs_language_report.png''"
  by (simp_all add: country_path_def licensetype_path_def language_path_def demo_env_def demo_args_def
      path_join.simps)

lemma stale_world_simps:
  "frames stale_world 0 = fixture"
  "saved_chart stale_world ''/repo/data/2024Q2/3-report/gcs_country_report.png'' = Some stale_chart"
  "saved_chart stale_world ''/repo/data/2024Q2/3-report/gcs_licensetype_report.png'' = Some stale_chart"
  "saved_chart stale_world ''/repo/data/2024Q2/3-report/gcs_language_report.png'' = Some stale_chart"
  "dom (files stale_world) =
     {''/repo/data/2024Q2/3-report/gcs_country_report.png'',
      ''/repo/data/2024Q2/3-report/gcs_licensetype_report.png'',
      ''/repo/data/2024Q2/3-report/gcs_language_report.png''}"
  by (auto simp add: stale_world_def saved_chart_def)

theorem reports_overwrite_witness:
  "paths_data (demo_env None) \<noteq> [] \<and> last (paths_data (demo_env None)) \<noteq> CHR ''/'' \<and>
   quarter demo_args \<noteq> [] \<and> CHR ''/'' \<notin> set (quarter demo_args) \<and>
   country_path (demo_env None) demo_args = ''/repo/data/2024Q2/3-report/gcs_country_report.png'' \<and>
   licensetype_path (demo_env None) demo_args =
     ''/repo/data/2024Q2/3-report/gcs_licensetype_report.png'' \<and>
   language_path (demo_env None) demo_args = ''/repo/data/2024Q2/3-report/gcs_language_report.png'' \<and>
   map_option bars (saved_chart stale_world (country_path (demo_env None) demo_args)) = Some [] \<and>
   fst (visualize_by_country (demo_env None) 0 demo_args stale_world) = Inr () \<and>
   map_option bars (saved_chart (snd (visualize_by_country (demo_env None) 0 demo_args stale_world))
       (country_path (demo_env None) demo_args)) =
     Some [(Str ''United States'', IntTotal 40), (Str ''Canada'', IntTotal 8), (Str ''Japan'', IntTotal 25)] \<and>
   map_option bars (saved_chart (snd (visualize_by_country (demo_env None) 0 demo_args
         (snd (visualize_by_country (demo_env None) 0 demo_args stale_world))))
       (country_path (demo_env None) demo_args)) =
     Some [(Str ''United States'', IntTotal 40), (Str ''Canada'', IntTotal 8), (Str ''Japan'', IntTotal 25)] \<and>
   dom (files (snd (visualize_by_country (demo_env None) 0 demo_args
         (snd (visualize_by_country (demo_env None) 0 demo_args stale_world))))) =
     dom (files stale_world) \<and>
   map_option bars (saved_chart stale_world (licensetype_path (demo_env None) demo_args)) = Some [] \<and>
   fst (visualize_by_license_type (demo_env None) 0 demo_args stale_world) = Inr () \<and>
   map_option bars (saved_chart (snd (visualize_by_license_type (demo_env None) 0 demo_args stale_world))
       (licensetype_path (demo_env None) demo_args)) =
     Some [(Str ''licenses/by/2.5/'', IntTotal 43), (Str ''publicdomain/zero/1.0/'', IntTotal 44)] \<and>
   map_option bars (saved_chart (snd (visualize_by_license_type (demo_env None) 0 demo_args
         (snd (visualize_by_license_type (demo_env None) 0 demo_args stale_world))))
       (licensetype_path (demo_env None) demo_args)) =
     Some [(Str ''licenses/by/2.5/'', IntTotal 43), (Str ''publicdomain/zero/1.0/'', IntTotal 44)] \<and>
   dom (files (snd (visualize_by_license_type (demo_env None) 0 demo_args
         (snd (visualize_by_license_type (demo_env None) 0 demo_args stale_world))))) =
     dom (files stale_world) \<and>
   map_option bars (saved_chart stale_world (language_path (demo_env None) demo_args)) = Some [] \<and>
   fst (visualize_by_language (demo_env None) 0 demo_args stale_world) = Inr () \<and>
   map_option bars (saved_chart (snd (visualize_by_language (demo_env None) 0 demo_args stale_world))
       (language_path (demo_env None) demo_args)) =
     Some [(Str ''English'', IntTotal 7), (Str ''Spanish'', IntTotal 4), (Str ''Indonesian'', IntTotal 3)] \<and>
   map_option bars (saved_chart (snd (visualize_by_language (demo_env None) 0 demo_args
         (snd (visualize_by_language (demo_env None) 0 demo_args stale_world))))
       (language_path (demo_env None) demo_args)) =
     Some [(Str ''English'', IntTotal 7), (Str ''Spanish'', IntTotal 4), (Str ''Indonesian'', IntTotal 3)] \<and>
   dom (files (snd (visualize_by_language (demo_env None) 0 demo_args
         (snd (visualize_by_language (demo_env None) 0 demo_args stale_world))))) =
     dom (files stale_world)"
proof -
  let ?e = "demo_env None"
  let ?C = "\<lparr>title = ''Number of Google Webpages Licensed by Country ('' @ quarter demo_args @ '')'',
          xlabel = ''Country'', ylabel = ''Number of Webpages'',
          bars = [(Str ''United States'', IntTotal 40), (Str ''Canada'', IntTotal 8),
                  (Str ''Japan'', IntTotal 25)],
          xticklabels = None\<rparr>"
  let ?L = "\<lparr>title = ''Number of Webpages Licensed by License Type ('' @ quarter demo_args @ '')'',
          xlabel = ''License Type'', ylabel = ''Number of Webpages'',
          bars = [(Str ''licenses/by/2.5/'', IntTotal 43), (Str ''publicdomain/zero/1.0/'', IntTotal 44)],
          xticklabels = Some [''CC BY 2.5'', ''publicdomain/zero/1.0/'']\<rparr>"
  let ?G = "\<lparr>title = ''Number of Google Webpages Licensed by Language ('' @ quarter demo_args @ '')'',
          xlabel = ''Language'', ylabel = ''Number of Webpages'',
          bars = [(Str ''English'', IntTotal 7), (Str ''Spanish'', IntTotal 4),
                  (Str ''Indonesian'', IntTotal 3)],
          xticklabels = None\<rparr>"
  have p: "paths_data ?e = ''/repo/data''" and q: "quarter demo_args = ''2024Q2''"
    by (simp_all add: demo_env_def demo_args_def)
  have c: "country_chart demo_args (frames stale_world 0) = Inr ?C"
    and l: "license_chart demo_args (frames stale_world 0) = Inr ?L"
    and g: "language_chart demo_args (frames stale_world 0) = Inr ?G"
    unfolding stale_world_simps by (rule fixture_charts)+
  have c': "country_chart demo_args
      (frames (snd (visualize_by_country ?e 0 demo_args stale_world)) 0) = Inr ?C"
    unfolding country_frames [OF c] using c by (simp add: chart_stripped)
  have l': "license_chart demo_args
      (frames (snd (visualize_by_license_type ?e 0 demo_args stale_world)) 0) = Inr ?L"
    unfolding license_frames [OF l] using l by (simp add: chart_stripped)
  have g': "language_chart demo_args
      (frames (snd (visualize_by_language ?e 0 demo_args stale_world)) 0) = Inr ?G"
    unfolding language_frames [OF g] using g by (simp add: chart_stripped)
  have r: "fst (visualize_by_country ?e 0 demo_args stale_world) = Inr ()"
    "fst (visualize_by_license_type ?e 0 demo_args stale_world) = Inr ()"
    "fst (visualize_by_language ?e 0 demo_args stale_world) = Inr ()"
    by (simp_all add: country_result license_result language_result c l g demo_env_simps)
  have s1: "saved_chart (snd (visualize_by_country ?e 0 demo_args stale_world))
       (country_path ?e demo_args) = Some ?C"
    "saved_chart (snd (visualize_by_license_type ?e 0 demo_args stale_world))
       (licensetype_path ?e demo_args) = Some ?L"
    "saved_chart (snd (visualize_by_language ?e 0 demo_args stale_world))
       (language_path ?e demo_args) = Some ?G"
    by (rule country_saved [OF c] license_saved [OF l] language_saved [OF g])+
  note t = reports_overwrite [where env = ?e and env' = ?e and a = demo_args and a' = demo_args
      and data = 0 and data' = 0 and w = stale_world
      and ?c1.0 = ?C and ?c2.0 = ?C and ?l1.0 = ?L and ?l2.0 = ?L and ?g1.0 = ?G and ?g2.0 = ?G]
  have again: "files (snd (visualize_by_country ?e 0 demo_args
         (snd (visualize_by_country ?e 0 demo_args stale_world)))) =
       (files stale_world)(country_path ?e demo_args \<mapsto> PngFile ?C)"
    "files (snd (visualize_by_license_type ?e 0 demo_args
         (snd (visualize_by_license_type ?e 0 demo_args stale_world)))) =
       (files stale_world)(licensetype_path ?e demo_args \<mapsto> PngFile ?L)"
    "files (snd (visualize_by_language ?e 0 demo_args
         (snd (visualize_by_language ?e 0 demo_args stale_world)))) =
       (files stale_world)(language_path ?e demo_args \<mapsto> PngFile ?G)"
    using t c c' l l' g g' by simp_all
  have lits: "country_path ?e demo_args = ''/repo/data/2024Q2/3-report/gcs_country_report.png''"
    "licensetype_path ?e demo_args = ''/repo/data/2024Q2/3-report/gcs_licensetype_report.png''"
    "language_path ?e demo_args = ''/repo/data/2024Q2/3-report/gcs_language_report.png''"
    using t by (simp_all add: p q)
  have s2: "saved_chart (snd (visualize_by_country ?e 0 demo_args
         (snd (visualize_by_country ?e 0 demo_args stale_world)))) (country_path ?e demo_args) = Some ?C"
    "saved_chart (snd (visualize_by_license_type ?e 0 demo_args
         (snd (visualize_by_license_type ?e 0 demo_args stale_world)))) (licensetype_path ?e demo_args) =
       Some ?L"
    "saved_chart (snd (visualize_by_language ?e 0 demo_args
         (snd (visualize_by_language ?e 0 demo_args stale_world)))) (language_path ?e demo_args) = Some ?G"
    by (rule saved_chart_upd [OF again(1)] saved_chart_upd [OF again(2)] saved_chart_upd [OF again(3)])+
  have d: "dom (files (snd (visualize_by_country ?e 0 demo_args
         (snd (visualize_by_country ?e 0 demo_args stale_world))))) = dom (files stale_world)"
    "dom (files (snd (visualize_by_license_type ?e 0 demo_args
         (snd (visualize_by_license_type ?e 0 demo_args stale_world))))) = dom (files stale_world)"
    "dom (files (snd (visualize_by_language ?e 0 demo_args
         (snd (visualize_by_language ?e 0 demo_args stale_world))))) = dom (files stale_world)"
    unfolding again lits by (auto simp add: stale_world_simps)
  show ?thesis
    using s1 s2 d r
    by (simp add: lits p q stale_world_simps stale_chart_def)
qed

subsection \<open>Stripping happens once\<close>

lemma frame_effect_refl: "frame_effect data w w"
  by (simp add: frame_effect_def)

lemma frame_effect_trans:
  "frame_effect data w w1 \<Longrightarrow> frame_effect data w1 w2 \<Longrightarrow> frame_effect data w w2"
  by (auto simp add: frame_effect_def strip_columns_idem)

lemma frame_effect_stripped:
  assumes "frame_effect data w w1" and "frames w1 = (frames w)(data := strip_columns (frames w data))"
    and "frame_effect data w1 w2"
  shows "frames w2 = (frames w)(data := strip_columns (frames w data))"
  using assms by (auto simp add: frame_effect_def strip_columns_idem)

lemma report_frame_effect:
  "report_effect s p data w res \<Longrightarrow> frame_effect data w (snd res)"
  by (simp add: report_effect_def frame_effect_def)

subsection \<open>The stages of a run\<close>

lemma and_then_assoc:
  "and_then (and_then m f) g = and_then m (\<lambda>x w. and_then (f x w) g)"
  by (cases m; cases "fst m") (auto simp add: and_then_def)

lemma main_stages:
  "main env w =
     and_then (fetch_and_merge env (paths_repo env) w) (\<lambda>u0 w1.
     and_then (parse_arguments env w1) (\<lambda>a w2.
     and_then (load_data env a w2) (\<lambda>data w3.
       if empty_frame (frames w3 data) then (Inr (), w3)
       else and_then
              (reports env data a (log_info [Lit (''Current working directory: '' @ getcwd env)] w3))
              (\<lambda>u w7. finish env a w7))))"
  by (simp only: main_def reports_def finish_def Let_def and_then_assoc)

lemma main_full_run:
  assumes "raises env (FetchAndMerge (paths_repo env)) = None"
    and "cli env = Inr opts"
    and "merged_tree env (files w) (input_path env (args_of env opts)) = Some (CsvFile cs)"
    and "\<not> empty_frame \<lparr>cols = cs\<rparr>"
  shows "main env w =
     and_then
       (reports env (next_ref w) (args_of env opts)
          (log_info [Lit (''Current working directory: '' @ getcwd env)]
            (log_info [Lit (''Data loaded from '' @ input_path env (args_of env opts))]
              ((log_info [Lit ''Parsing command-line arguments'']
                 ((emit (FetchAndMerge (paths_repo env)) w)\<lparr>files := merged_tree env (files w)\<rparr>))
               \<lparr>frames := (frames w)(next_ref w := \<lparr>cols = cs\<rparr>), next_ref := Suc (next_ref w)\<rparr>))))
       (\<lambda>u w7. finish env (args_of env opts) w7)"
proof -
  let ?w2 = "log_info [Lit ''Parsing command-line arguments'']
             ((emit (FetchAndMerge (paths_repo env)) w)\<lparr>files := merged_tree env (files w)\<rparr>)"
  let ?a = "args_of env opts"
  from assms(4) have ne: "cs \<noteq> []" by (auto simp add: empty_frame_def)
  have "files ?w2 (input_path env ?a) = Some (CsvFile cs)"
    using assms(3) by (simp add: log_info_simps)
  from load_data_present [OF this ne]
  have ld: "load_data env ?a ?w2 =
     (Inr (next_ref w),
      log_info [Lit (''Data loaded from '' @ input_path env ?a)]
        (?w2\<lparr>frames := (frames w)(next_ref w := \<lparr>cols = cs\<rparr>), next_ref := Suc (next_ref w)\<rparr>))"
    by (simp add: world_simps)
  show ?thesis
    using assms(4)
    by (simp add: main_stages fetch_and_merge_ok [OF assms(1)] parse_arguments_ok [OF assms(2)] ld
        and_then_simps log_info_simps)
qed

lemma reports_cases:
  obtains (country) e where "fst (visualize_by_country env data a w) = Inl e"
      "reports env data a w = (Inl e, snd (visualize_by_country env data a w))"
  | (license) e where "fst (visualize_by_country env data a w) = Inr ()"
      "fst (visualize_by_license_type env data a (snd (visualize_by_country env data a w))) = Inl e"
      "reports env data a w =
         (Inl e, snd (visualize_by_license_type env data a (snd (visualize_by_country env data a w))))"
  | (language) "fst (visualize_by_country env data a w) = Inr ()"
      "fst (visualize_by_license_type env data a (snd (visualize_by_country env data a w))) = Inr ()"
      "reports env data a w =
         visualize_by_language env data a
           (snd (visualize_by_license_type env data a (snd (visualize_by_country env data a w))))"
proof (cases "visualize_by_country env data a w")
  case c: (Pair r1 w1)
  show ?thesis
  proof (cases r1)
    case (Inl e)
    with c show ?thesis by (intro country [of e]) (simp_all add: reports_def and_then_simps)
  next
    case r1: (Inr u1)
    show ?thesis
    proof (cases "visualize_by_license_type env data a w1")
      case l: (Pair r2 w2)
      show ?thesis
      proof (cases r2)
        case (Inl e)
        with c r1 l show ?thesis
          by (intro license [of e]) (simp_all add: reports_def and_then_simps)
      next
        case (Inr u2)
        with c r1 l show ?thesis
          by (intro language) (simp_all add: reports_def and_then_simps)
      qed
    qed
  qed
qed

lemma reports_frame_effect:
  "frame_effect data w (snd (reports env data a w)) \<and>
   (fst (reports env data a w) = Inr () \<longrightarrow>
      frames (snd (reports env data a w)) = (frames w)(data := strip_columns (frames w data)))"
proof -
  let ?w1 = "snd (visualize_by_country env data a w)"
  let ?w2 = "snd (visualize_by_license_type env data a ?w1)"
  let ?w3 = "snd (visualize_by_language env data a ?w2)"
  note c = country_effect [of env a data w]
  note l = license_effect [of env a data ?w1]
  note g = language_effect [of env a data ?w2]
  have f1: "frame_effect data w ?w1" by (rule report_frame_effect [OF c])
  have f2: "frame_effect data ?w1 ?w2" by (rule report_frame_effect [OF l])
  have f3: "frame_effect data ?w2 ?w3" by (rule report_frame_effect [OF g])
  show ?thesis
  proof (cases rule: reports_cases [of env data a w])
    case (country e)
    with f1 show ?thesis by simp
  next
    case (license e)
    with frame_effect_trans [OF f1 f2] show ?thesis by simp
  next
    case language
    from language(1) c have s: "frames ?w1 = (frames w)(data := strip_columns (frames w data))"
      by (simp add: report_effect_def)
    have "frames ?w3 = (frames w)(data := strip_columns (frames w data))"
      by (rule frame_effect_stripped [OF f1 s frame_effect_trans [OF f2 f3]])
    with frame_effect_trans [OF f1 frame_effect_trans [OF f2 f3]] language(3) show ?thesis
      by simp
  qed
qed

lemma call_world:
  "files (snd (call env ev w)) = files w" "frames (snd (call env ev w)) = frames w"
  "next_ref (snd (call env ev w)) = next_ref w" "trace (snd (call env ev w)) = trace w @ [ev]"
  "fst (call env ev w) = (case raises env ev of None \<Rightarrow> Inr () | Some e \<Rightarrow> Inl e)"
  by (simp_all add: call_def emit_simps split: option.splits)

lemma finish_static:
  "files (snd (finish env a w)) = files w" "frames (snd (finish env a w)) = frames w"
  "next_ref (snd (finish env a w)) = next_ref w"
  by (simp_all add: finish_def add_and_commit_def push_changes_def call_def and_then_simps
      emit_simps split: option.splits)

subsection \<open>Headers are stripped in place\<close>

lemma license_strips:
  "cols (frames w data) \<noteq> [] \<Longrightarrow>
   frames (snd (visualize_by_license_type env data a w)) =
     (frames w)(data := strip_columns (frames w data))"
  by (cases "license_chart a (frames w data)")
    (simp_all add: license_by_chart Let_def publish_world world_simps)

lemma report_ok_chart:
  "fst (visualize_by_country env data a w) = Inr () \<Longrightarrow> \<exists>c. country_chart a (frames w data) = Inr c"
  "fst (visualize_by_license_type env data a w) = Inr () \<Longrightarrow> \<exists>c. license_chart a (frames w data) = Inr c"
  "fst (visualize_by_language env data a w) = Inr () \<Longrightarrow> \<exists>c. language_chart a (frames w data) = Inr c"
  unfolding country_result license_result language_result
  by (cases "country_chart a (frames w data)", simp_all)
    (cases "license_chart a (frames w data)", simp_all,
      cases "language_chart a (frames w data)", simp_all)

text \<open>
  C9. Stripping the headers changes the frame object itself, in each report: after a
  report has run, the object it was given carries the stripped headers and every other
  object is as before (for the license-type report already when the frame has a column,
  since stripping is the first thing it does). A later report given the same object
  therefore finds the headers already stripped and leaves the object as it is. A full run
  allocates one frame, hands it to all three reports, and ends with that frame holding the
  table of the file under stripped headers.
\<close>

theorem headers_stripped_in_place:
  "(fst (visualize_by_country env data a w) = Inr () \<longrightarrow>
      frames (snd (visualize_by_country env data a w)) =
        (frames w)(data := strip_columns (frames w data)) \<and>
      columns (frames (snd (visualize_by_country env data a w)) data) =
        map strip (columns (frames w data)) \<and>
      map strip (columns (frames (snd (visualize_by_country env data a w)) data)) =
        columns (frames (snd (visualize_by_country env data a w)) data) \<and>
      frames (snd (visualize_by_license_type env data a (snd (visualize_by_country env data a w)))) =
        frames (snd (visualize_by_country env data a w)) \<and>
      frames (snd (visualize_by_language env data a
          (snd (visualize_by_license_type env data a (snd (visualize_by_country env data a w)))))) =
        frames (snd (visualize_by_country env data a w))) \<and>
   (cols (frames w data) \<noteq> [] \<longrightarrow>
      frames (snd (visualize_by_license_type env data a w)) =
        (frames w)(data := strip_columns (frames w data)) \<and>
      columns (frames (snd (visualize_by_license_type env data a w)) data) =
        map strip (columns (frames w data))) \<and>
   (fst (visualize_by_license_type env data a w) = Inr () \<longrightarrow>
      frames (snd (visualize_by_license_type env data a w)) =
        (frames w)(data := strip_columns (frames w data)) \<and>
      columns (frames (snd (visualize_by_license_type env data a w)) data) =
        map strip (columns (frames w data)) \<and>
      frames (snd (visualize_by_language env data a (snd (visualize_by_license_type env data a w)))) =
        frames (snd (visualize_by_license_type env data a w))) \<and>
   (fst (visualize_by_language env data a w) = Inr () \<longrightarrow>
      frames (snd (visualize_by_language env data a w)) =
        (frames w)(data := strip_columns (frames w data)) \<and>
      columns (frames (snd (visualize_by_language env data a w)) data) =
        map strip (columns (frames w data))) \<and>
   (raises env (FetchAndMerge (paths_repo env)) = None \<and> cli env = Inr opts \<and>
    merged_tree env (files w) (input_path env (args_of env opts)) = Some (CsvFile cs) \<and>
    \<not> empty_frame \<lparr>cols = cs\<rparr> \<and> fst (main env w) = Inr () \<longrightarrow>
      next_ref (snd (main env w)) = Suc (next_ref w) \<and>
      frames (snd (main env w)) = (frames w)(next_ref w := strip_columns \<lparr>cols = cs\<rparr>))"
proof (intro conjI; rule impI)
  let ?w1 = "snd (visualize_by_country env data a w)"
  let ?w2 = "snd (visualize_by_license_type env data a ?w1)"
  let ?w3 = "snd (visualize_by_language env data a ?w2)"
  assume ok: "fst (visualize_by_country env data a w) = Inr ()"
  with country_effect [of env a data w]
  have s: "frames ?w1 = (frames w)(data := strip_columns (frames w data))"
    by (simp add: report_effect_def)
  then have once: "strip_columns (frames ?w1 data) = frames ?w1 data"
    by (simp add: strip_columns_idem)
  have f2: "frame_effect data ?w1 ?w2"
    by (rule report_frame_effect [OF license_effect])
  have f3: "frame_effect data ?w2 ?w3"
    by (rule report_frame_effect [OF language_effect])
  from f2 once have l: "frames ?w2 = frames ?w1"
    by (auto simp add: frame_effect_def)
  from frame_effect_trans [OF f2 f3] once have g: "frames ?w3 = frames ?w1"
    by (auto simp add: frame_effect_def)
  from s have c: "columns (frames ?w1 data) = map strip (columns (frames w data))"
    by (simp add: columns_strip_columns)
  show "frames ?w1 = (frames w)(data := strip_columns (frames w data)) \<and>
      columns (frames ?w1 data) = map strip (columns (frames w data)) \<and>
      map strip (columns (frames ?w1 data)) = columns (frames ?w1 data) \<and>
      frames ?w2 = frames ?w1 \<and> frames ?w3 = frames ?w1"
    using s c l g by (simp add: strip_strip)
next
  assume "cols (frames w data) \<noteq> []"
  from license_strips [OF this]
  show "frames (snd (visualize_by_license_type env data a w)) =
        (frames w)(data := strip_columns (frames w data)) \<and>
      columns (frames (snd (visualize_by_license_type env data a w)) data) =
        map strip (columns (frames w data))"
    by (simp add: columns_strip_columns)
next
  let ?w1 = "snd (visualize_by_license_type env data a w)"
  let ?w2 = "snd (visualize_by_language env data a ?w1)"
  assume "fst (visualize_by_license_type env data a w) = Inr ()"
  from report_ok_chart(2) [OF this] obtain c where "license_chart a (frames w data) = Inr c" ..
  from license_frames [OF this]
  have s: "frames ?w1 = (frames w)(data := strip_columns (frames w data))" .
  then have once: "strip_columns (frames ?w1 data) = frames ?w1 data"
    by (simp add: strip_columns_idem)
  have "frame_effect data ?w1 ?w2"
    by (rule report_frame_effect [OF language_effect])
  with once have g: "frames ?w2 = frames ?w1"
    by (auto simp add: frame_effect_def)
  from s g show "frames ?w1 = (frames w)(data := strip_columns (frames w data)) \<and>
      columns (frames ?w1 data) = map strip (columns (frames w data)) \<and>
      frames ?w2 = frames ?w1"
    by (simp add: columns_strip_columns)
next
  assume "fst (visualize_by_language env data a w) = Inr ()"
  from report_ok_chart(3) [OF this] obtain c where "language_chart a (frames w data) = Inr c" ..
  from language_frames [OF this]
  show "frames (snd (visualize_by_language env data a w)) =
        (frames w)(data := strip_columns (frames w data)) \<and>
      columns (frames (snd (visualize_by_language env data a w)) data) =
        map strip (columns (frames w data))"
    by (simp add: columns_strip_columns)
next
  let ?a = "args_of env opts"
  let ?w4 = "log_info [Lit (''Current working directory: '' @ getcwd env)]
            (log_info [Lit (''Data loaded from '' @ input_path env ?a)]
              ((log_info [Lit ''Parsing command-line arguments'']
                 ((emit (FetchAndMerge (paths_repo env)) w)\<lparr>files := merged_tree env (files w)\<rparr>))
               \<lparr>frames := (frames w)(next_ref w := \<lparr>cols = cs\<rparr>), next_ref := Suc (next_ref w)\<rparr>))"
  let ?R = "reports env (next_ref w) ?a ?w4"
  assume h: "raises env (FetchAndMerge (paths_repo env)) = None \<and> cli env = Inr opts \<and>
    merged_tree env (files w) (input_path env (args_of env opts)) = Some (CsvFile cs) \<and>
    \<not> empty_frame \<lparr>cols = cs\<rparr> \<and> fst (main env w) = Inr ()"
  then have m: "main env w = and_then ?R (\<lambda>u w7. finish env ?a w7)"
    by (intro main_full_run) simp_all
  have w4: "frames ?w4 = (frames w)(next_ref w := \<lparr>cols = cs\<rparr>)" "next_ref ?w4 = Suc (next_ref w)"
    by (simp_all add: log_info_simps)
  obtain r w7 where R: "?R = (r, w7)" by (cases ?R)
  show "next_ref (snd (main env w)) = Suc (next_ref w) \<and>
      frames (snd (main env w)) = (frames w)(next_ref w := strip_columns \<lparr>cols = cs\<rparr>)"
  proof (cases r)
    case (Inl e)
    with m R have "fst (main env w) = Inl e" by (simp add: and_then_simps)
    with h show ?thesis by simp
  next
    case (Inr u)
    with m R have mf: "main env w = finish env ?a w7" by (simp add: and_then_simps)
    from reports_frame_effect [of "next_ref w" ?w4 env ?a] R Inr
    have "next_ref w7 = next_ref ?w4"
      "frames w7 = (frames ?w4)(next_ref w := strip_columns (frames ?w4 (next_ref w)))"
      by (simp_all add: frame_effect_def)
    then show ?thesis
      unfolding mf finish_static w4 by simp
  qed
qed

lemma and_then_ok:
  assumes "fst m = Inr ()" and "\<And>w'. fst (f () w') = Inr ()"
  shows "fst (and_then m f) = Inr ()"
  using assms by (cases m) (simp add: and_then_def)

subsection \<open>A full run on the fixture\<close>

lemma fixture_country_ok:
  assumes "frames w data = fixture"
  shows "fst (visualize_by_country (demo_env None) data a w) = Inr ()"
  by (simp add: country_result assms fixture_charts demo_env_simps)

lemma fixture_license_ok:
  assumes "frames w data = fixture"
  shows "fst (visualize_by_license_type (demo_env None) data a w) = Inr ()"
  by (simp add: license_result assms fixture_charts demo_env_simps)

lemma fixture_language_ok:
  assumes "frames w data = fixture"
  shows "fst (visualize_by_language (demo_env None) data a w) = Inr ()"
  by (simp add: language_result assms fixture_charts demo_env_simps)

lemma stripped_license_ok:
  assumes "frames w data = strip_columns fixture"
  shows "fst (visualize_by_license_type (demo_env None) data a w) = Inr ()"
  by (simp add: license_result assms chart_stripped fixture_charts demo_env_simps)

lemma stripped_language_ok:
  assumes "frames w data = strip_columns fixture"
  shows "fst (visualize_by_language (demo_env None) data a w) = Inr ()"
  by (simp add: language_result assms chart_stripped fixture_charts demo_env_simps)

lemma finish_ok: "(\<And>ev. raises env ev = None) \<Longrightarrow> fst (finish env a w) = Inr ()"
  by (simp add: finish_def add_and_commit_def push_changes_def call_def and_then_simps)

lemma reports_fixture_ok:
  assumes "frames w data = fixture"
  shows "fst (reports (demo_env None) data a w) = Inr ()"
proof -
  let ?w1 = "snd (visualize_by_country (demo_env None) data a w)"
  let ?w2 = "snd (visualize_by_license_type (demo_env None) data a ?w1)"
  have c: "fst (visualize_by_country (demo_env None) data a w) = Inr ()"
    by (rule fixture_country_ok [OF assms])
  with country_effect [of "demo_env None" a data w] assms
  have f1: "frames ?w1 data = strip_columns fixture"
    by (simp add: report_effect_def)
  have l: "fst (visualize_by_license_type (demo_env None) data a ?w1) = Inr ()"
    by (rule stripped_license_ok [OF f1])
  from report_frame_effect [OF license_effect [of "demo_env None" a data ?w1]] f1
  have f2: "frames ?w2 data = strip_columns fixture"
    by (auto simp add: frame_effect_def strip_columns_idem)
  have g: "fst (visualize_by_language (demo_env None) data a ?w2) = Inr ()"
    by (rule stripped_language_ok [OF f2])
  show ?thesis
    using c l g by (cases rule: reports_cases [of "demo_env None" data a w]) simp_all
qed

lemma fixture_world_simps:
  "merged_tree (demo_env None) (files fixture_world)
     (input_path (demo_env None)
       (args_of (demo_env None) \<lparr>opt_quarter = Some ''2024Q2'', opt_skip_commit = False,
          opt_skip_push = False, opt_show_plots = False\<rparr>)) = Some (CsvFile (cols fixture))"
  "next_ref fixture_world = 0" "trace fixture_world = []"
  "\<not> empty_frame \<lparr>cols = cols fixture\<rparr>"
  by (simp_all add: demo_input_path demo_env_simps fixture_world_def empty_frame_def nrows_def
      fixture_def)

lemma main_fixture_ok: "fst (main (demo_env None) fixture_world) = Inr ()"
proof -
  let ?opts = "\<lparr>opt_quarter = Some ''2024Q2'', opt_skip_commit = False,
          opt_skip_push = False, opt_show_plots = False\<rparr>"
  note m = main_full_run [OF demo_env_simps(1) demo_env_simps(4) fixture_world_simps(1)
      fixture_world_simps(4)]
  show ?thesis
    unfolding m
    by (rule and_then_ok [OF reports_fixture_ok finish_ok])
      (simp_all add: log_info_simps fixture_world_simps demo_env_simps)
qed

theorem headers_stripped_in_place_witness:
  "fst (visualize_by_country (demo_env None) 0 demo_args (world_with fixture)) = Inr () \<and>
   columns (frames (world_with fixture) 0) =
     [''LICENSE TYPE '', '' United States'', ''Canada '', ''Japan'', ''English'', ''Spanish'',
      ''Indonesian ''] \<and>
   columns (frames (snd (visualize_by_country (demo_env None) 0 demo_args (world_with fixture))) 0) =
     [''LICENSE TYPE'', ''United States'', ''Canada'', ''Japan'', ''English'', ''Spanish'',
      ''Indonesian''] \<and>
   frames (snd (visualize_by_license_type (demo_env None) 0 demo_args
       (snd (visualize_by_country (demo_env None) 0 demo_args (world_with fixture))))) =
     frames (snd (visualize_by_country (demo_env None) 0 demo_args (world_with fixture))) \<and>
   cols (frames (world_with fixture) 0) \<noteq> [] \<and>
   fst (visualize_by_license_type (demo_env None) 0 demo_args (world_with fixture)) = Inr () \<and>
   columns (frames (snd (visualize_by_license_type (demo_env None) 0 demo_args (world_with fixture))) 0) =
     [''LICENSE TYPE'', ''United States'', ''Canada'', ''Japan'', ''English'', ''Spanish'',
      ''Indonesian''] \<and>
   fst (visualize_by_language (demo_env None) 0 demo_args (world_with fixture)) = Inr () \<and>
   columns (frames (snd (visualize_by_language (demo_env None) 0 demo_args (world_with fixture))) 0) =
     [''LICENSE TYPE'', ''United States'', ''Canada'', ''Japan'', ''English'', ''Spanish'',
      ''Indonesian''] \<and>
   raises (demo_env None) (FetchAndMerge (paths_repo (demo_env None))) = None \<and>
   \<not> empty_frame \<lparr>cols = cols fixture\<rparr> \<and>
   fst (main (demo_env None) fixture_world) = Inr () \<and>
   next_ref (snd (main (demo_env None) fixture_world)) = 1 \<and>
   frames (snd (main (demo_env None) fixture_world)) 0 = strip_columns fixture"
proof -
  have f: "frames (world_with fixture) 0 = fixture"
    by (simp add: world_with_simps)
  have raw: "columns fixture =
     [''LICENSE TYPE '', '' United States'', ''Canada '', ''Japan'', ''English'', ''Spanish'',
      ''Indonesian '']"
    by (simp add: columns_def fixture_def)
  have ne: "cols fixture \<noteq> []"
    by (simp add: fixture_def)
  have whole: "\<lparr>cols = cols fixture\<rparr> = fixture"
    by simp
  show ?thesis
    using headers_stripped_in_place [of "demo_env None" 0 demo_args "world_with fixture"
        "\<lparr>opt_quarter = Some ''2024Q2'', opt_skip_commit = False,
          opt_skip_push = False, opt_show_plots = False\<rparr>" "cols fixture"]
      headers_stripped_in_place [of "demo_env None" 0 demo_args fixture_world
        "\<lparr>opt_quarter = Some ''2024Q2'', opt_skip_commit = False,
          opt_skip_push = False, opt_show_plots = False\<rparr>" "cols fixture"]
      fixture_country_ok [OF f, of demo_args] fixture_license_ok [OF f, of demo_args]
      fixture_language_ok [OF f, of demo_args] main_fixture_ok fixture_world_simps
      demo_env_simps(1) demo_env_simps(4) [of None] ne
    unfolding whole f fixture_headers raw
    by (simp add: columns_strip_columns raw strip_examples strip_fixture)
qed

subsection \<open>The order of the steps\<close>

lemma run_prefix_and_then:
  assumes "run_prefix p1 w m"
    and "\<And>x w1. m = (Inr x, w1) \<Longrightarrow> run_prefix p2 w1 (f x w1)"
  shows "run_prefix (p1 @ p2) w (and_then m f)"
proof (cases m)
  case (Pair r w1)
  from assms(1) Pair obtain evs rest where e: "trace w1 = trace w @ evs" "steps_of evs @ rest = p1"
      "(\<exists>x. r = Inr x) \<longrightarrow> rest = []"
    by (auto simp add: run_prefix_def)
  show ?thesis
  proof (cases r)
    case (Inl err)
    have "trace (snd (and_then m f)) = trace w @ evs" "steps_of evs @ (rest @ p2) = p1 @ p2"
      "\<not> (\<exists>x. fst (and_then m f) = Inr x)"
      using Pair Inl e by (simp_all add: and_then_simps)
    then show ?thesis
      unfolding run_prefix_def by blast
  next
    case (Inr x)
    with e have p1: "steps_of evs = p1" by simp
    from assms(2) [of x w1] Pair Inr obtain evs2 rest2 where
      e2: "trace (snd (f x w1)) = trace w1 @ evs2" "steps_of evs2 @ rest2 = p2"
        "(\<exists>y. fst (f x w1) = Inr y) \<longrightarrow> rest2 = []"
      by (auto simp add: run_prefix_def)
    have "trace (snd (and_then m f)) = trace w @ (evs @ evs2)"
      "steps_of (evs @ evs2) @ rest2 = p1 @ p2"
      "(\<exists>y. fst (and_then m f) = Inr y) \<longrightarrow> rest2 = []"
      using Pair Inr e(1) p1 e2 by (simp_all add: and_then_simps steps_of_simps)
    then show ?thesis
      unfolding run_prefix_def by blast
  qed
qed

lemma run_prefix_quiet:
  assumes "run_prefix p (log_info [Lit m] w) res" and "step_of_message m = None"
  shows "run_prefix p w res"
proof -
  from assms(1) obtain evs rest where "trace (snd res) = trace w @ (Log INFO [Lit m] # evs)"
      "steps_of evs @ rest = p" "(\<exists>x. fst res = Inr x) \<longrightarrow> rest = []"
    by (auto simp add: run_prefix_def log_info_simps)
  moreover have "steps_of (Log INFO [Lit m] # evs) = steps_of evs"
    using assms(2) by (simp add: steps_of_simps)
  ultimately show ?thesis
    unfolding run_prefix_def by metis
qed

lemma run_prefix_one:
  assumes "trace (snd res) = trace w @ [ev]" and "step_of ev = Some s"
  shows "run_prefix [s] w res"
proof -
  have "steps_of [ev] @ [] = [s]" using assms(2) by (simp add: steps_of_simps)
  with assms(1) show ?thesis
    unfolding run_prefix_def by blast
qed

lemma run_prefix_return: "run_prefix [] w (Inr x, w)"
  by (simp add: run_prefix_def steps_of_simps)

lemma fetch_run: "run_prefix [Pull] w (fetch_and_merge env repo w)"
proof (rule run_prefix_one)
  show "trace (snd (fetch_and_merge env repo w)) = trace w @ [FetchAndMerge repo]"
    by (simp add: fetch_and_merge_def call_def and_then_simps emit_simps split: option.splits)
  show "step_of (FetchAndMerge repo) = Some Pull" by simp
qed

lemma parse_run: "run_prefix [ParseArgs] w (parse_arguments env w)"
proof (rule run_prefix_one)
  show "trace (snd (parse_arguments env w)) =
      trace w @ [Log INFO [Lit ''Parsing command-line arguments'']]"
    by (simp add: parse_arguments_def Let_def log_info_simps split: sum.splits)
  show "step_of (Log INFO [Lit ''Parsing command-line arguments'']) = Some ParseArgs"
    by (simp add: step_of_message_simps)
qed

lemma load_data_effect:
  "(\<exists>e. load_data env a w = (Inl e, w)) \<or>
   (\<exists>w3 l m. load_data env a w = (Inr (next_ref w), w3) \<and>
      trace w3 = trace w @ [Log l [Lit m]] \<and> step_of_message m = Some LoadData \<and>
      files w3 = files w \<and> next_ref w3 = Suc (next_ref w) \<and>
      (\<forall>r. r \<noteq> next_ref w \<longrightarrow> frames w3 r = frames w r))"
proof (cases "files w (input_path env a)")
  case None
  let ?m = "''Data file not found: '' @ input_path env a"
  let ?w3 = "(log_error [Lit ?m] w)
        \<lparr>frames := (frames w)(next_ref w := DataFrame), next_ref := Suc (next_ref w)\<rparr>"
  have 1: "load_data env a w = (Inr (next_ref w), ?w3)"
    by (rule load_data_missing [OF None])
  have 2: "trace ?w3 = trace w @ [Log ERROR [Lit ?m]]"
    by (simp add: log_error_simps)
  have 3: "step_of_message ?m = Some LoadData"
    by (rule step_of_message_simps)
  have 4: "files ?w3 = files w" "next_ref ?w3 = Suc (next_ref w)"
    "\<forall>r. r \<noteq> next_ref w \<longrightarrow> frames ?w3 r = frames w r"
    by (simp_all add: log_error_simps)
  show ?thesis
    using 1 2 3 4 by blast
next
  case (Some f)
  show ?thesis
  proof (cases f)
    case (CsvFile cs)
    show ?thesis
    proof (cases "cs = []")
      case True
      with Some CsvFile have "load_data env a w = (Inl EmptyDataError, w)"
        by (simp add: load_data_def input_path_def Let_def)
      then show ?thesis by blast
    next
      case False
      from Some CsvFile have "files w (input_path env a) = Some (CsvFile cs)" by simp
      note ld = load_data_present [OF this False]
      let ?m = "''Data loaded from '' @ input_path env a"
      let ?w3 = "log_info [Lit ?m]
        (w\<lparr>frames := (frames w)(next_ref w := \<lparr>cols = cs\<rparr>), next_ref := Suc (next_ref w)\<rparr>)"
      have 2: "trace ?w3 = trace w @ [Log INFO [Lit ?m]]"
        by (simp add: log_info_simps)
      have 3: "step_of_message ?m = Some LoadData"
        by (rule step_of_message_simps)
      have 4: "files ?w3 = files w" "next_ref ?w3 = Suc (next_ref w)"
        "\<forall>r. r \<noteq> next_ref w \<longrightarrow> frames ?w3 r = frames w r"
        by (simp_all add: log_info_simps)
      show ?thesis
        using ld 2 3 4 by blast
    qed
  next
    case (PngFile c)
    with Some have "load_data env a w = (Inl UnicodeDecodeError, w)"
      by (simp add: load_data_def input_path_def Let_def)
    then show ?thesis by blast
  qed
qed

lemma load_run: "run_prefix [LoadData] w (load_data env a w)"
  using load_data_effect [of env a w]
proof
  assume "\<exists>e. load_data env a w = (Inl e, w)"
  then obtain e where "load_data env a w = (Inl e, w)" ..
  then have "trace (snd (load_data env a w)) = trace w @ []" "steps_of [] @ [LoadData] = [LoadData]"
    "\<not> (\<exists>x. fst (load_data env a w) = Inr x)"
    by (simp_all add: steps_of_simps)
  then show ?thesis
    unfolding run_prefix_def by blast
next
  assume "\<exists>w3 l m. load_data env a w = (Inr (next_ref w), w3) \<and>
      trace w3 = trace w @ [Log l [Lit m]] \<and> step_of_message m = Some LoadData \<and>
      files w3 = files w \<and> next_ref w3 = Suc (next_ref w) \<and>
      (\<forall>r. r \<noteq> next_ref w \<longrightarrow> frames w3 r = frames w r)"
  then obtain w3 l m where "load_data env a w = (Inr (next_ref w), w3)"
    "trace w3 = trace w @ [Log l [Lit m]]" "step_of_message m = Some LoadData"
    by blast
  then show ?thesis
    by (intro run_prefix_one [of _ _ "Log l [Lit m]"]) simp_all
qed

lemma report_run: "report_effect s p data w res \<Longrightarrow> run_prefix [s] w res"
proof -
  assume "report_effect s p data w res"
  then obtain evs where "trace (snd res) = trace w @ evs" "steps_of evs @ [] = [s]"
    by (auto simp add: report_effect_def)
  then show ?thesis
    unfolding run_prefix_def by blast
qed

lemma reports_run:
  "run_prefix [CountryReport, LicenseReport, LanguageReport] w (reports env data a w)"
proof -
  have "run_prefix ([CountryReport] @ [LicenseReport] @ [LanguageReport]) w (reports env data a w)"
    unfolding reports_def
    by (intro run_prefix_and_then report_run [OF country_effect] report_run [OF license_effect]
        report_run [OF language_effect])
  then show ?thesis by simp
qed

lemma finish_run: "run_prefix (commit_plan a) w (finish env a w)"
proof -
  have c: "run_prefix (if skip_commit a then [] else [Commit]) w
      (if \<not> skip_commit a
       then add_and_commit env (paths_repo env) ''Added and committed new reports'' w
       else (Inr (), w))"
    by (simp add: run_prefix_return add_and_commit_def)
      (intro impI run_prefix_one [of _ _ "AddAndCommit (paths_repo env) ''Added and committed new reports''"],
        simp_all add: call_world)
  have p: "run_prefix (if skip_push a then [] else [Push]) w1
      (if \<not> skip_push a then push_changes env (paths_repo env) w1 else (Inr (), w1))" for w1
    by (simp add: run_prefix_return push_changes_def)
      (intro impI run_prefix_one [of _ _ "PushChanges (paths_repo env)"], simp_all add: call_world)
  show ?thesis
    unfolding finish_def commit_plan_def
    by (rule run_prefix_and_then [OF c p])
qed

lemma planned_steps_args:
  "planned_steps opts =
     [Pull, ParseArgs, LoadData] @ [CountryReport, LicenseReport, LanguageReport]
       @ commit_plan (args_of env opts)"
  by (simp add: planned_steps_def commit_plan_def args_of_def)

lemma tail_run:
  "run_prefix ([CountryReport, LicenseReport, LanguageReport] @ commit_plan a) w
     (and_then (reports env data a (log_info [Lit (''Current working directory: '' @ getcwd env)] w))
        (\<lambda>u w7. finish env a w7))"
  by (rule run_prefix_quiet [OF run_prefix_and_then [OF reports_run finish_run]
        step_of_message_simps(10)])

lemma tail_frames:
  assumes "fst (and_then (reports env data a w) (\<lambda>u w7. finish env a w7)) = Inr ()"
  shows "empty_frame (frames (snd (and_then (reports env data a w) (\<lambda>u w7. finish env a w7))) data) =
     empty_frame (frames w data)"
proof (cases "reports env data a w")
  case (Pair r w7)
  show ?thesis
  proof (cases r)
    case (Inl e)
    with Pair assms show ?thesis by (simp add: and_then_simps)
  next
    case (Inr u)
    from reports_frame_effect [of data w env a] Pair
    have "frames w7 data = frames w data \<or> frames w7 data = strip_columns (frames w data)"
      by (auto simp add: frame_effect_def)
    then have "empty_frame (frames w7 data) = empty_frame (frames w data)"
      by (auto simp add: empty_frame_strip_columns)
    with Pair Inr show ?thesis
      by (simp add: and_then_simps finish_static)
  qed
qed

lemma main_steps:
  assumes "cli env = Inr opts"
  shows "\<exists>evs rest. trace (snd (main env w)) = trace w @ evs \<and>
           steps_of evs @ rest = planned_steps opts \<and>
           (fst (main env w) = Inr () \<longrightarrow>
              steps_of evs = (if empty_frame (frames (snd (main env w)) (next_ref w))
                              then [Pull, ParseArgs, LoadData] else planned_steps opts))"
proof (cases "raises env (FetchAndMerge (paths_repo env))")
  case (Some e)
  have "trace (snd (main env w)) = trace w @ [FetchAndMerge (paths_repo env)]"
    "steps_of [FetchAndMerge (paths_repo env)] @ tl (planned_steps opts) = planned_steps opts"
    "fst (main env w) \<noteq> Inr ()"
    unfolding main_pull_raises [OF Some]
    by (simp_all add: emit_simps steps_of_simps planned_steps_def)
  then show ?thesis by blast
next
  case None
  let ?a = "args_of env opts"
  let ?w2 = "log_info [Lit ''Parsing command-line arguments'']
             ((emit (FetchAndMerge (paths_repo env)) w)\<lparr>files := merged_tree env (files w)\<rparr>)"
  let ?pre = "[FetchAndMerge (paths_repo env), Log INFO [Lit ''Parsing command-line arguments'']]"
  have w2: "trace ?w2 = trace w @ ?pre" "next_ref ?w2 = next_ref w"
    by (simp_all add: log_info_simps emit_simps)
  have pre: "steps_of ?pre = [Pull, ParseArgs]"
    by (simp add: steps_of_simps step_of_message_simps)
  have m: "main env w =
      and_then (load_data env ?a ?w2) (\<lambda>data w3.
        if empty_frame (frames w3 data) then (Inr (), w3)
        else and_then
               (reports env data ?a (log_info [Lit (''Current working directory: '' @ getcwd env)] w3))
               (\<lambda>u w7. finish env ?a w7))"
    by (simp add: main_stages fetch_and_merge_ok [OF None] parse_arguments_ok [OF assms]
        and_then_simps)
  from load_data_effect [of env ?a ?w2] show ?thesis
  proof
    assume "\<exists>e. load_data env ?a ?w2 = (Inl e, ?w2)"
    then obtain e where "load_data env ?a ?w2 = (Inl e, ?w2)" ..
    then have "main env w = (Inl e, ?w2)"
      unfolding m by (simp add: and_then_simps)
    then have "trace (snd (main env w)) = trace w @ ?pre"
      "steps_of ?pre @ drop 2 (planned_steps opts) = planned_steps opts"
      "fst (main env w) \<noteq> Inr ()"
      using w2 pre by (simp_all add: planned_steps_def)
    then show ?thesis by blast
  next
    assume "\<exists>w3 l msg. load_data env ?a ?w2 = (Inr (next_ref ?w2), w3) \<and>
      trace w3 = trace ?w2 @ [Log l [Lit msg]] \<and> step_of_message msg = Some LoadData \<and>
      files w3 = files ?w2 \<and> next_ref w3 = Suc (next_ref ?w2) \<and>
      (\<forall>r. r \<noteq> next_ref ?w2 \<longrightarrow> frames w3 r = frames ?w2 r)"
    then obtain w3 l msg where ld: "load_data env ?a ?w2 = (Inr (next_ref w), w3)"
      and tr: "trace w3 = trace w @ (?pre @ [Log l [Lit msg]])"
      and st: "step_of_message msg = Some LoadData"
      unfolding w2 by auto
    have three: "steps_of (?pre @ [Log l [Lit msg]]) = [Pull, ParseArgs, LoadData]"
      using st by (simp add: steps_of_simps step_of_message_simps)
    show ?thesis
    proof (cases "empty_frame (frames w3 (next_ref w))")
      case True
      then have r: "main env w = (Inr (), w3)"
        unfolding m ld by (simp add: and_then_simps)
      have "trace (snd (main env w)) = trace w @ (?pre @ [Log l [Lit msg]])"
        "steps_of (?pre @ [Log l [Lit msg]]) @ drop 3 (planned_steps opts) = planned_steps opts"
        "empty_frame (frames (snd (main env w)) (next_ref w))"
        unfolding three unfolding r using tr True by (simp_all add: planned_steps_def)
      with three show ?thesis by (metis (full_types))
    next
      case False
      let ?T = "and_then
               (reports env (next_ref w) ?a
                  (log_info [Lit (''Current working directory: '' @ getcwd env)] w3))
               (\<lambda>u w7. finish env ?a w7)"
      from False have r: "main env w = ?T"
        unfolding m ld by (simp add: and_then_simps)
      from tail_run [of ?a w3 env "next_ref w"] obtain evs rest where
        t: "trace (snd ?T) = trace w3 @ evs"
          "steps_of evs @ rest = [CountryReport, LicenseReport, LanguageReport] @ commit_plan ?a"
          "(\<exists>x. fst ?T = Inr x) \<longrightarrow> rest = []"
        unfolding run_prefix_def by blast
      have a: "trace (snd (main env w)) = trace w @ ((?pre @ [Log l [Lit msg]]) @ evs)"
        unfolding r t(1) tr by simp
      have "steps_of ((?pre @ [Log l [Lit msg]]) @ evs) = [Pull, ParseArgs, LoadData] @ steps_of evs"
        by (subst steps_of_simps(3), subst three, rule refl)
      then have b: "steps_of ((?pre @ [Log l [Lit msg]]) @ evs) @ rest = planned_steps opts"
        unfolding planned_steps_args [of opts env] using t(2) by simp
      have c: "fst (main env w) = Inr () \<longrightarrow>
          rest = [] \<and> \<not> empty_frame (frames (snd (main env w)) (next_ref w))"
      proof
        assume ok: "fst (main env w) = Inr ()"
        with r t(3) have "rest = []" by simp
        moreover from ok r tail_frames [of env "next_ref w" ?a
            "log_info [Lit (''Current working directory: '' @ getcwd env)] w3"] False
        have "\<not> empty_frame (frames (snd (main env w)) (next_ref w))"
          by (simp add: log_info_simps)
        ultimately show "rest = [] \<and> \<not> empty_frame (frames (snd (main env w)) (next_ref w))" ..
      qed
      from a b c show ?thesis
        by (intro exI [of _ "(?pre @ [Log l [Lit msg]]) @ evs"] exI [of _ rest]) auto
    qed
  qed
qed

text \<open>
  C7. Every run performs its steps in the fixed order: pull, parse the options, load
  the data, country report, license-type report, language report, commit unless
  \<open>--skip-commit\<close>, push unless \<open>--skip-push\<close> or \<open>--skip-commit\<close>. The steps of
  any run are a beginning of that plan; a run that returns normally has performed the
  first three steps when the loaded record set is empty and the whole plan otherwise.
  When the command line is rejected the run ends after the first two steps. Parsing
  with \<open>--skip-commit\<close> sets \<open>skip_push\<close>.
\<close>

theorem run_order:
  "(cli env = Inr opts \<longrightarrow>
      (\<exists>evs rest. trace (snd (main env w)) = trace w @ evs \<and>
         steps_of evs @ rest = planned_steps opts \<and>
         (fst (main env w) = Inr () \<longrightarrow>
            steps_of evs = (if empty_frame (frames (snd (main env w)) (next_ref w))
                            then [Pull, ParseArgs, LoadData] else planned_steps opts)))) \<and>
   (cli env = Inl code \<longrightarrow>
      fst (main env w) \<noteq> Inr () \<and>
      (\<exists>evs rest. trace (snd (main env w)) = trace w @ evs \<and>
         steps_of evs @ rest = [Pull, ParseArgs])) \<and>
   (parse_arguments env w = (Inr a, w') \<and> skip_commit a \<longrightarrow> skip_push a)"
proof (intro conjI impI)
  assume "cli env = Inr opts"
  then show "\<exists>evs rest. trace (snd (main env w)) = trace w @ evs \<and>
         steps_of evs @ rest = planned_steps opts \<and>
         (fst (main env w) = Inr () \<longrightarrow>
            steps_of evs = (if empty_frame (frames (snd (main env w)) (next_ref w))
                            then [Pull, ParseArgs, LoadData] else planned_steps opts))"
    by (rule main_steps)
next
  assume rejected: "cli env = Inl code"
  have "fst (main env w) \<noteq> Inr () \<and>
      (\<exists>evs rest. trace (snd (main env w)) = trace w @ evs \<and> steps_of evs @ rest = [Pull, ParseArgs])"
  proof (cases "raises env (FetchAndMerge (paths_repo env))")
    case (Some e)
    have "trace (snd (main env w)) = trace w @ [FetchAndMerge (paths_repo env)]"
      "steps_of [FetchAndMerge (paths_repo env)] @ [ParseArgs] = [Pull, ParseArgs]"
      "fst (main env w) \<noteq> Inr ()"
      unfolding main_pull_raises [OF Some] by (simp_all add: emit_simps steps_of_simps)
    then show ?thesis by blast
  next
    case None
    let ?pre = "[FetchAndMerge (paths_repo env), Log INFO [Lit ''Parsing command-line arguments'']]"
    have "main env w = (Inl (SystemExit code),
        log_info [Lit ''Parsing command-line arguments'']
          ((emit (FetchAndMerge (paths_repo env)) w)\<lparr>files := merged_tree env (files w)\<rparr>))"
      using rejected
      by (simp add: main_stages fetch_and_merge_ok [OF None] parse_arguments_def Let_def
          and_then_simps)
    then have "trace (snd (main env w)) = trace w @ ?pre" "steps_of ?pre @ [] = [Pull, ParseArgs]"
      "fst (main env w) \<noteq> Inr ()"
      by (simp_all add: log_info_simps emit_simps steps_of_simps step_of_message_simps)
    then show ?thesis by blast
  qed
  then show "fst (main env w) \<noteq> Inr ()"
    and "\<exists>evs rest. trace (snd (main env w)) = trace w @ evs \<and> steps_of evs @ rest = [Pull, ParseArgs]"
    by simp_all
next
  assume "parse_arguments env w = (Inr a, w') \<and> skip_commit a"
  then show "skip_push a"
    by (auto simp add: parse_arguments_def Let_def split: sum.splits if_splits)
qed

lemma main_fixture_frame:
  "\<not> empty_frame (frames (snd (main (demo_env None) fixture_world)) 0)"
proof -
  note m = main_full_run [OF demo_env_simps(1) demo_env_simps(4) fixture_world_simps(1)
      fixture_world_simps(4)]
  from main_fixture_ok have ok: "fst (main (demo_env None) fixture_world) = Inr ()" .
  show ?thesis
    using tail_frames [OF ok [unfolded m]] fixture_world_simps(4)
    unfolding m [symmetric]
    by (simp add: fixture_world_simps log_info_simps)
qed

lemma header_only_run:
  "fst (main (demo_env None) header_only_world) = Inr ()"
  "empty_frame (frames (snd (main (demo_env None) header_only_world)) 0)"
proof -
  let ?opts = "\<lparr>opt_quarter = Some ''2024Q2'', opt_skip_commit = False,
          opt_skip_push = False, opt_show_plots = False\<rparr>"
  let ?cs = "[(''LICENSE TYPE'', []), (''United States'', []), (''Japan'', [])]"
  let ?w2 = "log_info [Lit ''Parsing command-line arguments'']
      ((emit (FetchAndMerge (paths_repo (demo_env None))) header_only_world)
         \<lparr>files := merged_tree (demo_env None) (files header_only_world)\<rparr>)"
  have "files ?w2 (input_path (demo_env None) (args_of (demo_env None) ?opts)) = Some (CsvFile ?cs)"
    by (simp add: demo_input_path demo_env_simps header_only_world_def log_info_simps)
  from load_data_present [OF this]
  have ld: "load_data (demo_env None) (args_of (demo_env None) ?opts) ?w2 =
     (Inr (next_ref ?w2),
      log_info [Lit (''Data loaded from '' @ input_path (demo_env None) (args_of (demo_env None) ?opts))]
        (?w2\<lparr>frames := (frames ?w2)(next_ref ?w2 := \<lparr>cols = ?cs\<rparr>), next_ref := Suc (next_ref ?w2)\<rparr>))"
    by simp
  have e: "empty_frame \<lparr>cols = ?cs\<rparr>"
    by (simp add: empty_frame_def nrows_def)
  have m: "main (demo_env None) header_only_world = (Inr (),
      log_info [Lit (''Data loaded from '' @ input_path (demo_env None) (args_of (demo_env None) ?opts))]
        (?w2\<lparr>frames := (frames ?w2)(next_ref ?w2 := \<lparr>cols = ?cs\<rparr>), next_ref := Suc (next_ref ?w2)\<rparr>))"
    by (rule main_early_return [OF demo_env_simps(1) demo_env_simps(4) ld])
      (simp add: log_info_simps e)
  show "fst (main (demo_env None) header_only_world) = Inr ()"
    unfolding m by simp
  show "empty_frame (frames (snd (main (demo_env None) header_only_world)) 0)"
    unfolding m using e by (simp add: log_info_simps emit_simps header_only_world_def)
qed

theorem run_order_witness:
  "cli (demo_env None) = Inr \<lparr>opt_quarter = Some ''2024Q2'', opt_skip_commit = False,
          opt_skip_push = False, opt_show_plots = False\<rparr> \<and>
   fst (main (demo_env None) fixture_world) = Inr () \<and>
   steps_of (trace (snd (main (demo_env None) fixture_world))) =
     [Pull, ParseArgs, LoadData, CountryReport, LicenseReport, LanguageReport, Commit, Push] \<and>
   fst (main (demo_env None) header_only_world) = Inr () \<and>
   steps_of (trace (snd (main (demo_env None) header_only_world))) = [Pull, ParseArgs, LoadData] \<and>
   fst (parse_arguments skip_commit_env blank_world) =
     Inr \<lparr>quarter = ''2024Q4'', skip_commit = True, skip_push = True, show_plots = False\<rparr> \<and>
   skip_push \<lparr>quarter = ''2024Q4'', skip_commit = True, skip_push = True, show_plots = False\<rparr>"
proof -
  let ?opts = "\<lparr>opt_quarter = Some ''2024Q2'', opt_skip_commit = False,
          opt_skip_push = False, opt_show_plots = False\<rparr>"
  let ?a = "\<lparr>quarter = ''2024Q4'', skip_commit = True, skip_push = True, show_plots = False\<rparr>"
  have plan: "planned_steps ?opts =
      [Pull, ParseArgs, LoadData, CountryReport, LicenseReport, LanguageReport, Commit, Push]"
    by (simp add: planned_steps_def)
  have p: "parse_arguments skip_commit_env blank_world =
      (Inr ?a, log_info [Lit ''Parsing command-line arguments''] blank_world)"
    by (simp add: parse_arguments_def skip_commit_env_def demo_env_def Let_def)
  have hw: "next_ref header_only_world = 0" "trace header_only_world = []"
    by (simp_all add: header_only_world_def)
  show ?thesis
    using run_order [of "demo_env None" ?opts fixture_world ExitNone ?a blank_world]
      run_order [of "demo_env None" ?opts header_only_world ExitNone ?a blank_world]
      run_order [of skip_commit_env ?opts blank_world ExitNone ?a
        "log_info [Lit ''Parsing command-line arguments''] blank_world"]
      main_fixture_ok main_fixture_frame header_only_run
    by (simp add: demo_env_simps fixture_world_simps hw plan p)
qed

end
